(* ===== verification/Prelude.thy ===== *)
theory Prelude
  imports Main "HOL-Library.Multiset" "HOL-Library.Sublist"
begin

text \<open>
  Shared vocabulary of the development: the JavaScript primitives the resume
  builder's TypeScript calls (string truthiness and \<open>||\<close>, \<open>trim\<close>,
  \<open>toLowerCase\<close>, \<open>includes\<close>, \<open>replace\<close> with a string pattern, the
  character class \<open>[^a-zA-Z0-9]\<close>, \<open>Array.prototype.splice\<close>, the decimal
  rendering of a non-negative integer), each as an executable HOL function, with the
  lemmas the component theories share.

  A JavaScript string is a sequence of UTF-16 code units; it is modelled as a HOL
  \<open>string\<close>, one \<open>char\<close> per code unit. HOL's \<open>char\<close> has 256 values, so the
  model covers strings whose code units are in the Latin-1 range; every predicate
  below is the ECMAScript one restricted to that range.
\<close>

named_theorems js_simps "evaluation rules of the modelled JavaScript primitives"

type_synonym jstr = string

section \<open>Truthiness of optional strings\<close>

text \<open>
  \<open>v || d\<close> on a value of TypeScript type \<open>string | undefined\<close>: both
  \<open>undefined\<close> (\<open>None\<close>) and the empty string are falsy.
\<close>

definition js_or :: "jstr option \<Rightarrow> jstr \<Rightarrow> jstr" where
  "js_or v d = (case v of None \<Rightarrow> d | Some s \<Rightarrow> (if s = [] then d else s))"

definition js_truthy :: "jstr option \<Rightarrow> bool" where
  "js_truthy v = (case v of None \<Rightarrow> False | Some s \<Rightarrow> s \<noteq> [])"

lemma js_or_None [simp, js_simps]: "js_or None d = d"
  by (simp add: js_or_def)

lemma js_or_Some [simp, js_simps]: "js_or (Some s) d = (if s = [] then d else s)"
  by (simp add: js_or_def)

lemma js_or_truthy: "js_or v d = (if js_truthy v then the v else d)"
  by (simp add: js_or_def js_truthy_def split: option.splits)

lemma js_or_nonempty [intro]: "d \<noteq> [] \<Longrightarrow> js_or v d \<noteq> []"
  by (simp add: js_or_def split: option.splits)

section \<open>Characters\<close>

text \<open>The regular-expression class \<open>[a-zA-Z0-9]\<close>: ASCII letters and digits only.\<close>

definition is_alnum :: "char \<Rightarrow> bool" where
  "is_alnum c = (let n = of_char c :: nat in
     (48 \<le> n \<and> n \<le> 57) \<or> (65 \<le> n \<and> n \<le> 90) \<or> (97 \<le> n \<and> n \<le> 122))"

text \<open>
  ECMAScript \<open>WhiteSpace\<close> and \<open>LineTerminator\<close> code units below 256: tab,
  line feed, vertical tab, form feed, carriage return, space and no-break space.
\<close>

definition js_is_space :: "char \<Rightarrow> bool" where
  "js_is_space c = (of_char c \<in> ({9, 10, 11, 12, 13, 32, 160} :: nat set))"

text \<open>\<open>String.prototype.trim\<close>: strip white space at both ends.\<close>

definition js_trim :: "jstr \<Rightarrow> jstr" where
  "js_trim s = rev (dropWhile js_is_space (rev (dropWhile js_is_space s)))"

text \<open>
  \<open>String.prototype.toLowerCase\<close> on Latin-1 code units: \<open>A\<close>--\<open>Z\<close> and
  \<open>\<Agrave>\<close>--\<open>\<THORN>\<close> (but the multiplication sign, 215) move up by 32.
\<close>

definition js_lower_char :: "char \<Rightarrow> char" where
  "js_lower_char c = (let n = of_char c :: nat in
     if (65 \<le> n \<and> n \<le> 90) \<or> (192 \<le> n \<and> n \<le> 222 \<and> n \<noteq> 215)
     then char_of (n + 32) else c)"

definition js_to_lower :: "jstr \<Rightarrow> jstr" where
  "js_to_lower s = map js_lower_char s"

lemma is_alnum_not_space: "is_alnum c \<Longrightarrow> \<not> js_is_space c"
  by (auto simp: is_alnum_def js_is_space_def Let_def)

lemma is_alnum_not_dot [simp]: "\<not> is_alnum (CHR ''.'')"
  by (simp add: is_alnum_def)

lemma is_alnum_not_underscore [simp]: "\<not> is_alnum (CHR ''_'')"
  by (simp add: is_alnum_def)

section \<open>Trimming\<close>

lemma all_dropWhile_iff: "(\<forall>c \<in> set (dropWhile P s). P c) \<longleftrightarrow> dropWhile P s = []"
proof (cases "dropWhile P s = []")
  case False
  then have "\<not> P (hd (dropWhile P s))" by (rule hd_dropWhile)
  with False hd_in_set [OF False] show ?thesis by blast
qed (auto dest: set_dropWhileD)

lemma js_trim_empty_iff: "js_trim s = [] \<longleftrightarrow> (\<forall>c \<in> set s. js_is_space c)"
proof -
  have "rev (dropWhile js_is_space (rev t)) = [] \<longleftrightarrow> (\<forall>c \<in> set t. js_is_space c)" for t
    by (simp add: dropWhile_eq_Nil_conv)
  then have "js_trim s = [] \<longleftrightarrow> dropWhile js_is_space s = []"
    by (simp add: js_trim_def all_dropWhile_iff)
  then show ?thesis by (simp add: dropWhile_eq_Nil_conv)
qed

lemma js_trim_alnum_ends:
  assumes "s = a # m @ [b]" and "is_alnum a" and "is_alnum b"
  shows "js_trim s = s"
  using assms by (simp add: js_trim_def is_alnum_not_space)

lemma dropWhile_idem [simp]: "dropWhile P (dropWhile P xs) = dropWhile P xs"
  by (induction xs) auto

lemma js_trim_idem: "js_trim (js_trim s) = js_trim s"
proof -
  define u where "u = dropWhile js_is_space s"
  define v where "v = rev (dropWhile js_is_space (rev u))"
  have split: "u = v @ rev (takeWhile js_is_space (rev u))"
    unfolding v_def by (metis rev_append rev_rev_ident takeWhile_dropWhile_id)
  have "dropWhile js_is_space v = v"
  proof (cases v)
    case (Cons a w)
    from split Cons have "u \<noteq> []" and "hd u = a" by (metis append_Cons list.distinct(1), metis append_Cons list.sel(1))
    then have "\<not> js_is_space a" unfolding u_def by (metis hd_dropWhile)
    with Cons show ?thesis by simp
  qed simp
  then show ?thesis
    by (simp add: js_trim_def u_def [symmetric] v_def [symmetric]) (simp add: v_def)
qed

section \<open>Substrings\<close>

text \<open>\<open>String.prototype.includes\<close> with a string argument.\<close>

fun js_includes :: "jstr \<Rightarrow> jstr \<Rightarrow> bool" where
  "js_includes pat [] = (pat = [])"
| "js_includes pat (c # cs) = (prefix pat (c # cs) \<or> js_includes pat cs)"

lemma js_includes_sublist: "js_includes pat s \<longleftrightarrow> sublist pat s"
  by (induction s) (auto simp: sublist_Cons_right)

text \<open>
  \<open>String.prototype.replace\<close> with a string pattern: the first occurrence only
  (an empty pattern matches at position 0).
\<close>

fun js_replace_first :: "jstr \<Rightarrow> jstr \<Rightarrow> jstr \<Rightarrow> jstr" where
  "js_replace_first pat rep [] = (if pat = [] then rep else [])"
| "js_replace_first pat rep (c # cs) =
     (if prefix pat (c # cs) then rep @ drop (length pat) (c # cs)
      else c # js_replace_first pat rep cs)"

lemma js_replace_first_absent: "\<not> js_includes pat s \<Longrightarrow> js_replace_first pat rep s = s"
  by (induction s) auto

lemma prefix_Cons_notin: "x \<notin> set u \<Longrightarrow> u \<noteq> [] \<Longrightarrow> \<not> prefix (x # p) (u @ w)"
  by (cases u) auto

text \<open>
  Where the pattern's first character does not occur before it, the replacement
  happens exactly at the first occurrence: the fact the file-name code relies on.
\<close>

lemma js_replace_first_at:
  assumes "hd pat \<notin> set u" and "pat \<noteq> []"
  shows "js_replace_first pat rep (u @ pat @ v) = u @ rep @ v"
  using assms
proof (induction u)
  case Nil
  then show ?case by (cases pat) auto
next
  case (Cons c u)
  from Cons.prems have "\<not> prefix pat (c # u @ pat @ v)"
    by (cases pat) auto
  with Cons show ?case by simp
qed

lemma js_includes_at:
  "pat \<noteq> [] \<Longrightarrow> js_includes pat (u @ pat @ v)"
  by (simp add: js_includes_sublist)

section \<open>Array.prototype.splice\<close>

text \<open>
  \<open>items.splice(i, 1)\<close> for an index \<open>i \<ge> 0\<close>: in range it removes and returns
  the element at \<open>i\<close>; out of range it removes nothing and the destructured element
  is \<open>undefined\<close>, written \<open>None\<close>. \<open>items.splice(j, 0, x)\<close> inserts \<open>x\<close> before
  index \<open>j\<close>, clamping \<open>j\<close> to the length.
\<close>

definition del_at :: "nat \<Rightarrow> 'a list \<Rightarrow> 'a list" where
  "del_at i xs = take i xs @ drop (Suc i) xs"

definition splice_remove1 :: "nat \<Rightarrow> 'a list \<Rightarrow> ('a \<times> 'a list) option" where
  "splice_remove1 i xs = (if i < length xs then Some (xs ! i, del_at i xs) else None)"

definition splice_insert :: "nat \<Rightarrow> 'a \<Rightarrow> 'a list \<Rightarrow> 'a list" where
  "splice_insert j x xs = take j xs @ x # drop j xs"

lemma length_del_at [simp]: "i < length xs \<Longrightarrow> length (del_at i xs) = length xs - 1"
  by (simp add: del_at_def)

lemma length_splice_insert [simp]: "length (splice_insert j x xs) = Suc (length xs)"
  by (simp add: splice_insert_def)

lemma mset_del_at: "i < length xs \<Longrightarrow> mset (del_at i xs) + {#xs ! i#} = mset xs"
proof -
  assume i: "i < length xs"
  then have "xs = take i xs @ xs ! i # drop (Suc i) xs"
    by (simp add: id_take_nth_drop)
  then have "mset xs = mset (take i xs @ xs ! i # drop (Suc i) xs)"
    by simp
  then show ?thesis by (simp add: del_at_def)
qed

lemma mset_take_drop: "mset (take j xs) + mset (drop j xs) = mset xs"
  by (metis append_take_drop_id mset_append)

lemma mset_splice_insert [simp]: "mset (splice_insert j x xs) = mset xs + {#x#}"
  by (simp add: splice_insert_def mset_take_drop flip: add.assoc)

lemma set_splice_insert [simp]: "set (splice_insert j x xs) = insert x (set xs)"
  by (metis mset_splice_insert set_mset_mset set_mset_add_mset_insert add_mset_add_single)

lemma nth_splice_insert: "splice_insert j x xs ! min j (length xs) = x"
  by (simp add: splice_insert_def nth_append min_def)

lemma del_at_splice_insert: "del_at (min j (length xs)) (splice_insert j x xs) = xs"
  by (simp add: splice_insert_def del_at_def min_def)

lemma set_del_at_subset: "set (del_at i xs) \<subseteq> set xs"
  by (auto simp: del_at_def dest: in_set_takeD in_set_dropD)

lemma distinct_del_at: "distinct xs \<Longrightarrow> distinct (del_at i xs)"
proof -
  assume d: "distinct xs"
  have "distinct (take i xs @ drop (Suc i) xs)"
    using d by (metis del_at_def distinct_take distinct_drop distinct_append
                     set_take_disj_set_drop_if_distinct le_SucI order_refl)
  then show ?thesis by (simp add: del_at_def)
qed

section \<open>Decimal rendering of integers\<close>

text \<open>
  \<open>Number.prototype.toString()\<close> (and template-literal interpolation) of a
  non-negative integer below \<open>10^21\<close>: its decimal digits, no sign, no exponent.
\<close>

fun js_num_str :: "nat \<Rightarrow> jstr" where
  "js_num_str n =
     (if n < 10 then [char_of (48 + n)]
      else js_num_str (n div 10) @ [char_of (48 + n mod 10)])"

declare js_num_str.simps [simp del]

text \<open>Reading digits back: the inverse used to prove the rendering injective.\<close>

fun digits_val :: "jstr \<Rightarrow> nat" where
  "digits_val [] = 0"
| "digits_val (c # cs) = digits_val cs + (of_char c - 48) * 10 ^ length cs"

definition digit_char :: "char \<Rightarrow> bool" where
  "digit_char c = (48 \<le> (of_char c :: nat) \<and> (of_char c :: nat) \<le> 57)"

lemma of_char_digit [simp]: "d < 10 \<Longrightarrow> of_char (char_of (48 + d) :: char) = (48 + d :: nat)"
  by (simp add: of_char_of)

text \<open>The ten digit characters, so that rendered numbers simplify to string literals.\<close>

lemma char_of_digits [simp]:
  "char_of (48::nat) = CHR ''0''" "char_of (49::nat) = CHR ''1''" "char_of (50::nat) = CHR ''2''"
  "char_of (51::nat) = CHR ''3''" "char_of (52::nat) = CHR ''4''" "char_of (53::nat) = CHR ''5''"
  "char_of (54::nat) = CHR ''6''" "char_of (55::nat) = CHR ''7''" "char_of (56::nat) = CHR ''8''"
  "char_of (57::nat) = CHR ''9''"
  by code_simp+

lemma digits_val_snoc: "digits_val (cs @ [c]) = digits_val cs * 10 + (of_char c - 48)"
  by (induction cs) (simp_all add: algebra_simps)

lemma js_num_str_digits: "\<forall>c \<in> set (js_num_str n). digit_char c"
proof (induction n rule: js_num_str.induct)
  case (1 n)
  then show ?case
    by (subst js_num_str.simps) (auto simp: digit_char_def)
qed

lemma js_num_str_val: "digits_val (js_num_str n) = n"
proof (induction n rule: js_num_str.induct)
  case (1 n)
  show ?case
  proof (cases "n < 10")
    case True
    then show ?thesis by (subst js_num_str.simps) simp
  next
    case False
    with "1.IH" have "digits_val (js_num_str (n div 10)) = n div 10" by simp
    with False show ?thesis
      by (subst js_num_str.simps) (simp add: digits_val_snoc)
  qed
qed

lemma js_num_str_inj: "js_num_str m = js_num_str n \<longleftrightarrow> m = n"
  by (metis js_num_str_val)

lemma js_num_str_nonempty [simp]: "js_num_str n \<noteq> []"
  by (subst js_num_str.simps) simp

section \<open>Global regular-expression replace\<close>

text \<open>
  \<open>String.prototype.replace\<close> with a global regular expression that matches one
  character of a class \<open>P\<close> (ECMAScript \<open>RegExp.prototype[@@replace]\<close>). The loop
  calls \<open>RegExpBuiltinExec\<close> from \<open>lastIndex\<close>, which scans for the next match
  (\<open>regex_exec\<close>) and sets \<open>lastIndex\<close> to the match's end, until no match is
  left; then the result is assembled from the match positions. The loop has no bound
  of its own, so it is a \<open>partial_function\<close>, and that it returns is a lemma.
  A match here is never empty, so the \<open>AdvanceStringIndex\<close> step for empty matches
  never applies.
\<close>

definition regex_exec :: "(char \<Rightarrow> bool) \<Rightarrow> jstr \<Rightarrow> nat \<Rightarrow> nat option" where
  "regex_exec P s i = find (\<lambda>j. P (s ! j)) [i..<length s]"

partial_function (option) regex_collect :: "(char \<Rightarrow> bool) \<Rightarrow> jstr \<Rightarrow> nat \<Rightarrow> nat list option" where
  "regex_collect P s lastIndex =
     (if length s < lastIndex then Some []
      else (case regex_exec P s lastIndex of
              None \<Rightarrow> Some []
            | Some j \<Rightarrow> Option.bind (regex_collect P s (Suc j)) (\<lambda>ps. Some (j # ps))))"

fun regex_assemble :: "jstr \<Rightarrow> jstr \<Rightarrow> nat \<Rightarrow> nat list \<Rightarrow> jstr" where
  "regex_assemble s rep nextPos [] = drop nextPos s"
| "regex_assemble s rep nextPos (p # ps) =
     (if nextPos \<le> p then take (p - nextPos) (drop nextPos s) @ rep @ regex_assemble s rep (Suc p) ps
      else regex_assemble s rep nextPos ps)"

definition js_replace_global :: "(char \<Rightarrow> bool) \<Rightarrow> jstr \<Rightarrow> jstr \<Rightarrow> jstr option" where
  "js_replace_global P rep s = map_option (regex_assemble s rep 0) (regex_collect P s 0)"

lemma regex_exec_step:
  "i < length s \<Longrightarrow> regex_exec P s i = (if P (s ! i) then Some i else regex_exec P s (Suc i))"
  by (simp add: regex_exec_def upt_conv_Cons)

lemma regex_exec_end: "length s \<le> i \<Longrightarrow> regex_exec P s i = None"
  by (simp add: regex_exec_def)

lemma regex_collect_skip:
  assumes "i < length s" and "\<not> P (s ! i)"
  shows "regex_collect P s i = regex_collect P s (Suc i)"
proof -
  have "regex_exec P s i = regex_exec P s (Suc i)" using assms by (simp add: regex_exec_step)
  moreover have "\<not> length s < Suc i" using assms(1) by simp
  ultimately show ?thesis using assms(1)
    by (subst (1 2) regex_collect.simps) simp
qed

lemma regex_collect_matches:
  "regex_collect P s i = Some (filter (\<lambda>j. P (s ! j)) [i..<length s])"
proof (induction "length s - i" arbitrary: i rule: less_induct)
  case less
  show ?case
  proof (cases "i < length s")
    case False
    then show ?thesis by (subst regex_collect.simps) (simp add: regex_exec_end)
  next
    case True
    then have ih: "regex_collect P s (Suc i) = Some (filter (\<lambda>j. P (s ! j)) [Suc i..<length s])"
      by (intro less) simp
    show ?thesis
    proof (cases "P (s ! i)")
      case p: True
      with True ih show ?thesis
        by (subst regex_collect.simps) (simp add: regex_exec_step upt_conv_Cons)
    next
      case p: False
      with True ih show ?thesis by (simp add: regex_collect_skip upt_conv_Cons)
    qed
  qed
qed

lemma regex_assemble_keep:
  assumes "i < length s" and "\<forall>p \<in> set L. Suc i \<le> p"
  shows "regex_assemble s rep i L = s ! i # regex_assemble s rep (Suc i) L"
proof (cases L)
  case Nil
  with assms(1) show ?thesis by (simp add: Cons_nth_drop_Suc)
next
  case (Cons p ps)
  with assms have "Suc i \<le> p" by simp
  then have "take (p - i) (drop i s) = s ! i # take (p - Suc i) (drop (Suc i) s)"
    using assms(1) by (metis Cons_nth_drop_Suc Suc_diff_Suc Suc_le_lessD take_Suc_Cons)
  with Cons \<open>Suc i \<le> p\<close> show ?thesis by simp
qed

lemma regex_assemble_matches:
  "regex_assemble s rep i (filter (\<lambda>j. P (s ! j)) [i..<length s])
     = concat (map (\<lambda>c. if P c then rep else [c]) (drop i s))"
proof (induction "length s - i" arbitrary: i rule: less_induct)
  case less
  show ?case
  proof (cases "i < length s")
    case False
    then show ?thesis by simp
  next
    case True
    then have ih: "regex_assemble s rep (Suc i) (filter (\<lambda>j. P (s ! j)) [Suc i..<length s])
        = concat (map (\<lambda>c. if P c then rep else [c]) (drop (Suc i) s))"
      by (intro less) simp
    have d: "drop i s = s ! i # drop (Suc i) s" using True by (rule Cons_nth_drop_Suc [symmetric])
    show ?thesis
    proof (cases "P (s ! i)")
      case True
      with \<open>i < length s\<close> ih d show ?thesis by (simp add: upt_conv_Cons)
    next
      case False
      have "\<forall>p \<in> set (filter (\<lambda>j. P (s ! j)) [Suc i..<length s]). Suc i \<le> p" by simp
      from regex_assemble_keep [OF \<open>i < length s\<close> this, of rep] False \<open>i < length s\<close> ih d
      show ?thesis by (simp add: upt_conv_Cons)
    qed
  qed
qed

lemma js_replace_global_returns:
  "js_replace_global P rep s = Some (concat (map (\<lambda>c. if P c then rep else [c]) s))"
  using regex_assemble_matches [of s rep 0 P]
  by (simp add: js_replace_global_def regex_collect_matches)

end
