(* ===== verification/Country.thy ===== *)
theory Country
  imports Prelude
begin

text \<open>
  The closed country enumeration shared by every component (the TypeScript union
  \<open>CountryType\<close> of \<open>ResumeBuilder.tsx\<close>, \<open>TemplateSelection.tsx\<close>,
  \<open>SectionReorder.tsx\<close>, \<open>ResumePreview.tsx\<close>), its string keys, the validation of
  the \<open>country\<close> deep-link parameter (\<open>ResumeBuilder.tsx\<close>), the page-size policy
  \<open>getRecommendedPageSize\<close> (\<open>utils/pdfExport.ts\<close>) and the template catalogue
  and country tabs of \<open>TemplateSelection.tsx\<close>.
\<close>

section \<open>Countries\<close>

datatype country = Canada | Germany | Australia | Portugal | USA | EU

text \<open>The string literal of each member of the union.\<close>

primrec country_str :: "country \<Rightarrow> jstr" where
  "country_str Canada = ''canada''"
| "country_str Germany = ''germany''"
| "country_str Australia = ''australia''"
| "country_str Portugal = ''portugal''"
| "country_str USA = ''usa''"
| "country_str EU = ''eu''"

text \<open>The array literal the builder validates the deep-link parameter against.\<close>

definition valid_countries :: "country list" where
  "valid_countries = [Canada, Germany, Australia, Portugal, USA, EU]"

text \<open>
  \<open>countryParam && [...].includes(countryParam)\<close>: an absent or empty parameter, or
  one that is not exactly one of the six keys, is rejected (\<open>None\<close>).
\<close>

definition parse_country :: "jstr option \<Rightarrow> country option" where
  "parse_country p =
     (if js_truthy p \<and> the p \<in> set (map country_str valid_countries)
      then find (\<lambda>c. country_str c = the p) valid_countries else None)"

lemma country_str_inj: "country_str a = country_str b \<longleftrightarrow> a = b"
  by (cases a; cases b) simp_all

lemma valid_countries_all: "c \<in> set valid_countries"
  by (cases c) (simp_all add: valid_countries_def)

lemma country_str_nonempty [simp]: "country_str c \<noteq> []"
  by (cases c) simp_all

section \<open>Page size\<close>

datatype page_size = A4 | Letter

text \<open>\<open>getRecommendedPageSize\<close>: the parameter is a plain string, lower-cased first.\<close>

definition getRecommendedPageSize :: "jstr \<Rightarrow> page_size" where
  "getRecommendedPageSize c =
     (let letterCountries = [''usa'', ''canada''] in
      if js_to_lower c \<in> set letterCountries then Letter else A4)"

lemma js_to_lower_country_str [simp]: "js_to_lower (country_str c) = country_str c"
  by (cases c) (simp_all add: js_to_lower_def js_lower_char_def)

section \<open>Template catalogue (TemplateSelection.tsx)\<close>

record template =
  tpl_id :: jstr
  tpl_name :: jstr
  tpl_description :: jstr
  isPremium :: bool
  thumbnailPath :: jstr

definition mk_template :: "jstr \<Rightarrow> jstr \<Rightarrow> jstr \<Rightarrow> bool \<Rightarrow> jstr \<Rightarrow> template" where
  "mk_template i n d p t = \<lparr>tpl_id = i, tpl_name = n, tpl_description = d, isPremium = p,
     thumbnailPath = t\<rparr>"

primrec templates :: "country \<Rightarrow> template list" where
  "templates Canada =
     [mk_template ''canada-professional'' ''Professional''
        ''Clean, focused layout prioritizing experience and skills'' False
        ''/templates/canada-professional.png'',
      mk_template ''canada-modern'' ''Modern''
        ''Contemporary design with strategic use of color'' False
        ''/templates/canada-modern.png'',
      mk_template ''canada-executive'' ''Executive''
        ''Elegant format for senior professionals'' True
        ''/templates/canada-executive.png'']"
| "templates Germany =
     [mk_template ''germany-traditional'' ''Traditional''
        ''Classic Lebenslauf format with photo'' False
        ''/templates/germany-traditional.png'',
      mk_template ''germany-modern'' ''Modern''
        ''Updated Lebenslauf with contemporary styling'' False
        ''/templates/germany-modern.png'',
      mk_template ''germany-engineering'' ''Engineering''
        ''Technical focus with skills emphasis'' True
        ''/templates/germany-engineering.png'']"
| "templates Australia =
     [mk_template ''australia-professional'' ''Professional''
        ''STAR format with achievement focus'' False
        ''/templates/australia-professional.png'',
      mk_template ''australia-modern'' ''Modern''
        ''Contemporary design with STAR structure'' False
        ''/templates/australia-modern.png'',
      mk_template ''australia-executive'' ''Executive''
        ''Leadership-focused with quantifiable results'' True
        ''/templates/australia-executive.png'']"
| "templates Portugal =
     [mk_template ''portugal-europass'' ''Europass''
        ''Standard Europass CV format'' False
        ''/templates/portugal-europass.png'',
      mk_template ''portugal-modern'' ''Modern''
        ''Europass-compliant with modern styling'' False
        ''/templates/portugal-modern.png'',
      mk_template ''portugal-creative'' ''Creative''
        ''Europass structure with creative elements'' True
        ''/templates/portugal-creative.png'']"
| "templates USA =
     [mk_template ''usa-professional'' ''Professional''
        ''ATS-optimized with achievement focus'' False
        ''/templates/usa-professional.png'',
      mk_template ''usa-modern'' ''Modern''
        ''Contemporary design with strategic white space'' False
        ''/templates/usa-modern.png'',
      mk_template ''usa-executive'' ''Executive''
        ''Leadership-focused premium template'' True
        ''/templates/usa-executive.png'']"
| "templates EU =
     [mk_template ''eu-europass'' ''Europass''
        ''Standard EU Europass format'' False
        ''/templates/eu-europass.png'']"

text \<open>The country tabs: the \<open>countries\<close> array has five entries, without \<open>eu\<close>.\<close>

record country_info =
  ci_code :: country
  ci_name :: jstr
  ci_description :: jstr

definition selection_countries :: "country_info list" where
  "selection_countries =
     [\<lparr>ci_code = Canada, ci_name = ''Canada'',
       ci_description = ''1-page recruiter-style resume with job keywords''\<rparr>,
      \<lparr>ci_code = Germany, ci_name = ''Germany'',
       ci_description = ''Lebenslauf format with formal structure''\<rparr>,
      \<lparr>ci_code = Australia, ci_name = ''Australia'',
       ci_description = ''STAR-based Experience formatting''\<rparr>,
      \<lparr>ci_code = Portugal, ci_name = ''Portugal/EU'',
       ci_description = ''Europass layout compliance''\<rparr>,
      \<lparr>ci_code = USA, ci_name = ''USA'', ci_description = ''Modern ATS-friendly format''\<rparr>]"

text \<open>
  What the selection panel can emit: a tab change calls \<open>onCountryChange(value)\<close>
  with the code of one of the tabs; a click on a card of the shown country calls
  \<open>onTemplateChange(template.id)\<close>.
\<close>

datatype selection_event = CountryTab country | TemplateCard country nat

datatype selection_out = OnCountryChange country | OnTemplateChange jstr

definition selection_emit :: "selection_event \<Rightarrow> selection_out option" where
  "selection_emit e = (case e of
      CountryTab c \<Rightarrow>
        if c \<in> set (map ci_code selection_countries) then Some (OnCountryChange c) else None
    | TemplateCard c i \<Rightarrow>
        if c \<in> set (map ci_code selection_countries) \<and> i < length (templates c)
        then Some (OnTemplateChange (tpl_id (templates c ! i))) else None)"

text \<open>A template card is highlighted when its id equals the selected template id.\<close>

definition selected_card :: "country \<Rightarrow> jstr \<Rightarrow> template list" where
  "selected_card c sel = filter (\<lambda>t. tpl_id t = sel) (templates c)"

lemmas template_simps = mk_template_def selection_countries_def

section \<open>Country icon (CountryIcon.tsx)\<close>

datatype icon_size = IconSm | IconMd | IconLg

definition sizeClasses :: "icon_size \<Rightarrow> jstr" where
  "sizeClasses z = (case z of IconSm \<Rightarrow> ''h-4 w-4'' | IconMd \<Rightarrow> ''h-5 w-5'' | IconLg \<Rightarrow> ''h-6 w-6'')"

text \<open>The \<open>switch\<close> on the code; its \<open>default\<close> is unreachable for a \<open>CountryCode\<close>.\<close>

definition getCountryColor :: "country \<Rightarrow> jstr" where
  "getCountryColor c = (case c of
      Canada \<Rightarrow> ''text-canada'' | Germany \<Rightarrow> ''text-germany'' | Australia \<Rightarrow> ''text-australia''
    | Portugal \<Rightarrow> ''text-portugal'' | USA \<Rightarrow> ''text-usa'' | EU \<Rightarrow> ''text-blue-500'')"

text \<open>The flag icon's classes, \<open>cn(sizeClasses[size], getCountryColor(country), className)\<close>.\<close>

definition country_icon_classes :: "country \<Rightarrow> icon_size option \<Rightarrow> jstr list \<Rightarrow> jstr list" where
  "country_icon_classes c iconSize className =
     [sizeClasses (case iconSize of None \<Rightarrow> IconMd | Some z \<Rightarrow> z), getCountryColor c] @ className"

lemma getCountryColor_inj: "getCountryColor a = getCountryColor b \<longleftrightarrow> a = b"
  by (cases a; cases b) (simp_all add: getCountryColor_def)

section \<open>Properties\<close>

text \<open>
  C11. The page-size policy: for every member of the country enumeration, the recommended
  page size is US Letter for \<open>usa\<close> and \<open>canada\<close> and A4 for the four others.
\<close>

theorem getRecommendedPageSize_policy:
  "getRecommendedPageSize (country_str c) = (if c = USA \<or> c = Canada then Letter else A4)"
  unfolding getRecommendedPageSize_def Let_def js_to_lower_country_str by (cases c) simp_all

end
