(* ===== verification/Sections.thy ===== *)
theory Sections
  imports Prelude Country
begin

text \<open>
  The section order and visibility registry, \<open>components/builder/SectionReorder.tsx\<close>.
  Its React state (\<open>sections\<close>, \<open>customSectionTitle\<close>, \<open>isAddingCustom\<close>) is the
  record \<open>reorder_state\<close>; every handler is a function from the state to the new state
  and the list passed to the parent's \<open>onSectionsChange\<close> callback (\<open>None\<close> when the
  handler does not call it). The events the rendered component can deliver, and when,
  are \<open>reorder_enabled\<close>; \<open>reorder_reach\<close> is the set of states a session reaches,
  with \<open>Date.now()\<close> a clock that advances between user events.
\<close>

section \<open>Data\<close>

datatype section_type =
  Profile | Experience | Education | Skills | Certifications | Projects | Languages
  | Interests | Custom

primrec section_type_str :: "section_type \<Rightarrow> jstr" where
  "section_type_str Profile = ''profile''"
| "section_type_str Experience = ''experience''"
| "section_type_str Education = ''education''"
| "section_type_str Skills = ''skills''"
| "section_type_str Certifications = ''certifications''"
| "section_type_str Projects = ''projects''"
| "section_type_str Languages = ''languages''"
| "section_type_str Interests = ''interests''"
| "section_type_str Custom = ''custom''"

text \<open>\<open>interface ResumeSection\<close>; the optional fields are \<open>option\<close>s.\<close>

record resume_section =
  sec_id :: jstr
  sec_type :: section_type
  sec_title :: jstr
  isVisible :: bool
  isCustom :: "bool option"
  customTitle :: "jstr option"

definition mk_section :: "jstr \<Rightarrow> section_type \<Rightarrow> jstr \<Rightarrow> bool \<Rightarrow> resume_section" where
  "mk_section i ty t v = \<lparr>sec_id = i, sec_type = ty, sec_title = t, isVisible = v,
     isCustom = None, customTitle = None\<rparr>"

definition defaultSections :: "resume_section list" where
  "defaultSections =
     [mk_section ''profile'' Profile ''Profile'' True,
      mk_section ''experience'' Experience ''Work Experience'' True,
      mk_section ''education'' Education ''Education'' True,
      mk_section ''skills'' Skills ''Skills'' True,
      mk_section ''certifications'' Certifications ''Certifications & Licenses'' False,
      mk_section ''projects'' Projects ''Projects'' False,
      mk_section ''languages'' Languages ''Languages'' False,
      mk_section ''interests'' Interests ''Interests'' False]"

record reorder_state =
  sections :: "resume_section list"
  customSectionTitle :: jstr
  isAddingCustom :: bool

definition reorder_init :: reorder_state where
  "reorder_init = \<lparr>sections = defaultSections, customSectionTitle = [], isAddingCustom = False\<rparr>"

text \<open>What a handler returns: the new state and the list sent to \<open>onSectionsChange\<close>.\<close>

type_synonym reorder_result = "reorder_state \<times> resume_section list option"

section \<open>Handlers\<close>

text \<open>
  \<open>DropResult\<close>: the source index and the optional destination index (both
  non-negative integers in react-beautiful-dnd).
\<close>

record drop_result =
  dr_source :: nat
  dr_destination :: "nat option"

text \<open>
  \<open>handleDragEnd\<close>. Without a destination it returns early. A source index out of
  range makes \<open>splice\<close> return \<open>[]\<close>, so \<open>reorderedItem\<close> is \<open>undefined\<close> and
  is inserted into the list; the next render then throws reading \<open>section.id\<close>.
  That failure is the error value \<open>UndefinedSection\<close>.
\<close>

datatype reorder_error = UndefinedSection

definition handleDragEnd :: "drop_result \<Rightarrow> reorder_state \<Rightarrow> reorder_error + reorder_result" where
  "handleDragEnd r st =
     (case dr_destination r of
        None \<Rightarrow> Inr (st, None)
      | Some j \<Rightarrow>
          (case splice_remove1 (dr_source r) (sections st) of
             None \<Rightarrow> Inl UndefinedSection
           | Some (x, items) \<Rightarrow>
               let items' = splice_insert j x items
               in Inr (st\<lparr>sections := items'\<rparr>, Some items')))"

definition toggleSectionVisibility :: "jstr \<Rightarrow> reorder_state \<Rightarrow> reorder_result" where
  "toggleSectionVisibility i st =
     (let updated = map (\<lambda>s. if sec_id s = i then s\<lparr>isVisible := \<not> isVisible s\<rparr> else s)
                        (sections st)
      in (st\<lparr>sections := updated\<rparr>, Some updated))"

definition removeSection :: "jstr \<Rightarrow> reorder_state \<Rightarrow> reorder_result" where
  "removeSection i st =
     (let updated = filter (\<lambda>s. sec_id s \<noteq> i) (sections st)
      in (st\<lparr>sections := updated\<rparr>, Some updated))"

text \<open>\<open>addCustomSection\<close>; \<open>now\<close> is the value of \<open>Date.now()\<close>.\<close>

definition new_custom_section :: "nat \<Rightarrow> jstr \<Rightarrow> resume_section" where
  "new_custom_section now t = \<lparr>sec_id = ''custom-'' @ js_num_str now, sec_type = Custom,
     sec_title = t, isVisible = True, isCustom = Some True, customTitle = Some t\<rparr>"

definition addCustomSection :: "nat \<Rightarrow> reorder_state \<Rightarrow> reorder_result" where
  "addCustomSection now st =
     (if js_trim (customSectionTitle st) = [] then (st, None)
      else
        let updated = sections st @ [new_custom_section now (customSectionTitle st)]
        in (st\<lparr>sections := updated, customSectionTitle := [], isAddingCustom := False\<rparr>,
            Some updated))"

text \<open>
  \<open>getCountryRecommendation\<close>: a \<open>Record<string, string[]>\<close> looked up by the
  country key, with a fallback list for a missing key.
\<close>

definition recommendations :: "jstr \<Rightarrow> jstr list option" where
  "recommendations =
     [''canada'' \<mapsto> [''profile'', ''experience'', ''education'', ''skills'', ''certifications''],
      ''germany'' \<mapsto> [''profile'', ''experience'', ''education'', ''languages'', ''skills''],
      ''australia'' \<mapsto> [''profile'', ''experience'', ''education'', ''skills'', ''projects''],
      ''portugal'' \<mapsto> [''profile'', ''experience'', ''education'', ''languages'', ''skills''],
      ''usa'' \<mapsto> [''profile'', ''experience'', ''education'', ''skills'', ''certifications''],
      ''eu'' \<mapsto> [''profile'', ''experience'', ''education'', ''languages'', ''skills'']]"

definition getCountryRecommendation :: "country \<Rightarrow> jstr list" where
  "getCountryRecommendation c =
     (case recommendations (country_str c) of
        Some r \<Rightarrow> r
      | None \<Rightarrow> [''profile'', ''experience'', ''education'', ''skills''])"

definition applyCountryRecommendations :: "country \<Rightarrow> reorder_state \<Rightarrow> reorder_result" where
  "applyCountryRecommendations c st =
     (let recommended = getCountryRecommendation c;
          updated = map (\<lambda>s. s\<lparr>isVisible := section_type_str (sec_type s) \<in> set recommended\<rparr>)
                        (sections st)
      in (st\<lparr>sections := updated\<rparr>, Some updated))"

section \<open>Events of the rendered component\<close>

text \<open>
  One constructor per handler the JSX wires to an element: the drag-and-drop context,
  the eye button and the trash button of a card, the title input, the
  \<open>Add Custom Section\<close>, \<open>Add\<close> and \<open>Cancel\<close> buttons, and the
  \<open>Apply ... Format\<close> button.
\<close>

datatype reorder_event =
    DragEnd drop_result
  | ToggleClick jstr
  | RemoveClick jstr
  | TitleInput jstr
  | StartAddClick
  | AddClick
  | CancelClick
  | ApplyFormatClick

definition reorder_dispatch ::
  "country \<Rightarrow> nat \<Rightarrow> reorder_event \<Rightarrow> reorder_state \<Rightarrow> reorder_error + reorder_result" where
  "reorder_dispatch c now e st = (case e of
      DragEnd r \<Rightarrow> handleDragEnd r st
    | ToggleClick i \<Rightarrow> Inr (toggleSectionVisibility i st)
    | RemoveClick i \<Rightarrow> Inr (removeSection i st)
    | TitleInput v \<Rightarrow> Inr (st\<lparr>customSectionTitle := v\<rparr>, None)
    | StartAddClick \<Rightarrow> Inr (st\<lparr>isAddingCustom := True\<rparr>, None)
    | AddClick \<Rightarrow> Inr (addCustomSection now st)
    | CancelClick \<Rightarrow> Inr (st\<lparr>isAddingCustom := False, customSectionTitle := []\<rparr>, None)
    | ApplyFormatClick \<Rightarrow> Inr (applyCountryRecommendations c st))"

text \<open>
  When the rendered component can deliver an event: a drag starts at a rendered card,
  the eye button is on every card, the trash button only on a card whose
  \<open>isCustom\<close> is set, the input and the \<open>Add\<close>/\<open>Cancel\<close> buttons only while
  \<open>isAddingCustom\<close>, and \<open>Add Custom Section\<close> only while it is not.
\<close>

definition is_custom :: "resume_section \<Rightarrow> bool" where
  "is_custom s = (isCustom s = Some True)"

definition reorder_enabled :: "reorder_state \<Rightarrow> reorder_event \<Rightarrow> bool" where
  "reorder_enabled st e = (case e of
      DragEnd r \<Rightarrow> dr_source r < length (sections st)
    | ToggleClick i \<Rightarrow> i \<in> set (map sec_id (sections st))
    | RemoveClick i \<Rightarrow> i \<in> set (map sec_id (filter is_custom (sections st)))
    | TitleInput v \<Rightarrow> isAddingCustom st
    | StartAddClick \<Rightarrow> \<not> isAddingCustom st
    | AddClick \<Rightarrow> isAddingCustom st
    | CancelClick \<Rightarrow> isAddingCustom st
    | ApplyFormatClick \<Rightarrow> True)"

text \<open>
  Reachable states, with the clock: every user event happens at a later millisecond
  than the one before it, and the country prop may differ from event to event.
\<close>

inductive reorder_reach :: "nat \<Rightarrow> reorder_state \<Rightarrow> bool" where
  start: "reorder_reach 0 reorder_init"
| step: "reorder_reach t st \<Longrightarrow> t < now \<Longrightarrow> reorder_enabled st e \<Longrightarrow>
     reorder_dispatch c now e st = Inr (st', out) \<Longrightarrow> reorder_reach now st'"

section \<open>The registry invariant\<close>

text \<open>
  A section with its visibility cleared: everything but \<open>isVisible\<close>, which the
  toggle and the country format change.
\<close>

definition base :: "resume_section \<Rightarrow> resume_section" where
  "base s = s\<lparr>isVisible := False\<rparr>"

text \<open>The clock value a custom section's id was made from.\<close>

definition custom_stamp :: "resume_section \<Rightarrow> nat" where
  "custom_stamp s = digits_val (drop 7 (sec_id s))"

definition custom_ok :: "nat \<Rightarrow> resume_section \<Rightarrow> bool" where
  "custom_ok t s = (sec_type s = Custom \<and> sec_id s = ''custom-'' @ js_num_str (custom_stamp s)
     \<and> custom_stamp s \<le> t)"

text \<open>
  Ids are distinct; the built-in sections are exactly the eight defaults up to order
  and visibility; every custom section was made by \<open>addCustomSection\<close> at a time
  not later than the clock.
\<close>

definition sections_inv :: "nat \<Rightarrow> resume_section list \<Rightarrow> bool" where
  "sections_inv t xs =
     (distinct (map sec_id xs)
      \<and> mset (map base (filter (Not \<circ> is_custom) xs)) = mset (map base defaultSections)
      \<and> list_all (\<lambda>s. \<not> is_custom s \<or> custom_ok t s) xs)"

lemmas reorder_defs = handleDragEnd_def toggleSectionVisibility_def removeSection_def
  addCustomSection_def applyCountryRecommendations_def

section \<open>Abstract specification of the country format\<close>

text \<open>
  The recommended section types per country, typed: what the string-keyed table of
  \<open>getCountryRecommendation\<close> is meant to say.
\<close>

primrec recommended_types :: "country \<Rightarrow> section_type list" where
  "recommended_types Canada = [Profile, Experience, Education, Skills, Certifications]"
| "recommended_types Germany = [Profile, Experience, Education, Languages, Skills]"
| "recommended_types Australia = [Profile, Experience, Education, Skills, Projects]"
| "recommended_types Portugal = [Profile, Experience, Education, Languages, Skills]"
| "recommended_types USA = [Profile, Experience, Education, Skills, Certifications]"
| "recommended_types EU = [Profile, Experience, Education, Languages, Skills]"

section \<open>Typing, runs and the visibility flip\<close>

text \<open>
  The typing \<open>interface ResumeSection\<close> intends: a section is custom exactly when its type
  is \<open>custom\<close>, and only a custom section carries a \<open>customTitle\<close>, equal to its title.
\<close>

definition section_typed :: "resume_section \<Rightarrow> bool" where
  "section_typed s =
     ((sec_type s = Custom) = is_custom s
      \<and> customTitle s = (if is_custom s then Some (sec_title s) else None))"

text \<open>
  A run of user events from a state at time \<open>t\<close>, one millisecond apart: \<open>None\<close> when an
  event is not enabled or the handler fails.
\<close>

fun reorder_run :: "country \<Rightarrow> nat \<Rightarrow> reorder_event list \<Rightarrow> reorder_state \<Rightarrow> reorder_state option" where
  "reorder_run c t [] st = Some st"
| "reorder_run c t (e # es) st =
     (if reorder_enabled st e
      then (case reorder_dispatch c (Suc t) e st of
              Inr (st', out) \<Rightarrow> reorder_run c (Suc t) es st'
            | Inl err \<Rightarrow> None)
      else None)"

fun_cases reorder_run_ConsE: "reorder_run c t (e # es) st = Some st'"

text \<open>The sections after toggling each id of \<open>S\<close> once.\<close>

definition flip_ids :: "jstr set \<Rightarrow> resume_section \<Rightarrow> resume_section" where
  "flip_ids S s = (if sec_id s \<in> S then s\<lparr>isVisible := \<not> isVisible s\<rparr> else s)"

section \<open>Lemmas: the invariant is preserved\<close>

text \<open>
  The invariant reads sections only through \<open>base\<close> and only up to their order, so
  the visibility handlers and the drag keep it outright; removal keeps it because only
  custom sections can be removed from the UI; an added section is fresh because the
  clock has moved past every earlier stamp.
\<close>

lemma base_simps [simp]:
  "sec_id (base s) = sec_id s" "sec_type (base s) = sec_type s" "isCustom (base s) = isCustom s"
  "base (base s) = base s" "base (s\<lparr>isVisible := v\<rparr>) = base s"
  by (simp_all add: base_def)

lemma is_custom_base [simp]: "is_custom (base s) = is_custom s"
  by (simp add: is_custom_def)

lemma custom_ok_base [simp]: "custom_ok t (base s) = custom_ok t s"
  by (simp add: custom_ok_def custom_stamp_def)

lemma filter_map_base: "filter P (map base xs) = map base (filter (P \<circ> base) xs)"
  by (induction xs) simp_all

lemma sections_inv_map_base: "sections_inv t (map base xs) = sections_inv t xs"
proof -
  have ids: "map sec_id (map base xs) = map sec_id xs" by simp
  have flt: "map base (filter (Not \<circ> is_custom) (map base xs)) = map base (filter (Not \<circ> is_custom) xs)"
    by (simp add: filter_map_base comp_def)
  have all: "list_all (\<lambda>s. \<not> is_custom s \<or> custom_ok t s) (map base xs)
           = list_all (\<lambda>s. \<not> is_custom s \<or> custom_ok t s) xs"
    by (simp add: list_all_iff)
  show ?thesis by (simp only: sections_inv_def ids flt all)
qed

lemma sections_inv_base_eq:
  "map base xs = map base ys \<Longrightarrow> sections_inv t xs = sections_inv t ys"
  by (metis sections_inv_map_base)

lemma sections_inv_mset:
  "mset xs = mset ys \<Longrightarrow> sections_inv t xs = sections_inv t ys"
proof -
  assume m: "mset xs = mset ys"
  then have "distinct (map sec_id xs) = distinct (map sec_id ys)"
    by (metis mset_eq_imp_distinct_iff mset_map)
  moreover from m have "mset (map base (filter (Not \<circ> is_custom) xs))
      = mset (map base (filter (Not \<circ> is_custom) ys))"
    by simp
  moreover from m have "set xs = set ys" by (metis set_mset_mset)
  ultimately show ?thesis by (simp add: sections_inv_def list_all_iff)
qed

lemma sections_inv_mono: "sections_inv t xs \<Longrightarrow> t \<le> t' \<Longrightarrow> sections_inv t' xs"
  by (auto simp: sections_inv_def custom_ok_def list_all_iff)

lemma sections_inv_init: "sections_inv 0 defaultSections"
  by (simp add: sections_inv_def defaultSections_def mk_section_def is_custom_def base_def)

lemma map_base_toggle:
  "map base (map (\<lambda>s. if sec_id s = i then s\<lparr>isVisible := \<not> isVisible s\<rparr> else s) xs) = map base xs"
  by (induction xs) simp_all

lemma map_base_visibility:
  "map base (map (\<lambda>s. s\<lparr>isVisible := f s\<rparr>) xs) = map base xs"
  by (induction xs) simp_all

lemma custom_id_unique:
  assumes "distinct (map sec_id xs)" and "c \<in> set xs" and "s \<in> set xs" and "sec_id s = sec_id c"
  shows "s = c"
  using assms by (metis distinct_map inj_onD)

lemma sections_inv_remove:
  assumes inv: "sections_inv t xs" and i: "i \<in> set (map sec_id (filter is_custom xs))"
  shows "sections_inv t (filter (\<lambda>s. sec_id s \<noteq> i) xs)"
proof -
  from i obtain c where c: "c \<in> set xs" "is_custom c" "sec_id c = i" by auto
  from inv have d: "distinct (map sec_id xs)" by (simp add: sections_inv_def)
  have keep: "filter (Not \<circ> is_custom) (filter (\<lambda>s. sec_id s \<noteq> i) xs) = filter (Not \<circ> is_custom) xs"
    unfolding filter_filter
    by (rule filter_cong [OF refl]) (use d c custom_id_unique [of xs c] in fastforce)
  show ?thesis
    using inv unfolding sections_inv_def keep
    by (auto simp: distinct_map_filter list_all_iff)
qed

lemma default_ids_not_custom: "s \<in> set defaultSections \<Longrightarrow> sec_id s \<noteq> ''custom-'' @ x"
  by (auto simp: defaultSections_def mk_section_def)

lemma builtin_id_default:
  assumes "sections_inv t xs" and "s \<in> set xs" and "\<not> is_custom s"
  shows "sec_id s \<in> set (map sec_id defaultSections)"
proof -
  from assms have "base s \<in> set (map base (filter (Not \<circ> is_custom) xs))" by auto
  also from assms(1) have "set (map base (filter (Not \<circ> is_custom) xs)) = set (map base defaultSections)"
    unfolding sections_inv_def by (metis set_mset_mset)
  finally obtain d where "d \<in> set defaultSections" "base s = base d" by auto
  then show ?thesis by (metis base_simps(1) image_eqI set_map)
qed

lemma custom_stamp_new [simp]: "custom_stamp (new_custom_section now t) = now"
  by (simp add: custom_stamp_def new_custom_section_def js_num_str_val)

lemma new_custom_fresh:
  assumes inv: "sections_inv t xs" and lt: "t < now"
  shows "sec_id (new_custom_section now ti) \<notin> set (map sec_id xs)"
proof
  assume "sec_id (new_custom_section now ti) \<in> set (map sec_id xs)"
  then obtain s where s: "s \<in> set xs" "sec_id s = ''custom-'' @ js_num_str now"
    by (auto simp: new_custom_section_def)
  show False
  proof (cases "is_custom s")
    case True
    with inv s have "custom_ok t s" by (auto simp: sections_inv_def list_all_iff)
    with s have "js_num_str (custom_stamp s) = js_num_str now" "custom_stamp s \<le> t"
      by (auto simp: custom_ok_def)
    with lt show False by (simp add: js_num_str_inj)
  next
    case False
    from builtin_id_default [OF inv s(1) False] obtain d
      where "d \<in> set defaultSections" "sec_id d = sec_id s" by auto
    with s(2) default_ids_not_custom show False by metis
  qed
qed

lemma sections_inv_add:
  assumes inv: "sections_inv t xs" and lt: "t < now"
  shows "sections_inv now (xs @ [new_custom_section now ti])"
proof -
  have nc: "is_custom (new_custom_section now ti)"
    by (simp add: is_custom_def new_custom_section_def)
  have ok: "custom_ok now (new_custom_section now ti)"
    unfolding custom_ok_def custom_stamp_new by (simp add: new_custom_section_def)
  from inv lt have mono: "sections_inv now xs" by (simp add: sections_inv_mono)
  with new_custom_fresh [OF inv lt, of ti] nc ok show ?thesis
    by (simp add: sections_inv_def)
qed

lemma sections_inv_drag:
  assumes "sections_inv t (sections st)" and "handleDragEnd r st = Inr (st', out)"
  shows "sections_inv t (sections st')"
proof (cases "dr_destination r")
  case None
  with assms show ?thesis by (simp add: handleDragEnd_def)
next
  case (Some j)
  show ?thesis
  proof (cases "dr_source r < length (sections st)")
    case True
    let ?xs = "sections st" and ?i = "dr_source r"
    have m: "mset (splice_insert j (?xs ! ?i) (del_at ?i ?xs)) = mset ?xs"
      using mset_del_at [OF True] by simp
    from assms(2) Some True have "sections st' = splice_insert j (?xs ! ?i) (del_at ?i ?xs)"
      by (auto simp: handleDragEnd_def splice_remove1_def Let_def)
    with assms(1) sections_inv_mset [OF m] show ?thesis by simp
  next
    case False
    with assms Some show ?thesis by (simp add: handleDragEnd_def splice_remove1_def)
  qed
qed

lemma sections_inv_step:
  assumes inv: "sections_inv t (sections st)" and lt: "t < now"
    and en: "reorder_enabled st e" and d: "reorder_dispatch c now e st = Inr (st', out)"
  shows "sections_inv now (sections st')"
proof -
  have "sections_inv t (sections st')"
    if "e \<noteq> AddClick"
  proof (cases e)
    case (DragEnd r)
    with d inv show ?thesis by (auto simp: reorder_dispatch_def intro: sections_inv_drag)
  next
    case (ToggleClick i)
    with d inv show ?thesis
      by (auto simp: reorder_dispatch_def toggleSectionVisibility_def map_base_toggle Let_def
               intro: sections_inv_base_eq [THEN iffD1, rotated])
  next
    case (RemoveClick i)
    from en RemoveClick have "i \<in> set (map sec_id (filter is_custom (sections st)))"
      by (simp add: reorder_enabled_def)
    from sections_inv_remove [OF inv this] d RemoveClick show ?thesis
      by (auto simp: reorder_dispatch_def removeSection_def Let_def)
  next
    case ApplyFormatClick
    with d inv show ?thesis
      by (auto simp: reorder_dispatch_def applyCountryRecommendations_def Let_def map_base_visibility
               intro: sections_inv_base_eq [THEN iffD1, rotated])
  qed (use d inv that in \<open>auto simp: reorder_dispatch_def\<close>)
  moreover have "sections_inv now (sections st')" if "e = AddClick"
    using that d inv lt
    by (auto simp: reorder_dispatch_def addCustomSection_def Let_def split: if_splits
             intro: sections_inv_add sections_inv_mono)
  ultimately show ?thesis using lt by (metis less_imp_le sections_inv_mono)
qed

lemma reorder_reach_inv: "reorder_reach t st \<Longrightarrow> sections_inv t (sections st)"
proof (induction rule: reorder_reach.induct)
  case start
  show ?case by (simp add: reorder_init_def sections_inv_init)
next
  case (step t st now e c st' out)
  then show ?case by (blast intro: sections_inv_step)
qed


lemma section_type_str_inj: "section_type_str a = section_type_str b \<longleftrightarrow> a = b"
  by (cases a; cases b) simp_all

lemma getCountryRecommendation_types:
  "getCountryRecommendation c = map section_type_str (recommended_types c)"
  by (cases c) (simp_all add: getCountryRecommendation_def recommendations_def)

lemma recommendations_defined: "recommendations (country_str c) \<noteq> None"
  by (cases c) (simp_all add: recommendations_def)

lemma section_type_in_recommended:
  "section_type_str ty \<in> set (getCountryRecommendation c) \<longleftrightarrow> ty \<in> set (recommended_types c)"
  by (auto simp: getCountryRecommendation_types section_type_str_inj)

lemma reorder_reach_example:
  "reorder_reach 3 (fst (addCustomSection 3
     \<lparr>sections = defaultSections, customSectionTitle = ''Awards'', isAddingCustom = True\<rparr>))"
proof -
  have s1: "reorder_reach 1 (reorder_init\<lparr>isAddingCustom := True\<rparr>)"
    by (rule reorder_reach.step [OF reorder_reach.start, where e = StartAddClick and c = Canada
          and out = None]) (simp_all add: reorder_enabled_def reorder_dispatch_def reorder_init_def)
  have s2: "reorder_reach 2
      \<lparr>sections = defaultSections, customSectionTitle = ''Awards'', isAddingCustom = True\<rparr>"
    by (rule reorder_reach.step [OF s1, where e = "TitleInput ''Awards''" and c = Canada
          and out = None]) (simp_all add: reorder_enabled_def reorder_dispatch_def reorder_init_def)
  show ?thesis
    by (rule reorder_reach.step [OF s2, where e = AddClick and c = Canada
          and out = "snd (addCustomSection 3
             \<lparr>sections = defaultSections, customSectionTitle = ''Awards'', isAddingCustom = True\<rparr>)"])
       (simp_all add: reorder_enabled_def reorder_dispatch_def)
qed

section \<open>Lemmas: typing and runs\<close>

lemma section_typed_base [simp]: "section_typed (base s) = section_typed s"
  by (simp add: section_typed_def base_def is_custom_def)

lemma base_image_map_eq: "map base xs = map base ys \<Longrightarrow> base ` set xs = base ` set ys"
  by (metis list.set_map)

lemma drag_sections_subset:
  assumes "handleDragEnd r st = Inr (st', out)"
  shows "set (sections st') \<subseteq> set (sections st)"
  using assms set_del_at_subset [of "dr_source r" "sections st"]
  by (auto simp: handleDragEnd_def splice_remove1_def Let_def split: option.splits if_splits)

lemma dispatch_sections_shape:
  assumes d: "reorder_dispatch c now e st = Inr (st', out)"
  shows "base ` set (sections st') \<subseteq>
           base ` set (sections st) \<union> {base (new_custom_section now (customSectionTitle st))}"
proof (cases e)
  case (DragEnd r)
  with d drag_sections_subset [of r st st' out] show ?thesis
    by (auto simp: reorder_dispatch_def)
next
  case (ToggleClick i)
  with d base_image_map_eq [OF map_base_toggle, of i "sections st"] show ?thesis
    by (auto simp: reorder_dispatch_def toggleSectionVisibility_def Let_def)
next
  case ApplyFormatClick
  with d show ?thesis
    by (auto simp: reorder_dispatch_def applyCountryRecommendations_def Let_def)
qed (use d in \<open>auto simp: reorder_dispatch_def removeSection_def addCustomSection_def Let_def
      split: if_splits\<close>)

lemma new_custom_typed: "section_typed (new_custom_section now t)"
  by (simp add: section_typed_def new_custom_section_def is_custom_def)

lemma sections_typed_step:
  assumes "list_all section_typed (sections st)" and "reorder_dispatch c now e st = Inr (st', out)"
  shows "list_all section_typed (sections st')"
  unfolding list_all_iff
proof
  fix s assume "s \<in> set (sections st')"
  then have "base s \<in> base ` set (sections st) \<union> {base (new_custom_section now (customSectionTitle st))}"
    using dispatch_sections_shape [OF assms(2)] by blast
  then obtain s0 where "base s = base s0" and "s0 \<in> set (sections st) \<or> s0 = new_custom_section now (customSectionTitle st)"
    by blast
  with assms(1) new_custom_typed show "section_typed s"
    by (metis section_typed_base list_all_iff)
qed

lemma reorder_run_reach:
  "reorder_reach t st \<Longrightarrow> reorder_run c t es st = Some st' \<Longrightarrow> reorder_reach (t + length es) st'"
proof (induction es arbitrary: t st)
  case Nil
  then show ?case by simp
next
  case (Cons e es)
  from Cons.prems(2) obtain st1 out where en: "reorder_enabled st e"
    and d: "reorder_dispatch c (Suc t) e st = Inr (st1, out)"
    and r: "reorder_run c (Suc t) es st1 = Some st'"
    by (elim reorder_run_ConsE) (auto split: if_splits sum.splits prod.splits)
  have "reorder_reach (Suc t) st1" by (rule reorder_reach.step [OF Cons.prems(1) _ en d]) simp
  from Cons.IH [OF this r] show ?case by simp
qed

lemma sec_id_flip [simp]: "sec_id (flip_ids S s) = sec_id s"
  by (simp add: flip_ids_def)

lemma flip_ids_insert:
  "i \<notin> S \<Longrightarrow> flip_ids S (flip_ids {i} s) = flip_ids (insert i S) s"
  by (simp add: flip_ids_def)

lemma reorder_run_toggles:
  assumes "distinct ids" and "set ids \<subseteq> set (map sec_id (sections st))"
  shows "reorder_run c t (map ToggleClick ids) st = Some (st\<lparr>sections := map (flip_ids (set ids)) (sections st)\<rparr>)"
  using assms
proof (induction ids arbitrary: t st)
  case Nil
  have "map (flip_ids {}) xs = xs" for xs by (induction xs) (simp_all add: flip_ids_def)
  then show ?case by simp
next
  case (Cons i ids)
  let ?st1 = "st\<lparr>sections := map (flip_ids {i}) (sections st)\<rparr>"
  have d: "reorder_dispatch c (Suc t) (ToggleClick i) st = Inr (?st1, Some (sections ?st1))"
    by (simp add: reorder_dispatch_def toggleSectionVisibility_def flip_ids_def Let_def)
  have ids: "map sec_id (sections ?st1) = map sec_id (sections st)" by simp
  from Cons.prems have "distinct ids" "set ids \<subseteq> set (map sec_id (sections ?st1))" by (simp_all only: ids) simp_all
  note ih = Cons.IH [OF this, of "Suc t"]
  have "map (flip_ids (set ids)) (map (flip_ids {i}) xs) = map (flip_ids (insert i (set ids))) xs" for xs
    using Cons.prems(1) by (simp add: flip_ids_insert)
  with Cons.prems d ih show ?case by (simp add: reorder_enabled_def)
qed

lemma flip_hidden_visible:
  assumes "distinct (map sec_id xs)"
  shows "list_all isVisible (map (flip_ids (set (map sec_id (filter (Not \<circ> isVisible) xs)))) xs)"
  unfolding list_all_iff
proof
  fix s' assume "s' \<in> set (map (flip_ids (set (map sec_id (filter (Not \<circ> isVisible) xs)))) xs)"
  then obtain s where s: "s \<in> set xs" and s': "s' = flip_ids (set (map sec_id (filter (Not \<circ> isVisible) xs))) s"
    by auto
  show "isVisible s'"
  proof (cases "isVisible s")
    case True
    have "sec_id s \<notin> set (map sec_id (filter (Not \<circ> isVisible) xs))"
    proof
      assume "sec_id s \<in> set (map sec_id (filter (Not \<circ> isVisible) xs))"
      then obtain h where "h \<in> set xs" "\<not> isVisible h" "sec_id h = sec_id s" by auto
      with custom_id_unique [OF assms s] True show False by auto
    qed
    with True s' show ?thesis by (simp add: flip_ids_def)
  next
    case False
    with s s' show ?thesis by (auto simp: flip_ids_def)
  qed
qed


text \<open>A map that changes only the elements with a given key changes one position when the
  keys are distinct.\<close>

lemma map_update_unique:
  assumes "distinct (map g xs)" and "k < length xs" and "g (xs ! k) = i"
  shows "map (\<lambda>s. if g s = i then h s else s) xs = xs[k := h (xs ! k)]"
proof (rule nth_equalityI)
  show "length (map (\<lambda>s. if g s = i then h s else s) xs) = length (xs[k := h (xs ! k)])" by simp
next
  fix j assume "j < length (map (\<lambda>s. if g s = i then h s else s) xs)"
  then have j: "j < length xs" by simp
  show "map (\<lambda>s. if g s = i then h s else s) xs ! j = xs[k := h (xs ! k)] ! j"
  proof (cases "j = k")
    case True
    with assms j show ?thesis by simp
  next
    case False
    with assms j have "g (xs ! j) \<noteq> i" by (metis distinct_conv_nth length_map nth_map)
    with False j show ?thesis by simp
  qed
qed

section \<open>Properties of the registry\<close>

text \<open>
  C1. The built-in sections are never lost nor duplicated: in every state a session
  reaches, the non-custom sections are exactly the eight default sections, each once,
  up to order and visibility. (The handler \<open>removeSection\<close> itself is unconditional;
  the UI renders its button only on custom sections.)
\<close>

theorem reorder_reach_builtin_kept:
  assumes "reorder_reach t st"
  shows "mset (map base (filter (Not \<circ> is_custom) (sections st))) = mset (map base defaultSections)"
  using reorder_reach_inv [OF assms] by (simp add: sections_inv_def)

text \<open>
  C2. Section ids stay unique: in every reachable state no two sections share an id,
  given that \<open>Date.now()\<close> advances between two clicks on \<open>Add\<close>.
\<close>

theorem reorder_reach_distinct_ids:
  assumes "reorder_reach t st"
  shows "distinct (map sec_id (sections st))"
  using reorder_reach_inv [OF assms] by (simp add: sections_inv_def)

theorem reorder_reach_builtin_kept_witness:
  "reorder_reach 3 (fst (addCustomSection 3
       \<lparr>sections = defaultSections, customSectionTitle = ''Awards'', isAddingCustom = True\<rparr>))
   \<and> mset (map base (filter (Not \<circ> is_custom) (sections (fst (addCustomSection 3
       \<lparr>sections = defaultSections, customSectionTitle = ''Awards'', isAddingCustom = True\<rparr>)))))
     = mset (map base defaultSections)"
proof -
  note r = reorder_reach_example
  from r reorder_reach_builtin_kept [OF r] show ?thesis by blast
qed

theorem reorder_reach_distinct_ids_witness:
  "reorder_reach 3 (fst (addCustomSection 3
       \<lparr>sections = defaultSections, customSectionTitle = ''Awards'', isAddingCustom = True\<rparr>))
   \<and> distinct (map sec_id (sections (fst (addCustomSection 3
       \<lparr>sections = defaultSections, customSectionTitle = ''Awards'', isAddingCustom = True\<rparr>))))
   \<and> length (sections (fst (addCustomSection 3
       \<lparr>sections = defaultSections, customSectionTitle = ''Awards'', isAddingCustom = True\<rparr>))) = 9"
proof -
  note r = reorder_reach_example
  have d: "distinct (map sec_id (sections (fst (addCustomSection 3
       \<lparr>sections = defaultSections, customSectionTitle = ''Awards'', isAddingCustom = True\<rparr>))))"
    by (rule reorder_reach_distinct_ids [OF r])
  have l: "length (sections (fst (addCustomSection 3
       \<lparr>sections = defaultSections, customSectionTitle = ''Awards'', isAddingCustom = True\<rparr>))) = 9"
    by (simp add: addCustomSection_def Let_def defaultSections_def js_trim_def js_is_space_def)
  from r d l show ?thesis by blast
qed


text \<open>
  C3. A drag from index \<open>i\<close> to index \<open>j\<close> moves exactly one section: the parent is
  sent the new list, which is a permutation of the old one, holds the dragged section at
  the clamped destination, and with that section taken out is the old list with it taken
  out, so all other sections keep their relative order.
\<close>

theorem handleDragEnd_moves:
  assumes i: "i < length (sections st)" and k: "k = min j (length (sections st) - 1)"
  shows "\<exists>ys. handleDragEnd \<lparr>dr_source = i, dr_destination = Some j\<rparr> st
                 = Inr (st\<lparr>sections := ys\<rparr>, Some ys)
             \<and> mset ys = mset (sections st) \<and> ys ! k = sections st ! i
             \<and> del_at k ys = del_at i (sections st)"
proof -
  let ?xs = "sections st"
  let ?ys = "splice_insert j (?xs ! i) (del_at i ?xs)"
  have len: "k = min j (length (del_at i ?xs))" using i k by simp
  have "handleDragEnd \<lparr>dr_source = i, dr_destination = Some j\<rparr> st = Inr (st\<lparr>sections := ?ys\<rparr>, Some ?ys)"
    using i by (simp add: handleDragEnd_def splice_remove1_def Let_def)
  moreover have "mset ?ys = mset ?xs" using mset_del_at [OF i] by simp
  moreover have "?ys ! k = ?xs ! i" unfolding len by (rule nth_splice_insert)
  moreover have "del_at k ?ys = del_at i ?xs" unfolding len by (rule del_at_splice_insert)
  ultimately show ?thesis by blast
qed

theorem handleDragEnd_moves_witness:
  "2 < length (sections reorder_init) \<and> (0::nat) = min 0 (length (sections reorder_init) - 1)
   \<and> (\<exists>ys. handleDragEnd \<lparr>dr_source = 2, dr_destination = Some 0\<rparr> reorder_init
                 = Inr (reorder_init\<lparr>sections := ys\<rparr>, Some ys)
             \<and> mset ys = mset (sections reorder_init) \<and> ys ! 0 = sections reorder_init ! 2
             \<and> del_at 0 ys = del_at 2 (sections reorder_init))"
proof -
  have h: "2 < length (sections reorder_init)" "(0::nat) = min 0 (length (sections reorder_init) - 1)"
    by (simp_all add: reorder_init_def defaultSections_def)
  from h handleDragEnd_moves [OF h] show ?thesis by blast
qed

text \<open>
  C4. One click on the eye button of a section, in any reachable state, flips the
  visibility of exactly that section: the list changes only at the position of the section
  with that id, the rest of the state is kept, and the parent is sent the new list.
\<close>

theorem toggle_flips_one:
  assumes "reorder_reach t st" and "reorder_enabled st (ToggleClick i)"
    and "reorder_dispatch c now (ToggleClick i) st = Inr (st', out)"
  shows "\<exists>k < length (sections st). sec_id (sections st ! k) = i
           \<and> sections st' = (sections st)[k := (sections st ! k)\<lparr>isVisible := \<not> isVisible (sections st ! k)\<rparr>]
           \<and> st' = st\<lparr>sections := sections st'\<rparr> \<and> out = Some (sections st')"
proof -
  from assms(2) obtain k where k: "k < length (sections st)" "sec_id (sections st ! k) = i"
    by (auto simp: reorder_enabled_def in_set_conv_nth)
  from reorder_reach_inv [OF assms(1)] have d: "distinct (map sec_id (sections st))"
    by (simp add: sections_inv_def)
  let ?f = "\<lambda>s. if sec_id s = i then s\<lparr>isVisible := \<not> isVisible s\<rparr> else s"
  from assms(3) have st': "st' = st\<lparr>sections := map ?f (sections st)\<rparr>" and out: "out = Some (map ?f (sections st))"
    by (auto simp: reorder_dispatch_def toggleSectionVisibility_def Let_def)
  have "map ?f (sections st) = (sections st)[k := (sections st ! k)\<lparr>isVisible := \<not> isVisible (sections st ! k)\<rparr>]"
    using map_update_unique [OF d k, of "\<lambda>s. s\<lparr>isVisible := \<not> isVisible s\<rparr>"] .
  with k st' out show ?thesis by auto
qed

text \<open>C4, for the eye button of the Skills section right after the mount.\<close>

theorem toggle_flips_one_witness:
  "\<exists>k < length (sections reorder_init). sec_id (sections reorder_init ! k) = ''skills''
     \<and> sections (fst (toggleSectionVisibility ''skills'' reorder_init))
         = (sections reorder_init)[k := (sections reorder_init ! k)\<lparr>isVisible := \<not> isVisible (sections reorder_init ! k)\<rparr>]"
proof -
  have en: "reorder_enabled reorder_init (ToggleClick ''skills'')"
    by (simp add: reorder_enabled_def reorder_init_def defaultSections_def mk_section_def)
  have dp: "reorder_dispatch USA 1 (ToggleClick ''skills'') reorder_init
      = Inr (fst (toggleSectionVisibility ''skills'' reorder_init), snd (toggleSectionVisibility ''skills'' reorder_init))"
    by (simp add: reorder_dispatch_def)
  from toggle_flips_one [OF reorder_reach.start en dp] show ?thesis by blast
qed

text \<open>
  C5. Applying the country format sets exactly the recommended section types visible and
  all others (custom sections included) hidden, without reordering: the string-keyed
  table of \<open>getCountryRecommendation\<close> implements the typed table
  \<open>recommended_types\<close>, and its fallback is never taken.
\<close>

theorem applyCountryRecommendations_refines:
  "applyCountryRecommendations c st =
     (let updated = map (\<lambda>s. s\<lparr>isVisible := sec_type s \<in> set (recommended_types c)\<rparr>) (sections st)
      in (st\<lparr>sections := updated\<rparr>, Some updated))"
  by (simp add: applyCountryRecommendations_def section_type_in_recommended)

text \<open>
  C6. Adding a custom section whose title is empty or white space only is a no-op: the
  state is unchanged and the parent is not notified.
\<close>

theorem addCustomSection_blank_rejected:
  assumes "\<forall>c \<in> set (customSectionTitle st). js_is_space c"
  shows "addCustomSection now st = (st, None)"
  using assms by (simp add: addCustomSection_def js_trim_empty_iff)

theorem addCustomSection_blank_rejected_witness:
  "customSectionTitle (reorder_init\<lparr>customSectionTitle := ''  ''\<rparr>) = ''  ''
   \<and> addCustomSection 5 (reorder_init\<lparr>customSectionTitle := ''  ''\<rparr>) = (reorder_init\<lparr>customSectionTitle := ''  ''\<rparr>, None)"
proof -
  have h: "\<forall>c \<in> set (customSectionTitle (reorder_init\<lparr>customSectionTitle := ''  ''\<rparr>)). js_is_space c"
    by (simp add: js_is_space_def)
  from addCustomSection_blank_rejected [OF h] show ?thesis by simp
qed

text \<open>
  C7. Adding a custom section with a non-blank title appends one visible section of type
  custom with the typed title and the id \<open>custom-<now>\<close>, clears the title input and
  closes the input row, and sends the new list to the parent.
\<close>

theorem addCustomSection_appends:
  assumes "\<not> (\<forall>c \<in> set (customSectionTitle st). js_is_space c)"
  shows "\<exists>x. addCustomSection now st
               = (st\<lparr>sections := sections st @ [x], customSectionTitle := [], isAddingCustom := False\<rparr>,
                  Some (sections st @ [x]))
           \<and> sec_type x = Custom \<and> isVisible x \<and> is_custom x
           \<and> sec_title x = customSectionTitle st \<and> sec_id x = ''custom-'' @ js_num_str now"
  using assms
  by (auto simp: addCustomSection_def js_trim_empty_iff new_custom_section_def is_custom_def Let_def)

theorem addCustomSection_appends_witness:
  "\<not> (\<forall>c \<in> set (customSectionTitle (reorder_init\<lparr>customSectionTitle := ''Awards''\<rparr>)). js_is_space c)
   \<and> (\<exists>x. addCustomSection 42 (reorder_init\<lparr>customSectionTitle := ''Awards''\<rparr>)
          = (reorder_init\<lparr>sections := defaultSections @ [x], customSectionTitle := [], isAddingCustom := False\<rparr>,
             Some (defaultSections @ [x]))
        \<and> sec_type x = Custom \<and> isVisible x \<and> is_custom x
        \<and> sec_title x = ''Awards'' \<and> sec_id x = ''custom-'' @ js_num_str 42)"
proof -
  have h: "\<not> (\<forall>c \<in> set (customSectionTitle (reorder_init\<lparr>customSectionTitle := ''Awards''\<rparr>)). js_is_space c)"
    by (simp add: js_is_space_def)
  from h addCustomSection_appends [OF h, of 42] show ?thesis by (simp add: reorder_init_def)
qed

text \<open>
  C8. In every reachable state the remove button is never offered for a built-in
  section: built-in sections cannot be removed from the UI, although the handler
  \<open>removeSection\<close> itself would remove them.
\<close>

theorem builtin_never_removable:
  assumes "reorder_reach t st" and "s \<in> set (sections st)" and "\<not> is_custom s"
  shows "\<not> reorder_enabled st (RemoveClick (sec_id s))"
proof
  assume "reorder_enabled st (RemoveClick (sec_id s))"
  then obtain c where c: "c \<in> set (sections st)" "is_custom c" "sec_id c = sec_id s"
    by (auto simp: reorder_enabled_def)
  from reorder_reach_inv [OF assms(1)] have "distinct (map sec_id (sections st))"
    by (simp add: sections_inv_def)
  with c assms(2) have "s = c" by (metis custom_id_unique)
  with c assms(3) show False by simp
qed


theorem builtin_never_removable_witness:
  "reorder_reach 3 (fst (addCustomSection 3
       \<lparr>sections = defaultSections, customSectionTitle = ''Awards'', isAddingCustom = True\<rparr>))
   \<and> (mk_section ''profile'' Profile ''Profile'' True) \<in> set (sections (fst (addCustomSection 3
       \<lparr>sections = defaultSections, customSectionTitle = ''Awards'', isAddingCustom = True\<rparr>)))
   \<and> \<not> is_custom (mk_section ''profile'' Profile ''Profile'' True)
   \<and> \<not> reorder_enabled (fst (addCustomSection 3
       \<lparr>sections = defaultSections, customSectionTitle = ''Awards'', isAddingCustom = True\<rparr>)) (RemoveClick ''profile'')"
proof -
  note r = reorder_reach_example
  have m: "(mk_section ''profile'' Profile ''Profile'' True) \<in> set (sections (fst (addCustomSection 3
       \<lparr>sections = defaultSections, customSectionTitle = ''Awards'', isAddingCustom = True\<rparr>)))"
    by (simp add: addCustomSection_def Let_def defaultSections_def js_trim_def js_is_space_def)
  have n: "\<not> is_custom (mk_section ''profile'' Profile ''Profile'' True)" by (simp add: is_custom_def mk_section_def)
  from builtin_never_removable [OF r m n] have "\<not> reorder_enabled (fst (addCustomSection 3
       \<lparr>sections = defaultSections, customSectionTitle = ''Awards'', isAddingCustom = True\<rparr>)) (RemoveClick ''profile'')"
    by (simp add: mk_section_def)
  with r m n show ?thesis by blast
qed

text \<open>
  C9. Sections are well typed: in every state a session reaches, a section is custom
  exactly when its type is \<open>custom\<close>, and exactly the custom sections carry a
  \<open>customTitle\<close>, equal to their title.
\<close>

theorem reorder_reach_typed:
  assumes "reorder_reach t st"
  shows "list_all section_typed (sections st)"
  using assms
proof (induction rule: reorder_reach.induct)
  case start
  show ?case
    by (simp add: reorder_init_def defaultSections_def mk_section_def section_typed_def is_custom_def)
next
  case (step t st now e c st' out)
  from step.IH step.hyps(4) show ?case by (rule sections_typed_step)
qed

text \<open>C9, at the state after adding the custom section \<open>Awards\<close>.\<close>

theorem reorder_reach_typed_witness:
  "reorder_reach 3 (fst (addCustomSection 3
     \<lparr>sections = defaultSections, customSectionTitle = ''Awards'', isAddingCustom = True\<rparr>))
   \<and> list_all section_typed (sections (fst (addCustomSection 3
     \<lparr>sections = defaultSections, customSectionTitle = ''Awards'', isAddingCustom = True\<rparr>)))"
  using reorder_reach_typed [OF reorder_reach_example] reorder_reach_example by simp

text \<open>
  C10. Every section can be shown again: from every state a session reaches, a run of
  enabled events (one eye click per hidden section) leads to a reachable state in which
  every section is visible.
\<close>

theorem reorder_reach_all_visible:
  assumes "reorder_reach t st"
  shows "\<exists>es st'. reorder_run c t es st = Some st' \<and> reorder_reach (t + length es) st'
                  \<and> list_all isVisible (sections st')"
proof -
  let ?hs = "map sec_id (filter (Not \<circ> isVisible) (sections st))"
  have d: "distinct (map sec_id (sections st))"
    using reorder_reach_inv [OF assms] by (simp add: sections_inv_def)
  then have "distinct ?hs" by (simp add: distinct_map_filter)
  moreover have "set ?hs \<subseteq> set (map sec_id (sections st))" by auto
  ultimately have r: "reorder_run c t (map ToggleClick ?hs) st
      = Some (st\<lparr>sections := map (flip_ids (set ?hs)) (sections st)\<rparr>)"
    by (rule reorder_run_toggles)
  show ?thesis
    using r reorder_run_reach [OF assms r] flip_hidden_visible [OF d] by fastforce
qed

text \<open>C10, from the state after adding the custom section \<open>Awards\<close>.\<close>

theorem reorder_reach_all_visible_witness:
  "reorder_reach 3 (fst (addCustomSection 3
     \<lparr>sections = defaultSections, customSectionTitle = ''Awards'', isAddingCustom = True\<rparr>))
   \<and> (\<exists>es st'. reorder_run USA 3 es (fst (addCustomSection 3
          \<lparr>sections = defaultSections, customSectionTitle = ''Awards'', isAddingCustom = True\<rparr>)) = Some st'
        \<and> reorder_reach (3 + length es) st' \<and> list_all isVisible (sections st'))"
  using reorder_reach_all_visible [OF reorder_reach_example, of USA] reorder_reach_example by simp

end
