(* ===== verification/PdfExport.thy ===== *)
theory PdfExport
  imports Prelude Country
begin

text \<open>
  The export pipeline, \<open>utils/pdfExport.ts\<close>: \<open>exportResumeToPDF\<close> and
  \<open>generateATSFilename\<close> (\<open>getRecommendedPageSize\<close> is in \<open>Country\<close>).
  The browser and the library are parameters: the document is a map from element ids to
  elements (\<open>document.getElementById\<close>), \<open>new Date().toISOString()\<close> is the string
  \<open>isoDate\<close>, and \<open>html2pdf().from(clone).set(opts).save()\<close> is a function from the
  options and the cloned element to \<open>None\<close> (the promise resolves) or \<open>Some e\<close> (it
  rejects with \<open>e\<close>). The clone is the element's value; the model's document is never
  updated, so the live preview is left as it is.
  A thrown exception is \<open>Inl\<close>, a returned object \<open>Inr\<close>.
\<close>

section \<open>Options\<close>

datatype margin = MarginAll int | MarginSides int int int int

text \<open>\<open>interface ExportOptions\<close>: every field optional.\<close>

record export_options =
  eo_filename :: "jstr option"
  eo_pageSize :: "page_size option"
  eo_margin :: "margin option"
  eo_includeDate :: "bool option"

text \<open>The options object handed to html2pdf, with its fixed settings.\<close>

record pdf_options =
  po_margin :: margin
  po_filename :: jstr
  po_image_type :: jstr
  po_scale :: nat
  po_unit :: jstr
  po_format :: page_size
  po_orientation :: jstr

section \<open>Results and errors\<close>

text \<open>What the rejected promise carries: an \<open>Error\<close> with its message, or any other value.\<close>

datatype js_error = ErrorInstance jstr | NonErrorValue

datatype export_result = ExportSuccess jstr | ExportFailure jstr

datatype export_exn = ElementNotFound jstr

definition js_error_message :: "js_error \<Rightarrow> jstr" where
  "js_error_message e = (case e of ErrorInstance m \<Rightarrow> m | NonErrorValue \<Rightarrow> ''Unknown error'')"

section \<open>exportResumeToPDF\<close>

text \<open>
  The file name: \<open>_YYYY-MM-DD\<close> (the ISO string up to its \<open>T\<close>) when the date is
  included, inserted before the first \<open>.pdf\<close> of the name if it has one, appended with
  \<open>.pdf\<close> otherwise.
\<close>

definition date_suffix :: "bool \<Rightarrow> jstr \<Rightarrow> jstr" where
  "date_suffix includeDate isoDate =
     (if includeDate then ''_'' @ takeWhile (\<lambda>c. c \<noteq> CHR ''T'') isoDate else [])"

definition full_filename :: "jstr \<Rightarrow> bool \<Rightarrow> jstr \<Rightarrow> jstr" where
  "full_filename filename includeDate isoDate =
     (let dateStr = date_suffix includeDate isoDate in
      if js_includes ''.pdf'' filename
      then js_replace_first ''.pdf'' (dateStr @ ''.pdf'') filename
      else filename @ dateStr @ ''.pdf'')"

definition make_pdf_options :: "margin \<Rightarrow> jstr \<Rightarrow> page_size \<Rightarrow> pdf_options" where
  "make_pdf_options m f p = \<lparr>po_margin = m, po_filename = f, po_image_type = ''jpeg'',
     po_scale = 2, po_unit = ''mm'', po_format = p, po_orientation = ''portrait''\<rparr>"

definition not_found_message :: "jstr \<Rightarrow> jstr" where
  "not_found_message elementId = ''Element with ID \"'' @ elementId @ ''\" not found''"

definition exportResumeToPDF ::
  "(jstr \<Rightarrow> 'el option) \<Rightarrow> (pdf_options \<Rightarrow> 'el \<Rightarrow> js_error option) \<Rightarrow> jstr \<Rightarrow>
   jstr \<Rightarrow> export_options \<Rightarrow> export_exn + export_result" where
  "exportResumeToPDF getElementById html2pdf isoDate elementId options =
     (let filename = case_option ''resume.pdf'' id (eo_filename options);
          pageSize = case_option A4 id (eo_pageSize options);
          mrg = case_option (MarginAll 10) id (eo_margin options);
          includeDate = case_option True id (eo_includeDate options)
      in (case getElementById elementId of
            None \<Rightarrow> Inl (ElementNotFound (not_found_message elementId))
          | Some element \<Rightarrow>
              (let fullFilename = full_filename filename includeDate isoDate;
                   pdfOptions = make_pdf_options mrg fullFilename pageSize
               in (case html2pdf pdfOptions element of
                     None \<Rightarrow> Inr (ExportSuccess fullFilename)
                   | Some err \<Rightarrow> Inr (ExportFailure (js_error_message err))))))"

section \<open>generateATSFilename\<close>

text \<open>
  \<open>`${lastName}_${firstName}`.replace(/[^a-zA-Z0-9]/g, '')\<close> and
  \<open>position.replace(/[^a-zA-Z0-9]/g, '_')\<close>; the position defaults to
  \<open>'Resume'\<close> when the argument is \<open>undefined\<close>.
\<close>

definition clean_name :: "jstr \<Rightarrow> jstr \<Rightarrow> jstr" where
  "clean_name firstName lastName = filter is_alnum (lastName @ ''_'' @ firstName)"

definition clean_position :: "jstr \<Rightarrow> jstr" where
  "clean_position position = map (\<lambda>c. if is_alnum c then c else CHR ''_'') position"

definition generateATSFilename :: "jstr \<Rightarrow> jstr \<Rightarrow> jstr option \<Rightarrow> jstr" where
  "generateATSFilename firstName lastName position =
     (let p = case_option ''Resume'' id position
      in clean_name firstName lastName @ ''_'' @ clean_position p @ ''.pdf'')"

section \<open>Lemmas\<close>

lemma clean_name_alnum: "list_all is_alnum (clean_name f l)"
  by (auto simp: clean_name_def list_all_iff)

lemma clean_position_chars: "list_all (\<lambda>c. is_alnum c \<or> c = CHR ''_'') (clean_position p)"
  by (auto simp: clean_position_def list_all_iff)

lemma generateATSFilename_stem:
  "\<exists>stem. generateATSFilename f l p = stem @ ''.pdf'' \<and> CHR ''.'' \<notin> set stem"
proof -
  let ?stem = "clean_name f l @ ''_'' @ clean_position (case_option ''Resume'' id p)"
  have "CHR ''.'' \<notin> set ?stem"
    using clean_name_alnum [of f l] clean_position_chars [of "case_option ''Resume'' id p"]
    by (auto simp: list_all_iff)
  then show ?thesis by (auto simp: generateATSFilename_def Let_def)
qed

text \<open>A name without a dot before its \<open>.pdf\<close> suffix gets the date right before it.\<close>

lemma full_filename_no_dot:
  assumes "CHR ''.'' \<notin> set stem"
  shows "full_filename (stem @ ''.pdf'') True d
           = stem @ ''_'' @ takeWhile (\<lambda>c. c \<noteq> CHR ''T'') d @ ''.pdf''"
proof -
  from assms have nd: "hd ''.pdf'' \<notin> set stem" by simp
  have "js_replace_first ''.pdf'' (date_suffix True d @ ''.pdf'') (stem @ ''.pdf'' @ [])
        = stem @ (date_suffix True d @ ''.pdf'') @ []"
    by (rule js_replace_first_at [OF nd]) simp
  moreover have "js_includes ''.pdf'' (stem @ ''.pdf'' @ [])" by (rule js_includes_at) simp
  ultimately show ?thesis by (simp add: full_filename_def date_suffix_def)
qed

lemma concat_map_delete: "concat (map (\<lambda>c. if \<not> P c then [] else [c]) s) = filter P s"
  by (induction s) simp_all

lemma concat_map_replace: "concat (map (\<lambda>c. if \<not> P c then [x] else [c]) s) = map (\<lambda>c. if P c then c else x) s"
  by (induction s) simp_all

section \<open>Properties\<close>

text \<open>
  C12. Exporting with an element id the document does not hold throws the error
  \<open>Element with ID "..." not found\<close> before any rendering: the result does not
  depend on html2pdf, the date or the options.
\<close>

theorem export_missing_target:
  assumes "getElementById elementId = None"
  shows "exportResumeToPDF getElementById html2pdf d elementId opts
           = Inl (ElementNotFound (not_found_message elementId))"
  using assms by (simp add: exportResumeToPDF_def Let_def)

theorem export_missing_target_witness:
  "exportResumeToPDF Map.empty (\<lambda>_ (_ :: unit). None :: js_error option) ''2025-01-02T00:00:00.000Z''
     ''resume-preview-content'' \<lparr>eo_filename = None, eo_pageSize = None, eo_margin = None,
       eo_includeDate = None\<rparr>
   = Inl (ElementNotFound ''Element with ID \"resume-preview-content\" not found'')"
  using export_missing_target [of "Map.empty :: jstr \<Rightarrow> unit option" "''resume-preview-content''"]
  by (simp add: not_found_message_def)

text \<open>
  \<open>exportResumeToPDF\<close> returns a result object (rather than throwing) exactly
  when the target element exists: failures of html2pdf never escape as exceptions.
\<close>

lemma export_returns_iff_found:
  "(\<exists>r. exportResumeToPDF getElementById html2pdf d elementId opts = Inr r)
   \<longleftrightarrow> getElementById elementId \<noteq> None"
  by (auto simp: exportResumeToPDF_def Let_def split: option.splits)

text \<open>
  C13. When html2pdf rejects, the export returns the failure object whose message is the
  error's message, or \<open>Unknown error\<close> for a value that is not an \<open>Error\<close>.
\<close>

theorem export_raster_failure:
  assumes "getElementById elementId = Some el" and "\<forall>p. html2pdf p el = Some err"
  shows "exportResumeToPDF getElementById html2pdf d elementId opts
           = Inr (ExportFailure (js_error_message err))"
  using assms by (simp add: exportResumeToPDF_def Let_def)

theorem export_raster_failure_witness:
  "exportResumeToPDF (\<lambda>i. if i = ''resume-preview-content'' then Some () else None)
     (\<lambda>_ _. Some NonErrorValue) ''2025-01-02T00:00:00.000Z''
     ''resume-preview-content'' \<lparr>eo_filename = None, eo_pageSize = None, eo_margin = None,
       eo_includeDate = None\<rparr>
   = Inr (ExportFailure ''Unknown error'')"
  using export_raster_failure [of "\<lambda>i. if i = ''resume-preview-content'' then Some () else None"
      "''resume-preview-content''" "()" "\<lambda>_ _. Some NonErrorValue" NonErrorValue]
  by (simp add: js_error_message_def)

text \<open>
  C14. An ATS file name is a run of ASCII letters and digits, an underscore, a run of
  letters, digits and underscores, and \<open>.pdf\<close>: every other character is stripped
  from the names and replaced by \<open>_\<close> in the position.
\<close>

theorem generateATSFilename_shape:
  "\<exists>a b. generateATSFilename f l p = a @ ''_'' @ b @ ''.pdf''
      \<and> list_all is_alnum a \<and> list_all (\<lambda>c. is_alnum c \<or> c = CHR ''_'') b"
  by (intro exI [of _ "clean_name f l"] exI [of _ "clean_position (case_option ''Resume'' id p)"])
     (simp add: generateATSFilename_def Let_def clean_name_alnum clean_position_chars)

text \<open>
  The names are joined with \<open>_\<close> before the non-alphanumeric characters are
  stripped, so the underscore between last and first name is stripped too:
  (O'Brien, Ann-Marie, Senior Dev) gives \<open>OBrienAnnMarie_Senior_Dev.pdf\<close>, not the
  \<open>OBrien_AnnMarie_Senior_Dev.pdf\<close> the specification gives.
\<close>

lemma generateATSFilename_example:
  "generateATSFilename ''Ann-Marie'' ''O'Brien'' (Some ''Senior Dev'') = ''OBrienAnnMarie_Senior_Dev.pdf''"
  by (simp add: generateATSFilename_def clean_name_def clean_position_def is_alnum_def)

text \<open>
  C15. For a file name made by \<open>generateATSFilename\<close>, including the date inserts
  \<open>_YYYY-MM-DD\<close> right before the \<open>.pdf\<close> suffix.
\<close>

theorem full_filename_ats:
  "\<exists>stem. generateATSFilename f l p = stem @ ''.pdf''
     \<and> full_filename (generateATSFilename f l p) True d
         = stem @ ''_'' @ takeWhile (\<lambda>c. c \<noteq> CHR ''T'') d @ ''.pdf''"
proof -
  obtain stem where st: "generateATSFilename f l p = stem @ ''.pdf''" and nd: "CHR ''.'' \<notin> set stem"
    using generateATSFilename_stem by blast
  with full_filename_no_dot [OF nd, of d] show ?thesis by auto
qed

text \<open>
  The date is inserted before the first occurrence of \<open>.pdf\<close> anywhere in the
  name, so a name with \<open>.pdf\<close> inside gets the date there and does not end in
  \<open>.pdf\<close>.
\<close>

lemma full_filename_inner_pdf:
  "full_filename ''cv.pdf.backup'' True ''2025-01-02T10:00:00.000Z'' = ''cv_2025-01-02.pdf.backup''"
  by (simp add: full_filename_def date_suffix_def)

text \<open>
  The two \<open>replace(/[^a-zA-Z0-9]/g, ...)\<close> calls of \<open>generateATSFilename\<close>,
  run as ECMAScript runs a global regular-expression replace, always return, and they
  return the strings \<open>clean_name\<close> and \<open>clean_position\<close> compute.
\<close>

lemma ats_replacements_return:
  "js_replace_global (\<lambda>c. \<not> is_alnum c) [] (lastName @ ''_'' @ firstName) = Some (clean_name firstName lastName)
   \<and> js_replace_global (\<lambda>c. \<not> is_alnum c) ''_'' position = Some (clean_position position)"
  by (simp add: js_replace_global_returns concat_map_delete concat_map_replace clean_name_def
      clean_position_def del: concat_map_singleton)

end
