(* ===== verification/FormData.thy ===== *)
theory FormData
  imports Prelude
begin

text \<open>
  The form section models: the shapes of the profile, experience, education and skills
  data (\<open>interface Experience\<close> of \<open>ResumeExperienceForm.tsx\<close>, \<open>interface Education\<close>
  of \<open>ResumeEducationForm.tsx\<close>, the skills object of \<open>ResumeSkillsForm.tsx\<close>, the
  profile object of \<open>ResumeProfileForm.tsx\<close>) and the builder's \<open>formData\<close> aggregate
  (\<open>ResumeBuilder.tsx\<close>). The builder's profile starts as \<open>{}\<close> and is typed
  \<open>any\<close>, so each profile field is \<open>undefined\<close> (\<open>None\<close>) until the profile editor
  reports it.
\<close>

record profile =
  firstName :: "jstr option"
  lastName :: "jstr option"
  pr_title :: "jstr option"
  email :: "jstr option"
  phone :: "jstr option"
  pr_location :: "jstr option"
  website :: "jstr option"
  linkedin :: "jstr option"
  summary :: "jstr option"

definition empty_profile :: profile where
  "empty_profile = \<lparr>firstName = None, lastName = None, pr_title = None, email = None,
     phone = None, pr_location = None, website = None, linkedin = None, summary = None\<rparr>"

record experience =
  exp_id :: jstr
  company :: jstr
  position :: jstr
  exp_location :: jstr
  exp_startDate :: jstr
  exp_endDate :: jstr
  exp_description :: jstr
  exp_isPresent :: bool

record education =
  edu_id :: jstr
  institution :: jstr
  degree :: jstr
  field :: jstr
  edu_location :: jstr
  edu_startDate :: jstr
  edu_endDate :: jstr
  edu_description :: jstr
  edu_isPresent :: bool

record skills =
  technical :: "jstr list"
  soft :: "jstr list"
  sk_languages :: "jstr list"

record form_data =
  fd_profile :: profile
  fd_experience :: "experience list"
  fd_education :: "education list"
  fd_skills :: skills

text \<open>The builder's initial \<open>formData\<close>.\<close>

definition initial_form_data :: form_data where
  "initial_form_data = \<lparr>fd_profile = empty_profile, fd_experience = [], fd_education = [],
     fd_skills = \<lparr>technical = [], soft = [], sk_languages = []\<rparr>\<rparr>"

end
