(* ===== verification/Preview.thy ===== *)
theory Preview
  imports Prelude Country FormData
begin

text \<open>
  The preview renderer, \<open>components/builder/ResumePreview.tsx\<close>: the dispatch of
  \<open>generatePreview\<close> over the country, the seven template components and the card
  around them. A rendered tree is a \<open>node\<close>: a text, a glyph outside the Latin-1
  range (the bullet U+2022, the em dash U+2014, written by code point), or an element
  with its tag, its \<open>id\<close> attribute and its children. Class names and other
  attributes are presentation and are left out. \<open>{a && <x/>}\<close> renders \<open>x\<close> only
  for a truthy \<open>a\<close>; \<open>{a} {b}\<close> is the three children \<open>a\<close>, a space and \<open>b\<close>.
\<close>

section \<open>Rendered trees\<close>

datatype node = Txt jstr | Glyph nat | El jstr "jstr option" "node list"

abbreviation el :: "jstr \<Rightarrow> node list \<Rightarrow> node" where
  "el tag children \<equiv> El tag None children"

text \<open>\<open>document.getElementById\<close> on a rendered tree: the first element in document order.\<close>

fun find_id :: "jstr \<Rightarrow> node \<Rightarrow> node option"
  and find_id_list :: "jstr \<Rightarrow> node list \<Rightarrow> node option" where
  "find_id i (Txt s) = None"
| "find_id i (Glyph n) = None"
| "find_id i (El t a cs) = (if a = Some i then Some (El t a cs) else find_id_list i cs)"
| "find_id_list i [] = None"
| "find_id_list i (c # cs) = (case find_id i c of Some n \<Rightarrow> Some n | None \<Rightarrow> find_id_list i cs)"

text \<open>\<open>s || d\<close> on a field typed \<open>string\<close>.\<close>

abbreviation or_str :: "jstr \<Rightarrow> jstr \<Rightarrow> jstr" where
  "or_str s d \<equiv> js_or (Some s) d"

definition bullet :: nat where "bullet = 8226"

definition em_dash :: nat where "em_dash = 8212"

section \<open>Shared fragments\<close>

definition name_line :: "profile \<Rightarrow> node list" where
  "name_line p = [Txt (js_or (firstName p) ''Your''), Txt '' '', Txt (js_or (lastName p) ''Name'')]"

definition date_range :: "jstr \<Rightarrow> bool \<Rightarrow> jstr \<Rightarrow> node list" where
  "date_range s present e =
     [Txt (or_str s ''Start Date''), Txt '' '', Glyph em_dash, Txt '' '',
      Txt (if present then ''Present'' else or_str e ''End Date'')]"

definition optional_span :: "jstr option \<Rightarrow> node list" where
  "optional_span v = (if js_truthy v then [el ''span'' [Txt (the v)]] else [])"

section \<open>DefaultTemplate\<close>

definition experience_entry :: "experience \<Rightarrow> node" where
  "experience_entry x =
     el ''div''
       [el ''div'' [el ''h3'' [Txt (or_str (position x) ''Position Title'')],
                    el ''span'' (date_range (exp_startDate x) (exp_isPresent x) (exp_endDate x))],
        el ''div'' [Txt (or_str (company x) ''Company Name'')],
        el ''div'' [Txt (or_str (exp_location x) ''Location'')],
        el ''p'' [Txt (or_str (exp_description x) ''Experience description will appear here.'')]]"

definition education_entry :: "education \<Rightarrow> node" where
  "education_entry x =
     el ''div''
       [el ''div'' [el ''h3'' [Txt (or_str (degree x) ''Degree''), Txt '' in '',
                              Txt (or_str (field x) ''Field of Study'')],
                    el ''span'' (date_range (edu_startDate x) (edu_isPresent x) (edu_endDate x))],
        el ''div'' [Txt (or_str (institution x) ''Institution Name'')],
        el ''div'' [Txt (or_str (edu_location x) ''Location'')],
        el ''p'' [Txt (or_str (edu_description x) ''Education details will appear here.'')]]"

definition list_or_placeholder :: "('a \<Rightarrow> node) \<Rightarrow> 'a list \<Rightarrow> jstr \<Rightarrow> node list" where
  "list_or_placeholder f xs msg = (if 0 < length xs then map f xs else [el ''p'' [Txt msg]])"

definition DefaultTemplate :: "form_data \<Rightarrow> jstr \<Rightarrow> node" where
  "DefaultTemplate fd templateId =
     (let p = fd_profile fd in
      el ''div''
       [el ''header''
          [el ''h1'' (name_line p),
           el ''p'' [Txt (js_or (pr_title p) ''Professional Title'')],
           el ''div'' [el ''span'' [Txt (js_or (email p) ''email@example.com'')],
                       el ''span'' [Glyph bullet],
                       el ''span'' [Txt (js_or (phone p) ''(555) 123-4567'')]],
           el ''div'' [el ''span'' [Txt (js_or (pr_location p) ''City, Country'')]]],
        el ''section''
          [el ''h2'' [Txt ''Summary''],
           el ''p'' [Txt (js_or (summary p)
             ''Professional summary will appear here. Add your experience and skills overview.'')]],
        el ''section''
          (el ''h2'' [Txt ''Experience''] #
           list_or_placeholder experience_entry (fd_experience fd)
             ''Add work experience to see it here.''),
        el ''section''
          (el ''h2'' [Txt ''Education''] #
           list_or_placeholder education_entry (fd_education fd) ''Add education to see it here.''),
        el ''section''
          [el ''h2'' [Txt ''Skills''],
           el ''div'' (list_or_placeholder (\<lambda>s. el ''Badge'' [Txt s]) (technical (fd_skills fd))
             ''Add technical skills to see them here.'')]])"

section \<open>Country templates\<close>

definition CanadaTemplate :: "form_data \<Rightarrow> jstr \<Rightarrow> node" where
  "CanadaTemplate fd templateId =
     (let p = fd_profile fd in
      el ''div''
       [el ''header''
          [el ''h1'' (name_line p),
           el ''p'' [Txt (js_or (pr_title p) ''Professional Title'')],
           el ''div'' ([el ''span'' [Txt (js_or (email p) ''email@example.com'')],
                        el ''span'' [Txt (js_or (phone p) ''(555) 123-4567'')],
                        el ''span'' [Txt (js_or (pr_location p) ''City, Province'')]]
                       @ optional_span (linkedin p))],
        el ''section''
          [el ''h2'' [Txt ''Professional Summary''],
           el ''p'' [Txt (js_or (summary p)
             ''A concise 3-4 sentence summary highlighting your professional background, key achievements, and career focus.'')]],
        el ''section'' [el ''h2'' [Txt ''Professional Experience'']]])"

definition GermanyTemplate :: "form_data \<Rightarrow> jstr \<Rightarrow> node" where
  "GermanyTemplate fd templateId =
     (let p = fd_profile fd in
      el ''div''
       [el ''header''
          [el ''div'' [el ''h1'' (name_line p), el ''p'' [Txt (js_or (pr_title p) ''Lebenslauf'')]],
           el ''div'' [el ''span'' [Txt ''Foto'']]],
        el ''section''
          [el ''h2'' [Txt (''Pers'' @ [CHR 0xF6] @ ''nliche Daten'')],
           el ''div''
             [el ''div'' [Txt ''Adresse:''],
              el ''div'' [Txt (js_or (pr_location p) (''Vollst'' @ [CHR 0xE4] @ ''ndige Adresse''))],
              el ''div'' [Txt ''Telefon:''],
              el ''div'' [Txt (js_or (phone p) ''Telefonnummer'')],
              el ''div'' [Txt ''E-Mail:''],
              el ''div'' [Txt (js_or (email p) ''E-Mail-Adresse'')],
              el ''div'' [Txt ''Geburtsdatum:''],
              el ''div'' [Txt ''01.01.1990'']]]])"

definition AustraliaTemplate :: "form_data \<Rightarrow> jstr \<Rightarrow> node" where
  "AustraliaTemplate fd templateId =
     (let p = fd_profile fd in
      el ''div''
       [el ''header''
          [el ''h1'' (name_line p),
           el ''p'' [Txt (js_or (pr_title p) ''Professional Summary'')],
           el ''div''
             [el ''div'' [Txt ''Email: '', Txt (js_or (email p) ''email@example.com'')],
              el ''div'' [Txt ''Phone: '', Txt (js_or (phone p) ''(04) 1234 5678'')],
              el ''div'' [Txt ''Location: '', Txt (js_or (pr_location p) ''City, State'')],
              el ''div'' [Txt ''LinkedIn: '', Txt (js_or (linkedin p) ''linkedin.com/in/yourname'')]]]])"

definition PortugalTemplate :: "form_data \<Rightarrow> jstr \<Rightarrow> node" where
  "PortugalTemplate fd templateId =
     el ''div'' [el ''header'' [el ''h1'' [Txt ''Curriculum Vitae''],
                                el ''h2'' (name_line (fd_profile fd))]]"

definition USATemplate :: "form_data \<Rightarrow> jstr \<Rightarrow> node" where
  "USATemplate fd templateId =
     (let p = fd_profile fd in
      el ''div''
       [el ''header''
          ([el ''h1'' (name_line p),
            el ''div'' [el ''span'' [Txt (js_or (email p) ''email@example.com'')],
                        el ''span'' [Txt ''|''],
                        el ''span'' [Txt (js_or (phone p) ''(555) 123-4567'')],
                        el ''span'' [Txt ''|''],
                        el ''span'' [Txt (js_or (pr_location p) ''City, State'')]]]
           @ (if js_truthy (linkedin p) then [el ''div'' (optional_span (linkedin p))] else []))])"

definition EUTemplate :: "form_data \<Rightarrow> jstr \<Rightarrow> node" where
  "EUTemplate fd templateId =
     el ''div''
       [el ''header''
          [el ''div'' [el ''h1'' [Txt ''Europass'', el ''br'' [], Txt ''Curriculum Vitae'']],
           el ''div'' [el ''div'' [el ''span'' [Txt ''Personal Information'']],
                       el ''h2'' (name_line (fd_profile fd))]]]"

section \<open>ResumePreview\<close>

text \<open>
  \<open>generatePreview\<close>: the \<open>switch\<close> over the country prop. The prop is typed with
  the six-member union, so the \<open>default\<close> branch (\<open>DefaultTemplate\<close>) has no
  member to match; the option-typed argument is the untyped value the branch would
  take.
\<close>

definition generatePreview :: "country option \<Rightarrow> form_data \<Rightarrow> jstr \<Rightarrow> node" where
  "generatePreview c fd templateId = (case c of
      Some Canada \<Rightarrow> CanadaTemplate fd templateId
    | Some Germany \<Rightarrow> GermanyTemplate fd templateId
    | Some Australia \<Rightarrow> AustraliaTemplate fd templateId
    | Some Portugal \<Rightarrow> PortugalTemplate fd templateId
    | Some USA \<Rightarrow> USATemplate fd templateId
    | Some EU \<Rightarrow> EUTemplate fd templateId
    | None \<Rightarrow> DefaultTemplate fd templateId)"

text \<open>\<open>country.charAt(0).toUpperCase() + country.slice(1)\<close>.\<close>

definition js_upper_char :: "char \<Rightarrow> char" where
  "js_upper_char c = (let n = of_char c :: nat in
     if (97 \<le> n \<and> n \<le> 122) \<or> (224 \<le> n \<and> n \<le> 254 \<and> n \<noteq> 247)
     then char_of (n - 32) else c)"

definition capitalize :: "jstr \<Rightarrow> jstr" where
  "capitalize s = (case s of [] \<Rightarrow> [] | c # cs \<Rightarrow> js_upper_char c # cs)"

text \<open>The preview card: its title bar and the element \<open>resume-preview-content\<close>.\<close>

definition preview_content_id :: jstr where
  "preview_content_id = ''resume-preview-content''"

definition ResumePreview :: "country \<Rightarrow> jstr \<Rightarrow> form_data \<Rightarrow> node" where
  "ResumePreview c templateId fd =
     el ''Card''
       [el ''div'' [el ''div'' [el ''CountryIcon'' [],
                               el ''span'' [Txt (capitalize (country_str c)), Txt '' Resume Preview'']],
                   el ''Badge'' [Txt ''Template: '', Txt templateId]],
        el ''CardContent''
          [el ''div'' [El ''div'' (Some preview_content_id) [generatePreview (Some c) fd templateId]],
           el ''div'' [Txt ''Preview Mode'']]]"

section \<open>Observing a tree\<close>

text \<open>The texts of a tree in document order, what a reader of the preview sees.\<close>

fun node_texts :: "node \<Rightarrow> jstr list"
  and node_texts_list :: "node list \<Rightarrow> jstr list" where
  "node_texts (Txt s) = [s]"
| "node_texts (Glyph n) = []"
| "node_texts (El t a cs) = node_texts_list cs"
| "node_texts_list [] = []"
| "node_texts_list (c # cs) = node_texts c @ node_texts_list cs"

section \<open>Tree order, the reference for getElementById\<close>

text \<open>
  The DOM specifies \<open>getElementById\<close> as the first element in tree order (a pre-order
  traversal) whose id is the argument; \<open>find_id\<close> is the recursive search that stops
  at the first hit.
\<close>

fun preorder :: "node \<Rightarrow> node list"
  and preorder_list :: "node list \<Rightarrow> node list" where
  "preorder (El t a cs) = El t a cs # preorder_list cs"
| "preorder n = [n]"
| "preorder_list [] = []"
| "preorder_list (c # cs) = preorder c @ preorder_list cs"

fun elem_id :: "node \<Rightarrow> jstr option" where
  "elem_id (El t a cs) = a"
| "elem_id n = None"

section \<open>Lemmas\<close>

lemmas template_defs = CanadaTemplate_def GermanyTemplate_def AustraliaTemplate_def
  PortugalTemplate_def USATemplate_def EUTemplate_def

lemma find_id_list_append:
  "find_id_list i (xs @ ys) = (case find_id_list i xs of Some n \<Rightarrow> Some n | None \<Rightarrow> find_id_list i ys)"
  by (induction xs) (auto split: option.splits)

lemma node_texts_list_append [simp]: "node_texts_list (xs @ ys) = node_texts_list xs @ node_texts_list ys"
  by (induction xs) simp_all

lemma find_append_option:
  "find P (xs @ ys) = (case find P xs of Some x \<Rightarrow> Some x | None \<Rightarrow> find P ys)"
  by (induction xs) auto

lemma find_id_preorder_mutual:
  "find_id i n = find (\<lambda>m. elem_id m = Some i) (preorder n)"
  "find_id_list i cs = find (\<lambda>m. elem_id m = Some i) (preorder_list cs)"
  by (induction i n and i cs rule: find_id_find_id_list.induct)
     (simp_all add: find_append_option split: option.split)


section \<open>Properties\<close>

text \<open>
  The rendering-target contract: the preview card always holds the element
  \<open>resume-preview-content\<close>, and the first element with that id is the one that wraps
  the country template, so the export pipeline finds the template.
\<close>

lemma preview_target_found:
  "find_id preview_content_id (ResumePreview c templateId fd)
     = Some (El ''div'' (Some preview_content_id) [generatePreview (Some c) fd templateId])"
  by (simp add: ResumePreview_def preview_content_id_def)

text \<open>
  For every one of the six countries the rendered preview does not depend on the
  experience, education or skills data at all: the country templates render only profile
  fields, so neither the entries nor the empty-list placeholders of the specification
  appear. The comments at lines 190 and 193 of \<open>ResumePreview.tsx\<close> say the Canadian
  sections are similar to the default template, which renders these lists; the code does
  not (a recorded divergence).
\<close>

lemma country_templates_ignore_lists:
  "generatePreview (Some c) fd templateId
     = generatePreview (Some c) (fd\<lparr>fd_experience := xs, fd_education := ys, fd_skills := sk\<rparr>) templateId"
  by (cases c) (simp_all add: generatePreview_def template_defs)

text \<open>
  The selected template id does not change the rendered template: every template
  component ignores its \<open>templateId\<close> argument (the id only appears in the badge).
  The comment at line 17 of \<open>ResumePreview.tsx\<close> says the preview is generated from
  the country and the template; the code uses the country only (a recorded divergence).
\<close>

lemma preview_ignores_templateId:
  "generatePreview c fd templateId = generatePreview c fd templateId'"
  by (cases c rule: option.exhaust) (auto simp: generatePreview_def template_defs DefaultTemplate_def
      split: country.splits)

text \<open>
  The fallback template renders the italic empty-state message for an empty
  experience list.
\<close>

lemma default_template_placeholder:
  assumes "fd_experience fd = []"
  shows "''Add work experience to see it here.'' \<in> set (node_texts (DefaultTemplate fd templateId))"
  using assms by (simp add: DefaultTemplate_def list_or_placeholder_def Let_def)

text \<open>
  Placeholder on empty: every template, the fallback included, shows the first and
  last name, or \<open>Your\<close> and \<open>Name\<close> where they are absent or empty.
\<close>

lemma preview_name_placeholder:
  "js_or (firstName (fd_profile fd)) ''Your'' \<in> set (node_texts (generatePreview c fd templateId))
   \<and> js_or (lastName (fd_profile fd)) ''Name'' \<in> set (node_texts (generatePreview c fd templateId))"
  by (cases c rule: option.exhaust)
     (auto simp: generatePreview_def template_defs DefaultTemplate_def name_line_def Let_def
       split: country.splits)

end
