(* ===== verification/Builder.thy ===== *)
theory Builder
  imports Prelude Country FormData Sections PdfExport Preview
begin

text \<open>
  The builder orchestrator, \<open>pages/ResumeBuilder.tsx\<close>. Its React state
  (\<open>country\<close>, \<open>templateId\<close>, \<open>activeSection\<close>, \<open>formData\<close>, \<open>sections\<close>,
  \<open>isDirty\<close>) with the two external stores it writes (the URL query string and the
  \<open>resumeData\<close> slot of \<open>localStorage\<close>) is the record \<open>builder_state\<close>. The
  mount effect reads the query string once; the URL effect writes it after every render
  in which the country or the template changed, which is modelled by applying
  \<open>syncUrl\<close> after every handler (it is idempotent). \<open>JSON.stringify\<close> of the saved
  object is modelled by storing the object itself. \<open>handleExport\<close> returns the toast it
  shows; the document it exports from is the rendered \<open>ResumePreview\<close>.
  \<open>builder_sys_reach\<close> composes the builder with the section registry of
  \<open>Sections\<close>: the registry's \<open>onSectionsChange\<close> notifications are the builder's
  \<open>handleSectionsChange\<close>, and the registry's country prop is the builder's country.
\<close>

section \<open>State\<close>

record stored_resume =
  sv_country :: country
  sv_templateId :: jstr
  sv_formData :: form_data
  sv_sections :: "resume_section list"

record builder_state =
  b_country :: country
  templateId :: jstr
  activeSection :: section_type
  formData :: form_data
  b_sections :: "resume_section list"
  isDirty :: bool
  searchParams :: "(jstr \<times> jstr) list"
  resumeData :: "stored_resume option"

text \<open>The initial state; \<open>old\<close> is whatever \<open>localStorage\<close> already holds.\<close>

definition builder_init :: "stored_resume option \<Rightarrow> builder_state" where
  "builder_init old = \<lparr>b_country = USA, templateId = ''usa-professional'', activeSection = Profile,
     formData = initial_form_data, b_sections = [], isDirty = False, searchParams = [],
     resumeData = old\<rparr>"

section \<open>Effects and handlers\<close>

text \<open>The mount effect: a valid \<open>country\<close> parameter and any non-empty \<open>template\<close>.\<close>

definition initFromUrl :: "jstr option \<Rightarrow> jstr option \<Rightarrow> builder_state \<Rightarrow> builder_state" where
  "initFromUrl countryParam templateParam st =
     (let st1 = (case parse_country countryParam of
                   Some c \<Rightarrow> st\<lparr>b_country := c\<rparr>
                 | None \<Rightarrow> st)
      in if js_truthy templateParam then st1\<lparr>templateId := the templateParam\<rparr> else st1)"

definition syncUrl :: "builder_state \<Rightarrow> builder_state" where
  "syncUrl st = st\<lparr>searchParams := [(''country'', country_str (b_country st)),
                                    (''template'', templateId st)]\<rparr>"

definition handleCountryChange :: "country \<Rightarrow> builder_state \<Rightarrow> builder_state" where
  "handleCountryChange c st = st\<lparr>b_country := c, templateId := country_str c @ ''-professional''\<rparr>"

definition handleTemplateChange :: "jstr \<Rightarrow> builder_state \<Rightarrow> builder_state" where
  "handleTemplateChange t st = st\<lparr>templateId := t\<rparr>"

text \<open>The data each section editor reports through \<open>onChange\<close>.\<close>

datatype form_payload =
    ProfilePayload profile
  | ExperiencePayload "experience list"
  | EducationPayload "education list"
  | SkillsPayload skills

definition handleFormDataChange :: "form_payload \<Rightarrow> builder_state \<Rightarrow> builder_state" where
  "handleFormDataChange d st =
     (let fd = formData st;
          fd' = (case d of
                   ProfilePayload p \<Rightarrow> fd\<lparr>fd_profile := p\<rparr>
                 | ExperiencePayload xs \<Rightarrow> fd\<lparr>fd_experience := xs\<rparr>
                 | EducationPayload xs \<Rightarrow> fd\<lparr>fd_education := xs\<rparr>
                 | SkillsPayload s \<Rightarrow> fd\<lparr>fd_skills := s\<rparr>)
      in st\<lparr>formData := fd', isDirty := True\<rparr>)"

definition handleSectionsChange :: "resume_section list \<Rightarrow> builder_state \<Rightarrow> builder_state" where
  "handleSectionsChange l st = st\<lparr>b_sections := l, isDirty := True\<rparr>"

datatype toast = ToastSuccess jstr | ToastError jstr

definition handleSave :: "builder_state \<Rightarrow> builder_state \<times> toast" where
  "handleSave st =
     (st\<lparr>resumeData := Some \<lparr>sv_country = b_country st, sv_templateId = templateId st,
                             sv_formData = formData st, sv_sections = b_sections st\<rparr>,
         isDirty := False\<rparr>,
      ToastSuccess ''Resume saved successfully'')"

text \<open>The document the export reads: the rendered preview card.\<close>

definition builder_document :: "builder_state \<Rightarrow> jstr \<Rightarrow> node option" where
  "builder_document st i = find_id i (ResumePreview (b_country st) (templateId st) (formData st))"

definition export_file_name :: "builder_state \<Rightarrow> jstr" where
  "export_file_name st =
     (let p = fd_profile (formData st)
      in generateATSFilename (js_or (firstName p) ''Resume'') (js_or (lastName p) [])
           (Some (js_or (pr_title p) [])))"

definition handleExport ::
  "(pdf_options \<Rightarrow> node \<Rightarrow> js_error option) \<Rightarrow> jstr \<Rightarrow> builder_state \<Rightarrow> toast" where
  "handleExport html2pdf isoDate st =
     (let pageSize = getRecommendedPageSize (country_str (b_country st));
          fileName = export_file_name st;
          result = exportResumeToPDF (builder_document st) html2pdf isoDate
                     ''resume-preview-content''
                     \<lparr>eo_filename = Some fileName, eo_pageSize = Some pageSize,
                      eo_margin = Some (MarginAll 10), eo_includeDate = Some True\<rparr>
      in (case result of
            Inl _ \<Rightarrow> ToastError ''An error occurred during PDF export''
          | Inr (ExportSuccess f) \<Rightarrow> ToastSuccess (''PDF exported successfully as '' @ f)
          | Inr (ExportFailure m) \<Rightarrow> ToastError (''Failed to export PDF: '' @ m)))"

section \<open>Events of the page\<close>

datatype builder_event =
    CountryChange country
  | TemplateChange jstr
  | FormChange form_payload
  | SectionsChange "resume_section list"
  | ActiveSectionTab section_type
  | SaveClick
  | ExportClick "pdf_options \<Rightarrow> node \<Rightarrow> js_error option" jstr

text \<open>One event: its handler, then the URL effect. Save is enabled only while dirty.\<close>

definition builder_enabled :: "builder_state \<Rightarrow> builder_event \<Rightarrow> bool" where
  "builder_enabled st e = (case e of SaveClick \<Rightarrow> isDirty st | _ \<Rightarrow> True)"

definition builder_step :: "builder_event \<Rightarrow> builder_state \<Rightarrow> builder_state \<times> toast option" where
  "builder_step e st = (case e of
      CountryChange c \<Rightarrow> (syncUrl (handleCountryChange c st), None)
    | TemplateChange t \<Rightarrow> (syncUrl (handleTemplateChange t st), None)
    | FormChange d \<Rightarrow> (syncUrl (handleFormDataChange d st), None)
    | SectionsChange l \<Rightarrow> (syncUrl (handleSectionsChange l st), None)
    | ActiveSectionTab s \<Rightarrow> (syncUrl (st\<lparr>activeSection := s\<rparr>), None)
    | SaveClick \<Rightarrow> (let (st', t) = handleSave st in (syncUrl st', Some t))
    | ExportClick h d \<Rightarrow> (syncUrl st, Some (handleExport h d st)))"

text \<open>A page session: the mount with the query parameters, then enabled events.\<close>

inductive builder_reach :: "builder_state \<Rightarrow> bool" where
  mount: "builder_reach (syncUrl (initFromUrl cp tp (builder_init old)))"
| step: "builder_reach st \<Longrightarrow> builder_enabled st e \<Longrightarrow> builder_reach (fst (builder_step e st))"

section \<open>The builder with the section registry\<close>

text \<open>
  The two components together, with the clock of \<open>Sections\<close>. The registry lives in the
  \<open>Section Order\<close> tab of an uncontrolled Radix \<open>Tabs\<close> that opens on \<open>Content\<close>
  (\<open>ResumeBuilder.tsx\<close>, lines 160--222). Radix mounts a tab's content only while it is
  selected, so the registry is \<open>None\<close> until the tab is opened, starts at
  \<open>reorder_init\<close> at every opening, and is dropped when another tab is chosen. A step is
  a builder event, the opening or closing of the tab, or a registry event whose
  notification (if any) is passed to \<open>handleSectionsChange\<close>.
\<close>

text \<open>Builder events other than the registry's notification.\<close>

fun own_event :: "builder_event \<Rightarrow> bool" where
  "own_event (SectionsChange l) = False"
| "own_event e = True"

definition notify_sections :: "resume_section list option \<Rightarrow> builder_state \<Rightarrow> builder_state" where
  "notify_sections out st = (case out of None \<Rightarrow> st | Some l \<Rightarrow> syncUrl (handleSectionsChange l st))"

inductive builder_sys_reach :: "nat \<Rightarrow> builder_state \<Rightarrow> reorder_state option \<Rightarrow> bool" where
  mount: "builder_sys_reach 0 (syncUrl (initFromUrl cp tp (builder_init old))) None"
| open_tab: "builder_sys_reach t st None \<Longrightarrow> builder_sys_reach t st (Some reorder_init)"
| close_tab: "builder_sys_reach t st (Some rs) \<Longrightarrow> builder_sys_reach t st None"
| builder: "builder_sys_reach t st r \<Longrightarrow> builder_enabled st e \<Longrightarrow> own_event e \<Longrightarrow>
     builder_sys_reach t (fst (builder_step e st)) r"
| registry: "builder_sys_reach t st (Some rs) \<Longrightarrow> t < now \<Longrightarrow> reorder_enabled rs e \<Longrightarrow>
     reorder_dispatch (b_country st) now e rs = Inr (rs', out) \<Longrightarrow>
     builder_sys_reach now (notify_sections out st) (Some rs')"

section \<open>Save consistency\<close>

definition clean_saved :: "builder_state \<Rightarrow> bool" where
  "clean_saved st =
     (isDirty st \<or> (formData st = initial_form_data \<and> b_sections st = [])
      \<or> (case resumeData st of None \<Rightarrow> False
          | Some sv \<Rightarrow> sv_formData sv = formData st \<and> sv_sections sv = b_sections st))"

text \<open>A sample skills payload, used by the examples.\<close>

definition sample_skills :: skills where
  "sample_skills = \<lparr>technical = [''Isabelle''], soft = [], sk_languages = []\<rparr>"

section \<open>Lemmas\<close>

lemma syncUrl_fields [simp]:
  "b_country (syncUrl st) = b_country st" "templateId (syncUrl st) = templateId st"
  "formData (syncUrl st) = formData st" "b_sections (syncUrl st) = b_sections st"
  "isDirty (syncUrl st) = isDirty st" "resumeData (syncUrl st) = resumeData st"
  "searchParams (syncUrl st) = [(''country'', country_str (b_country st)), (''template'', templateId st)]"
  by (simp_all add: syncUrl_def)

lemma initFromUrl_fields [simp]:
  "formData (initFromUrl cp tp st) = formData st" "b_sections (initFromUrl cp tp st) = b_sections st"
  "isDirty (initFromUrl cp tp st) = isDirty st" "resumeData (initFromUrl cp tp st) = resumeData st"
  by (simp_all add: initFromUrl_def Let_def split: option.splits)

lemma builder_step_synced:
  "searchParams (fst (builder_step e st))
     = [(''country'', country_str (b_country (fst (builder_step e st)))),
        (''template'', templateId (fst (builder_step e st)))]"
  by (cases e) (simp_all add: builder_step_def handleSave_def split: prod.splits)

lemma builder_step_clean_saved: "clean_saved st \<Longrightarrow> clean_saved (fst (builder_step e st))"
  by (cases e)
     (auto simp: builder_step_def clean_saved_def handleCountryChange_def handleTemplateChange_def
        handleFormDataChange_def handleSectionsChange_def handleSave_def Let_def
        split: prod.splits option.splits)

lemma builder_document_found:
  "builder_document st ''resume-preview-content''
     = Some (El ''div'' (Some ''resume-preview-content'')
              [generatePreview (Some (b_country st)) (formData st) (templateId st)])"
  by (simp add: builder_document_def ResumePreview_def preview_content_id_def)

lemma reorder_dispatch_out:
  assumes "reorder_dispatch c now e rs = Inr (rs', out)"
  shows "(out = None \<and> sections rs' = sections rs) \<or> out = Some (sections rs')"
proof (cases e)
  case (DragEnd r)
  with assms show ?thesis
    by (auto simp: reorder_dispatch_def handleDragEnd_def Let_def split: option.splits prod.splits)
qed (use assms in \<open>auto simp: reorder_dispatch_def toggleSectionVisibility_def removeSection_def
      addCustomSection_def applyCountryRecommendations_def Let_def split: if_splits\<close>)

lemma builder_step_own_sections:
  "own_event e \<Longrightarrow> b_sections (fst (builder_step e st)) = b_sections st"
  by (cases e) (simp_all add: builder_step_def handleCountryChange_def handleTemplateChange_def
      handleFormDataChange_def handleSave_def Let_def split: prod.splits)

lemma builder_mount_reach: "builder_reach (syncUrl (initFromUrl cp tp (builder_init old)))"
  by (rule builder_reach.mount)

lemma builder_saved_reach:
  "builder_reach (fst (builder_step SaveClick (fst (builder_step (FormChange (SkillsPayload sample_skills))
     (syncUrl (initFromUrl None None (builder_init None)))))))"
proof -
  have r1: "builder_reach (fst (builder_step (FormChange (SkillsPayload sample_skills))
     (syncUrl (initFromUrl None None (builder_init None)))))"
    by (rule builder_reach.step [OF builder_mount_reach]) (simp add: builder_enabled_def)
  show ?thesis
    by (rule builder_reach.step [OF r1])
       (simp add: builder_enabled_def builder_step_def handleFormDataChange_def Let_def)
qed

lemma builder_toggle_sys_reach:
  "builder_sys_reach 1
     (notify_sections (snd (toggleSectionVisibility ''skills'' reorder_init))
        (syncUrl (initFromUrl None None (builder_init None))))
     (Some (fst (toggleSectionVisibility ''skills'' reorder_init)))"
  by (rule builder_sys_reach.registry [OF builder_sys_reach.open_tab [OF builder_sys_reach.mount],
        where e = "ToggleClick ''skills''"])
     (simp_all add: reorder_enabled_def reorder_dispatch_def reorder_init_def defaultSections_def
        mk_section_def)

text \<open>The registry's list of sections is either the one the builder holds or the eight
  defaults of a fresh mount.\<close>

lemma builder_sys_sections_inv:
  "builder_sys_reach t st r \<Longrightarrow>
   (case r of None \<Rightarrow> True | Some rs \<Rightarrow> b_sections st = sections rs \<or> sections rs = defaultSections)"
proof (induction rule: builder_sys_reach.induct)
  case (builder t st r e)
  with builder_step_own_sections [OF builder.hyps(3)] show ?case by (simp split: option.splits)
next
  case (registry t st rs now e rs' out)
  from reorder_dispatch_out [OF registry.hyps(4)] registry.IH show ?case
    by (auto simp: notify_sections_def handleSectionsChange_def)
qed (simp_all add: reorder_init_def)

text \<open>
  Leaving the tab and coming back resets the registry: after one visibility toggle, a
  switch to \<open>Content\<close> and back shows the defaults while the builder keeps the toggled list.
\<close>

lemma builder_sys_remount_disagree:
  "builder_sys_reach 1
     (notify_sections (snd (toggleSectionVisibility ''skills'' reorder_init))
        (syncUrl (initFromUrl None None (builder_init None))))
     (Some reorder_init)
   \<and> b_sections (notify_sections (snd (toggleSectionVisibility ''skills'' reorder_init))
        (syncUrl (initFromUrl None None (builder_init None)))) \<noteq> sections reorder_init"
proof
  show "builder_sys_reach 1
     (notify_sections (snd (toggleSectionVisibility ''skills'' reorder_init))
        (syncUrl (initFromUrl None None (builder_init None))))
     (Some reorder_init)"
    by (rule builder_sys_reach.open_tab [OF builder_sys_reach.close_tab [OF builder_toggle_sys_reach]])
  show "b_sections (notify_sections (snd (toggleSectionVisibility ''skills'' reorder_init))
        (syncUrl (initFromUrl None None (builder_init None)))) \<noteq> sections reorder_init"
    by (simp add: toggleSectionVisibility_def notify_sections_def handleSectionsChange_def Let_def
        reorder_init_def defaultSections_def mk_section_def)
qed


text \<open>\<open>localStorage\<close> is written only by Save, and never read: a session starts with the
  initial form data whatever the slot holds.\<close>

lemma builder_step_resumeData:
  "resumeData (fst (builder_step e st)) \<noteq> resumeData st \<Longrightarrow> e = SaveClick"
  by (cases e) (auto simp: builder_step_def syncUrl_def handleCountryChange_def handleTemplateChange_def
      handleFormDataChange_def handleSectionsChange_def handleSave_def Let_def split: prod.splits)

lemma builder_mount_ignores_storage:
  "formData (syncUrl (initFromUrl cp tp (builder_init old))) = initial_form_data"
  by (simp add: builder_init_def)

section \<open>Properties\<close>

text \<open>
  C16. The URL effect: in every state of a page session the query string holds exactly the
  current country key and the current template id, in that order.
\<close>

theorem builder_reach_url_synced:
  assumes "builder_reach st"
  shows "searchParams st = [(''country'', country_str (b_country st)), (''template'', templateId st)]"
  using assms
proof (induction rule: builder_reach.induct)
  case (mount cp tp old)
  show ?case by simp
next
  case (step st e)
  show ?case by (rule builder_step_synced)
qed

text \<open>C16, at the session that mounts with \<open>?country=germany\<close> and no template.\<close>

theorem builder_reach_url_synced_witness:
  "builder_reach (syncUrl (initFromUrl (Some ''germany'') None (builder_init None)))
   \<and> searchParams (syncUrl (initFromUrl (Some ''germany'') None (builder_init None)))
       = [(''country'', ''germany''), (''template'', ''usa-professional'')]"
proof -
  note r = builder_mount_reach [of "Some ''germany''" None None]
  from builder_reach_url_synced [OF r] r show ?thesis
    by (simp add: initFromUrl_def parse_country_def valid_countries_def builder_init_def js_truthy_def)
qed

text \<open>
  C17. Save consistency: in every reachable state that is not dirty, either nothing has been
  edited yet (the initial form data and no sections) or \<open>localStorage\<close> holds a snapshot
  whose form data and sections are the current ones.
\<close>

theorem builder_reach_clean_saved:
  assumes "builder_reach st" and "\<not> isDirty st"
  shows "(formData st = initial_form_data \<and> b_sections st = [])
         \<or> (\<exists>sv. resumeData st = Some sv \<and> sv_formData sv = formData st \<and> sv_sections sv = b_sections st)"
proof -
  from assms(1) have "clean_saved st"
  proof (induction rule: builder_reach.induct)
    case (mount cp tp old)
    show ?case by (simp add: clean_saved_def builder_init_def)
  next
    case (step st e)
    from step.IH show ?case by (rule builder_step_clean_saved)
  qed
  with assms(2) show ?thesis by (auto simp: clean_saved_def split: option.splits)
qed

text \<open>C17, after an edit of the skills and a save.\<close>

theorem builder_reach_clean_saved_witness:
  "builder_reach (fst (builder_step SaveClick (fst (builder_step (FormChange (SkillsPayload sample_skills))
     (syncUrl (initFromUrl None None (builder_init None)))))))
   \<and> \<not> isDirty (fst (builder_step SaveClick (fst (builder_step (FormChange (SkillsPayload sample_skills))
     (syncUrl (initFromUrl None None (builder_init None)))))))
   \<and> resumeData (fst (builder_step SaveClick (fst (builder_step (FormChange (SkillsPayload sample_skills))
     (syncUrl (initFromUrl None None (builder_init None)))))))
     = Some \<lparr>sv_country = USA, sv_templateId = ''usa-professional'',
             sv_formData = initial_form_data\<lparr>fd_skills := sample_skills\<rparr>, sv_sections = []\<rparr>"
proof -
  note r = builder_saved_reach
  have nd: "\<not> isDirty (fst (builder_step SaveClick (fst (builder_step (FormChange (SkillsPayload sample_skills))
     (syncUrl (initFromUrl None None (builder_init None)))))))"
    by (simp add: builder_step_def handleSave_def)
  from builder_reach_clean_saved [OF r nd] r nd show ?thesis
    by (simp add: builder_step_def handleSave_def handleFormDataChange_def builder_init_def
        initFromUrl_def parse_country_def js_truthy_def Let_def)
qed

text \<open>
  A country change neither marks the resume dirty nor touches the saved snapshot; it
  only switches the country (and the template).
\<close>

lemma country_change_keeps_save_state:
  "isDirty (fst (builder_step (CountryChange c) st)) = isDirty st
   \<and> resumeData (fst (builder_step (CountryChange c) st)) = resumeData st
   \<and> b_country (fst (builder_step (CountryChange c) st)) = c"
  by (simp add: builder_step_def handleCountryChange_def)

text \<open>
  C18. The export button never hits the missing-element error: the element id the builder
  passes is always the id of the rendered preview content.
\<close>

theorem handleExport_target_found:
  "handleExport html2pdf d st \<noteq> ToastError ''An error occurred during PDF export''"
  by (simp add: handleExport_def exportResumeToPDF_def builder_document_found Let_def
      split: option.splits export_result.splits)

text \<open>
  C19. When the PDF library succeeds, the toast names the file
  \<open><stem>_<YYYY-MM-DD>.pdf\<close>, where \<open><stem>.pdf\<close> is the ATS file name the builder
  computed and the date is the part of the ISO timestamp before \<open>T\<close>.
\<close>

theorem handleExport_success_file_name:
  assumes "\<forall>p n. html2pdf p n = None"
  shows "\<exists>stem. export_file_name st = stem @ ''.pdf''
           \<and> handleExport html2pdf d st
               = ToastSuccess (''PDF exported successfully as '' @ stem @ ''_''
                               @ takeWhile (\<lambda>c. c \<noteq> CHR ''T'') d @ ''.pdf'')"
proof -
  obtain stem where st: "export_file_name st = stem @ ''.pdf''" and nd: "CHR ''.'' \<notin> set stem"
    using generateATSFilename_stem unfolding export_file_name_def Let_def by blast
  have "handleExport html2pdf d st
          = ToastSuccess (''PDF exported successfully as '' @ full_filename (export_file_name st) True d)"
    using assms by (simp add: handleExport_def exportResumeToPDF_def builder_document_found Let_def)
  with st full_filename_no_dot [OF nd, of d] show ?thesis by auto
qed

text \<open>C19, for the initial state and a successful library.\<close>

theorem handleExport_success_file_name_witness:
  "\<exists>stem. export_file_name (builder_init None) = stem @ ''.pdf''
     \<and> handleExport (\<lambda>_ _. None) ''2025-01-02T10:00:00.000Z'' (builder_init None)
         = ToastSuccess (''PDF exported successfully as '' @ stem @ ''_''
                         @ takeWhile (\<lambda>c. c \<noteq> CHR ''T'') ''2025-01-02T10:00:00.000Z'' @ ''.pdf'')"
  using handleExport_success_file_name [of "\<lambda>_ _. None" "builder_init None" "''2025-01-02T10:00:00.000Z''"]
  by simp

text \<open>
  C20. While the \<open>Section Order\<close> tab is open, the registry shows the builder's list of
  sections or the eight defaults of its mount: the builder hears of every change the
  registry makes, and the only disagreement is the reset of a fresh mount (which is
  reachable, see \<open>builder_sys_remount_disagree\<close>).
\<close>

theorem builder_sys_sections_agree:
  assumes "builder_sys_reach t st (Some rs)"
  shows "b_sections st = sections rs \<or> sections rs = defaultSections"
  using builder_sys_sections_inv [OF assms] by simp

text \<open>C20, after the tab is opened and one section is toggled.\<close>

theorem builder_sys_sections_agree_witness:
  "builder_sys_reach 1
     (notify_sections (snd (toggleSectionVisibility ''skills'' reorder_init))
        (syncUrl (initFromUrl None None (builder_init None))))
     (Some (fst (toggleSectionVisibility ''skills'' reorder_init)))
   \<and> b_sections (notify_sections (snd (toggleSectionVisibility ''skills'' reorder_init))
        (syncUrl (initFromUrl None None (builder_init None))))
     = sections (fst (toggleSectionVisibility ''skills'' reorder_init))"
proof -
  note r = builder_toggle_sys_reach
  from builder_sys_sections_agree [OF r] r show ?thesis
    by (simp add: toggleSectionVisibility_def notify_sections_def handleSectionsChange_def Let_def
        reorder_init_def defaultSections_def mk_section_def)
qed


text \<open>
  The builder's lookup of the export target is the DOM's: the element it finds in the
  rendered preview card is the first element in tree order with the given id.
\<close>

lemma builder_document_tree_order:
  "builder_document st i
     = find (\<lambda>m. elem_id m = Some i) (preorder (ResumePreview (b_country st) (templateId st) (formData st)))"
  by (simp add: builder_document_def find_id_preorder_mutual)

end
