(* ===== verification/Editors.thy ===== *)
theory Editors
  imports Prelude Country FormData Preview
begin

text \<open>
  The four section editors of \<open>components/builder/sections/\<close>. Each editor keeps a
  local copy of its slice of the form data (initialised from the \<open>data\<close> prop) and
  reports changes through \<open>onChange\<close>. A handler is a function from the editor's
  state to the new state and the payload it passes to \<open>onChange\<close> (\<open>None\<close> when it
  does not call it). The \<open>*_sys_reach\<close> relations pair an editor with the parent's
  copy of the slice, which follows the notifications. Entry ids made by
  \<open>Date.now().toString()\<close> are \<open>js_num_str now\<close> for a strictly increasing clock.
\<close>

section \<open>Stamped ids, shared by the list editors\<close>

text \<open>
  Every id is the decimal rendering of a clock value not later than \<open>t\<close>, and the
  ids are distinct. The list editors differ only in the id field, given as \<open>ident\<close>.
\<close>

definition stamp_ok :: "('a \<Rightarrow> jstr) \<Rightarrow> nat \<Rightarrow> 'a \<Rightarrow> bool" where
  "stamp_ok ident t e = (js_num_str (digits_val (ident e)) = ident e \<and> digits_val (ident e) \<le> t)"

definition ids_ok :: "('a \<Rightarrow> jstr) \<Rightarrow> nat \<Rightarrow> 'a list \<Rightarrow> bool" where
  "ids_ok ident t xs = (distinct (map ident xs) \<and> list_all (stamp_ok ident t) xs)"

text \<open>The parent's copy of a slice after a handler: replaced when notified.\<close>

definition follow :: "'a option \<Rightarrow> 'a \<Rightarrow> 'a" where
  "follow out p = (case out of None \<Rightarrow> p | Some q \<Rightarrow> q)"

section \<open>Experience editor (ResumeExperienceForm.tsx)\<close>

definition blank_experience :: "jstr \<Rightarrow> experience" where
  "blank_experience i = \<lparr>exp_id = i, company = [], position = [], exp_location = [],
     exp_startDate = [], exp_endDate = [], exp_description = [], exp_isPresent = False\<rparr>"

text \<open>\<open>useState(data || [...])\<close>: an array is truthy even when empty.\<close>

definition exp_init :: "experience list option \<Rightarrow> experience list" where
  "exp_init data = (case data of None \<Rightarrow> [blank_experience ''1''] | Some xs \<Rightarrow> xs)"

text \<open>\<open>addExperience\<close> and \<open>removeExperience\<close> update the list without calling \<open>onChange\<close>.\<close>

definition addExperience :: "nat \<Rightarrow> experience list \<Rightarrow> experience list" where
  "addExperience now xs = xs @ [blank_experience (js_num_str now)]"

definition removeExperience :: "jstr \<Rightarrow> experience list \<Rightarrow> experience list" where
  "removeExperience i xs = (if 1 < length xs then filter (\<lambda>e. exp_id e \<noteq> i) xs else xs)"

text \<open>The \<open>[field]: value\<close> updates the inputs issue: a text field or the checkbox.\<close>

datatype exp_field =
    ExpCompany | ExpPosition | ExpLocation | ExpStartDate | ExpEndDate | ExpDescription

datatype exp_update = ExpText exp_field jstr | ExpPresent bool

fun set_exp_field :: "exp_update \<Rightarrow> experience \<Rightarrow> experience" where
  "set_exp_field (ExpText ExpCompany v) e = e\<lparr>company := v\<rparr>"
| "set_exp_field (ExpText ExpPosition v) e = e\<lparr>position := v\<rparr>"
| "set_exp_field (ExpText ExpLocation v) e = e\<lparr>exp_location := v\<rparr>"
| "set_exp_field (ExpText ExpStartDate v) e = e\<lparr>exp_startDate := v\<rparr>"
| "set_exp_field (ExpText ExpEndDate v) e = e\<lparr>exp_endDate := v\<rparr>"
| "set_exp_field (ExpText ExpDescription v) e = e\<lparr>exp_description := v\<rparr>"
| "set_exp_field (ExpPresent b) e = e\<lparr>exp_isPresent := b\<rparr>"

definition exp_handleChange ::
  "jstr \<Rightarrow> exp_update \<Rightarrow> experience list \<Rightarrow> experience list \<times> experience list option" where
  "exp_handleChange i u xs =
     (let updated = map (\<lambda>e. if exp_id e = i then set_exp_field u e else e) xs
      in (updated, Some updated))"

datatype exp_event = AddExpClick | RemoveExpClick jstr | ExpEdit jstr exp_update

text \<open>
  The rendering guards: the trash button only while there is more than one entry, the
  inputs of rendered entries, the end date input disabled while \<open>isPresent\<close>.
\<close>

fun exp_input_enabled :: "exp_update \<Rightarrow> experience \<Rightarrow> bool" where
  "exp_input_enabled (ExpText ExpEndDate v) e = (\<not> exp_isPresent e)"
| "exp_input_enabled u e = True"

definition exp_enabled :: "experience list \<Rightarrow> exp_event \<Rightarrow> bool" where
  "exp_enabled xs ev = (case ev of
      AddExpClick \<Rightarrow> True
    | RemoveExpClick i \<Rightarrow> 1 < length xs \<and> i \<in> set (map exp_id xs)
    | ExpEdit i u \<Rightarrow> list_ex (\<lambda>e. exp_id e = i \<and> exp_input_enabled u e) xs)"

definition exp_dispatch ::
  "nat \<Rightarrow> exp_event \<Rightarrow> experience list \<Rightarrow> experience list \<times> experience list option" where
  "exp_dispatch now ev xs = (case ev of
      AddExpClick \<Rightarrow> (addExperience now xs, None)
    | RemoveExpClick i \<Rightarrow> (removeExperience i xs, None)
    | ExpEdit i u \<Rightarrow> exp_handleChange i u xs)"

text \<open>An editor session with the parent's copy, from a mount with stamped ids.\<close>

inductive exp_sys_reach :: "nat \<Rightarrow> experience list \<Rightarrow> experience list \<Rightarrow> bool" where
  mount: "ids_ok exp_id t (exp_init (Some d)) \<Longrightarrow> exp_sys_reach t (exp_init (Some d)) d"
| step: "exp_sys_reach t xs p \<Longrightarrow> t < now \<Longrightarrow> exp_enabled xs ev \<Longrightarrow>
     exp_dispatch now ev xs = (xs', out) \<Longrightarrow> exp_sys_reach now xs' (follow out p)"


text \<open>
  The experience editor's \<open>getCountryTip\<close>: a format line and an example per country,
  \<open>tips[country] || tips.usa\<close>. The examples are text with bullets (U+2022, outside
  Latin-1), so they are node lists, with the bullet as a \<open>Glyph\<close> as in \<open>Preview\<close>.
\<close>

record exp_tip =
  tip_format :: jstr
  tip_example :: "node list"

definition nl :: jstr where
  "nl = [CHR 0x0A]"

definition exp_tips :: "(jstr \<times> exp_tip) list" where
  "exp_tips =
     [(''canada'', \<lparr>tip_format = ''Use bullet points with action verbs and quantifiable achievements'',
        tip_example = [Glyph bullet, Txt ('' Increased website conversion rate by 25% through UI/UX improvements'' @ nl),
                       Glyph bullet, Txt '' Managed a team of 5 developers to deliver project on time and under budget'']\<rparr>),
      (''germany'', \<lparr>tip_format = ''Be precise and factual. Focus on responsibilities and skills acquired'',
        tip_example = [Txt (''Verantwortlich f'' @ [CHR 0xFC] @ ''r die Entwicklung und Wartung der Firmenwebsite. Erworbene F''
                            @ [CHR 0xE4] @ ''higkeiten: JavaScript, React, TypeScript.'')]\<rparr>),
      (''australia'', \<lparr>tip_format = ''Use the STAR method (Situation, Task, Action, Result)'',
        tip_example = [Glyph bullet, Txt ('' Situation: Company faced declining online engagement'' @ nl),
                       Glyph bullet, Txt ('' Task: Redesign user experience flow'' @ nl),
                       Glyph bullet, Txt ('' Action: Implemented A/B testing and user feedback loops'' @ nl),
                       Glyph bullet, Txt '' Result: 40% increase in user retention'']\<rparr>),
      (''portugal'', \<lparr>tip_format = ''Be concise and formal. List main responsibilities and achievements'',
        tip_example = [Txt (''Desenvolvimento de aplica'' @ [CHR 0xE7, CHR 0xF5] @ ''es web utilizando React e TypeScript. Respons''
                            @ [CHR 0xE1] @ ''vel pela implementa'' @ [CHR 0xE7, CHR 0xE3]
                            @ ''o de novas funcionalidades e otimiza'' @ [CHR 0xE7, CHR 0xE3] @ ''o de desempenho.'')]\<rparr>),
      (''usa'', \<lparr>tip_format = ''Use strong action verbs and quantify results whenever possible'',
        tip_example = [Glyph bullet, Txt ('' Spearheaded development of new CRM system resulting in 35% efficiency increase'' @ nl),
                       Glyph bullet, Txt '' Orchestrated migration to cloud infrastructure saving $50K annually'']\<rparr>),
      (''eu'', \<lparr>tip_format = ''Follow Europass CV format with clear, concise descriptions'',
        tip_example = [Txt (''Main activities and responsibilities:'' @ nl @ ''- Development of web applications'' @ nl
                            @ ''- Project management'' @ nl @ ''- Client communication'')]\<rparr>)]"

definition exp_getCountryTip :: "country \<Rightarrow> exp_tip" where
  "exp_getCountryTip c = (case map_of exp_tips (country_str c) of
      Some t \<Rightarrow> t
    | None \<Rightarrow> the (map_of exp_tips ''usa''))"

text \<open>The hint under each description field.\<close>

definition exp_tip_line :: "country \<Rightarrow> node list" where
  "exp_tip_line c =
     [Txt ''Tip: Use bullet points ('', Glyph bullet,
      Txt ('') and follow the '' @ (if country_str c = ''australia'' then ''STAR'' else ''recommended'')
           @ '' format for '' @ map js_upper_char (country_str c) @ '' employers.'')]"

section \<open>Education editor (ResumeEducationForm.tsx)\<close>

definition blank_education :: "jstr \<Rightarrow> education" where
  "blank_education i = \<lparr>edu_id = i, institution = [], degree = [], field = [], edu_location = [],
     edu_startDate = [], edu_endDate = [], edu_description = [], edu_isPresent = False\<rparr>"

definition edu_init :: "education list option \<Rightarrow> education list" where
  "edu_init data = (case data of None \<Rightarrow> [blank_education ''1''] | Some xs \<Rightarrow> xs)"

text \<open>Unlike the experience editor, add and remove report the new list.\<close>

definition addEducation :: "nat \<Rightarrow> education list \<Rightarrow> education list \<times> education list option" where
  "addEducation now xs = (let updated = xs @ [blank_education (js_num_str now)] in (updated, Some updated))"

definition removeEducation :: "jstr \<Rightarrow> education list \<Rightarrow> education list \<times> education list option" where
  "removeEducation i xs =
     (if 1 < length xs then (let updated = filter (\<lambda>e. edu_id e \<noteq> i) xs in (updated, Some updated))
      else (xs, None))"

text \<open>The inputs of an entry: seven text fields; the form has no \<open>isPresent\<close> checkbox.\<close>

datatype edu_field =
    EduInstitution | EduLocation | EduDegree | EduField | EduStartDate | EduEndDate | EduDescription

fun set_edu_field :: "edu_field \<Rightarrow> jstr \<Rightarrow> education \<Rightarrow> education" where
  "set_edu_field EduInstitution v e = e\<lparr>institution := v\<rparr>"
| "set_edu_field EduLocation v e = e\<lparr>edu_location := v\<rparr>"
| "set_edu_field EduDegree v e = e\<lparr>degree := v\<rparr>"
| "set_edu_field EduField v e = e\<lparr>field := v\<rparr>"
| "set_edu_field EduStartDate v e = e\<lparr>edu_startDate := v\<rparr>"
| "set_edu_field EduEndDate v e = e\<lparr>edu_endDate := v\<rparr>"
| "set_edu_field EduDescription v e = e\<lparr>edu_description := v\<rparr>"

definition edu_handleChange ::
  "jstr \<Rightarrow> edu_field \<Rightarrow> jstr \<Rightarrow> education list \<Rightarrow> education list \<times> education list option" where
  "edu_handleChange i f v xs =
     (let updated = map (\<lambda>e. if edu_id e = i then set_edu_field f v e else e) xs
      in (updated, Some updated))"

text \<open>\<open>getCountryTip\<close>: \<open>tips[country] || ""\<close>.\<close>

definition edu_tips :: "(jstr \<times> jstr) list" where
  "edu_tips =
     [(''canada'', ''For Canadian employers, focus on the degree name and field of study. Include GPA if it's strong.''),
      (''germany'', ''German employers value formal education. Include your overall grade and detailed course information.''),
      (''australia'', ''For Australian employers, highlight relevant coursework and achievements. Use full degree names.''),
      (''portugal'', ''For Portuguese/EU applications, follow Europass format and include detailed information about courses.''),
      (''usa'', ''US employers focus on degree and institution prestige. Include GPA if 3.0+.''),
      (''eu'', ''Follow Europass CV standards with complete details about qualifications and courses.'')]"

definition edu_getCountryTip :: "country \<Rightarrow> jstr" where
  "edu_getCountryTip c = js_or (map_of edu_tips (country_str c)) []"

datatype edu_event = AddEduClick | RemoveEduClick jstr | EduEdit jstr edu_field jstr

text \<open>The guards: the trash button while more than one entry, the end date while not present.\<close>

fun edu_input_enabled :: "edu_field \<Rightarrow> education \<Rightarrow> bool" where
  "edu_input_enabled EduEndDate e = (\<not> edu_isPresent e)"
| "edu_input_enabled f e = True"

definition edu_enabled :: "education list \<Rightarrow> edu_event \<Rightarrow> bool" where
  "edu_enabled xs ev = (case ev of
      AddEduClick \<Rightarrow> True
    | RemoveEduClick i \<Rightarrow> 1 < length xs \<and> i \<in> set (map edu_id xs)
    | EduEdit i f v \<Rightarrow> list_ex (\<lambda>e. edu_id e = i \<and> edu_input_enabled f e) xs)"

definition edu_dispatch ::
  "nat \<Rightarrow> edu_event \<Rightarrow> education list \<Rightarrow> education list \<times> education list option" where
  "edu_dispatch now ev xs = (case ev of
      AddEduClick \<Rightarrow> addEducation now xs
    | RemoveEduClick i \<Rightarrow> removeEducation i xs
    | EduEdit i f v \<Rightarrow> edu_handleChange i f v xs)"

inductive edu_sys_reach :: "nat \<Rightarrow> education list \<Rightarrow> education list \<Rightarrow> bool" where
  mount: "ids_ok edu_id t (edu_init (Some d)) \<Longrightarrow> edu_sys_reach t (edu_init (Some d)) d"
| step: "edu_sys_reach t xs p \<Longrightarrow> t < now \<Longrightarrow> edu_enabled xs ev \<Longrightarrow>
     edu_dispatch now ev xs = (xs', out) \<Longrightarrow> edu_sys_reach now xs' (follow out p)"

section \<open>Skills editor (ResumeSkillsForm.tsx)\<close>

record skills_form =
  activeTab :: jstr
  newSkill :: jstr
  technicalSkills :: "jstr list"
  softSkills :: "jstr list"
  sf_languages :: "jstr list"

text \<open>\<open>data?.technical || []\<close> and so on: the arrays are taken as they are.\<close>

definition skills_init :: "skills option \<Rightarrow> skills_form" where
  "skills_init data = \<lparr>activeTab = ''technical'', newSkill = [],
     technicalSkills = (case data of None \<Rightarrow> [] | Some d \<Rightarrow> technical d),
     softSkills = (case data of None \<Rightarrow> [] | Some d \<Rightarrow> soft d),
     sf_languages = (case data of None \<Rightarrow> [] | Some d \<Rightarrow> sk_languages d)\<rparr>"

definition skills_of_form :: "skills_form \<Rightarrow> skills" where
  "skills_of_form st = \<lparr>technical = technicalSkills st, soft = softSkills st,
     sk_languages = sf_languages st\<rparr>"

text \<open>
  \<open>handleAddSkill\<close>: a blank input returns before anything; otherwise the trimmed
  skill is appended to the list of the active tab, the parent is told, and the input is
  cleared (also when the tab matches no case).
\<close>

definition handleAddSkill :: "skills_form \<Rightarrow> skills_form \<times> skills option" where
  "handleAddSkill st =
     (if js_trim (newSkill st) = [] then (st, None)
      else (let v = js_trim (newSkill st);
                (st1, upd) =
                  (if activeTab st = ''technical'' then
                     (let st1 = st\<lparr>technicalSkills := technicalSkills st @ [v]\<rparr> in (st1, Some (skills_of_form st1)))
                   else if activeTab st = ''soft'' then
                     (let st1 = st\<lparr>softSkills := softSkills st @ [v]\<rparr> in (st1, Some (skills_of_form st1)))
                   else if activeTab st = ''languages'' then
                     (let st1 = st\<lparr>sf_languages := sf_languages st @ [v]\<rparr> in (st1, Some (skills_of_form st1)))
                   else (st, None))
            in (st1\<lparr>newSkill := []\<rparr>, upd)))"

text \<open>\<open>handleRemoveSkill\<close>: \<open>filter(s => s !== skill)\<close> on the list of the given type.\<close>

definition handleRemoveSkill :: "jstr \<Rightarrow> jstr \<Rightarrow> skills_form \<Rightarrow> skills_form \<times> skills option" where
  "handleRemoveSkill skill ty st =
     (if ty = ''technical'' then
        (let st1 = st\<lparr>technicalSkills := filter (\<lambda>s. s \<noteq> skill) (technicalSkills st)\<rparr>
         in (st1, Some (skills_of_form st1)))
      else if ty = ''soft'' then
        (let st1 = st\<lparr>softSkills := filter (\<lambda>s. s \<noteq> skill) (softSkills st)\<rparr>
         in (st1, Some (skills_of_form st1)))
      else if ty = ''languages'' then
        (let st1 = st\<lparr>sf_languages := filter (\<lambda>s. s \<noteq> skill) (sf_languages st)\<rparr>
         in (st1, Some (skills_of_form st1)))
      else (st, None))"

text \<open>\<open>getCountryTip(skillType)\<close>: \<open>tips[country]?.[skillType] || ""\<close>.\<close>

definition skills_tips :: "(jstr \<times> (jstr \<times> jstr) list) list" where
  "skills_tips =
     [(''canada'',
        [(''technical'', ''For Canadian employers, list technical skills that match the job description and include proficiency levels.''),
         (''soft'', ''Canadian employers value communication and teamwork. Include contextual soft skills.''),
         (''languages'', ''Specify language proficiency levels (e.g., English: Fluent, French: Intermediate).'')]),
      (''germany'',
        [(''technical'', ''German employers prefer detailed technical skills with explicit proficiency levels.''),
         (''soft'', ''List practical soft skills rather than personality traits. Be specific.''),
         (''languages'', ''Include CEFR levels (A1-C2) for language proficiency. German language skills are highly valued.'')]),
      (''australia'',
        [(''technical'', ''Australian employers focus on practical skills. Group them by category.''),
         (''soft'', ''Include adaptability and problem-solving skills for Australian work culture.''),
         (''languages'', ''Mention any language skills with proficiency levels.'')]),
      (''portugal'',
        [(''technical'', ''Follow Europass format with self-assessment levels for technical skills.''),
         (''soft'', ''Focus on collaboration and adaptability skills for Portuguese/EU employers.''),
         (''languages'', ''Use CEFR levels (A1-C2) for all listed languages.'')]),
      (''usa'',
        [(''technical'', ''US employers scan for keywords. Include all relevant technical skills that match the job description.''),
         (''soft'', ''Include leadership and initiative-focused soft skills for US employers.''),
         (''languages'', ''Only highlight fluent or business-level language skills.'')]),
      (''eu'',
        [(''technical'', ''Follow Europass format with detailed skill categorization.''),
         (''soft'', ''Include intercultural communication and adaptability skills.''),
         (''languages'', ''Use CEFR levels (A1-C2) for all languages as per Europass standards.'')])]"

definition skills_getCountryTip :: "country \<Rightarrow> jstr \<Rightarrow> jstr" where
  "skills_getCountryTip c ty =
     js_or (Option.bind (map_of skills_tips (country_str c)) (\<lambda>m. map_of m ty)) []"

text \<open>
  The events of the panel: a tab, a keystroke in the input, the add button (or Enter), the
  remove button of a badge. Tabs carry one of the three values; a badge exists for each
  skill of a list.
\<close>

datatype skills_event =
    SkillTab jstr | SkillInput jstr | AddSkillClick | RemoveSkillClick jstr jstr

definition skill_types :: "jstr list" where
  "skill_types = [''technical'', ''soft'', ''languages'']"

definition skills_list_of :: "jstr \<Rightarrow> skills_form \<Rightarrow> jstr list" where
  "skills_list_of ty st =
     (if ty = ''technical'' then technicalSkills st else if ty = ''soft'' then softSkills st
      else if ty = ''languages'' then sf_languages st else [])"

definition skills_enabled :: "skills_form \<Rightarrow> skills_event \<Rightarrow> bool" where
  "skills_enabled st ev = (case ev of
      SkillTab ty \<Rightarrow> ty \<in> set skill_types
    | RemoveSkillClick s ty \<Rightarrow> ty \<in> set skill_types \<and> s \<in> set (skills_list_of ty st)
    | _ \<Rightarrow> True)"

definition skills_dispatch :: "skills_event \<Rightarrow> skills_form \<Rightarrow> skills_form \<times> skills option" where
  "skills_dispatch ev st = (case ev of
      SkillTab ty \<Rightarrow> (st\<lparr>activeTab := ty\<rparr>, None)
    | SkillInput v \<Rightarrow> (st\<lparr>newSkill := v\<rparr>, None)
    | AddSkillClick \<Rightarrow> handleAddSkill st
    | RemoveSkillClick s ty \<Rightarrow> handleRemoveSkill s ty st)"

inductive skills_sys_reach :: "skills_form \<Rightarrow> skills \<Rightarrow> bool" where
  mount: "skills_sys_reach (skills_init (Some d)) d"
| step: "skills_sys_reach st p \<Longrightarrow> skills_enabled st ev \<Longrightarrow>
     skills_dispatch ev st = (st', out) \<Longrightarrow> skills_sys_reach st' (follow out p)"


section \<open>Profile editor (ResumeProfileForm.tsx)\<close>

text \<open>The editor's state: nine strings, \<open>""\<close> for an absent value.\<close>

record profile_form =
  pf_firstName :: jstr
  pf_lastName :: jstr
  pf_title :: jstr
  pf_email :: jstr
  pf_phone :: jstr
  pf_location :: jstr
  pf_website :: jstr
  pf_linkedin :: jstr
  pf_summary :: jstr

text \<open>\<open>data?.firstName || ""\<close> for each field.\<close>

definition profile_form_of :: "profile option \<Rightarrow> profile_form" where
  "profile_form_of data = (case data of
      None \<Rightarrow> \<lparr>pf_firstName = [], pf_lastName = [], pf_title = [], pf_email = [], pf_phone = [],
               pf_location = [], pf_website = [], pf_linkedin = [], pf_summary = []\<rparr>
    | Some d \<Rightarrow> \<lparr>pf_firstName = js_or (firstName d) [], pf_lastName = js_or (lastName d) [],
               pf_title = js_or (pr_title d) [], pf_email = js_or (email d) [],
               pf_phone = js_or (phone d) [], pf_location = js_or (pr_location d) [],
               pf_website = js_or (website d) [], pf_linkedin = js_or (linkedin d) [],
               pf_summary = js_or (summary d) []\<rparr>)"

text \<open>The object passed to \<open>onChange\<close>: every key present, with a string.\<close>

definition profile_of_form :: "profile_form \<Rightarrow> profile" where
  "profile_of_form st = \<lparr>firstName = Some (pf_firstName st), lastName = Some (pf_lastName st),
     pr_title = Some (pf_title st), email = Some (pf_email st), phone = Some (pf_phone st),
     pr_location = Some (pf_location st), website = Some (pf_website st),
     linkedin = Some (pf_linkedin st), summary = Some (pf_summary st)\<rparr>"

text \<open>The \<open>name\<close> attribute of each input.\<close>

datatype profile_field =
    PFirstName | PLastName | PTitle | PEmail | PPhone | PLocation | PWebsite | PLinkedin | PSummary

fun set_profile_field :: "profile_field \<Rightarrow> jstr \<Rightarrow> profile_form \<Rightarrow> profile_form" where
  "set_profile_field PFirstName v st = st\<lparr>pf_firstName := v\<rparr>"
| "set_profile_field PLastName v st = st\<lparr>pf_lastName := v\<rparr>"
| "set_profile_field PTitle v st = st\<lparr>pf_title := v\<rparr>"
| "set_profile_field PEmail v st = st\<lparr>pf_email := v\<rparr>"
| "set_profile_field PPhone v st = st\<lparr>pf_phone := v\<rparr>"
| "set_profile_field PLocation v st = st\<lparr>pf_location := v\<rparr>"
| "set_profile_field PWebsite v st = st\<lparr>pf_website := v\<rparr>"
| "set_profile_field PLinkedin v st = st\<lparr>pf_linkedin := v\<rparr>"
| "set_profile_field PSummary v st = st\<lparr>pf_summary := v\<rparr>"

definition profile_handleChange :: "profile_field \<Rightarrow> jstr \<Rightarrow> profile_form \<Rightarrow> profile_form \<times> profile option" where
  "profile_handleChange f v st = (let updated = set_profile_field f v st in (updated, Some (profile_of_form updated)))"

text \<open>The \<open>[data]\<close> effect: a defined \<open>data\<close> prop overwrites the editor's state.\<close>

definition profile_sync :: "profile option \<Rightarrow> profile_form \<Rightarrow> profile_form" where
  "profile_sync data st = (case data of None \<Rightarrow> st | Some d \<Rightarrow> profile_form_of (Some d))"

text \<open>\<open>getCountryTip(field)\<close>: \<open>tips[country]?.[field] || ""\<close>.\<close>

definition profile_tips :: "(jstr \<times> (jstr \<times> jstr) list) list" where
  "profile_tips =
     [(''canada'',
        [(''title'', ''Keep titles straightforward and relevant to Canadian job market''),
         (''summary'', ''Focus on achievements and skills. Keep it under 3-4 sentences for Canadian employers.''),
         (''location'', ''Include city and province (e.g., Toronto, ON)'')]),
      (''germany'',
        [(''title'', ''Include 'Lebenslauf' as title for German applications''),
         (''summary'', ''German employers prefer a factual, modest summary without exaggeration''),
         (''location'', ''Include full address for German applications'')]),
      (''australia'',
        [(''title'', ''Use 'Professional Summary' or 'Career Profile' for Australian resumes''),
         (''summary'', ''Use the STAR method (Situation, Task, Action, Result) for Australian employers''),
         (''location'', ''City and state/territory is sufficient (e.g., Sydney, NSW)'')]),
      (''portugal'',
        [(''title'', ''Consider 'Curriculum Vitae' for Portuguese/EU applications''),
         (''summary'', ''Keep it brief and factual for EU employers''),
         (''location'', ''Include full address for EU/Portuguese applications'')]),
      (''usa'',
        [(''title'', ''Use 'Resume' for US applications''),
         (''summary'', ''Be direct and highlight achievements with quantifiable results for US employers''),
         (''location'', ''City and state is sufficient (e.g., Boston, MA)'')]),
      (''eu'',
        [(''title'', ''Use 'Europass CV' for standardized EU format''),
         (''summary'', ''Follow Europass guidelines for personal statements''),
         (''location'', ''Include full address for EU applications'')])]"

definition profile_getCountryTip :: "country \<Rightarrow> jstr \<Rightarrow> jstr" where
  "profile_getCountryTip c f =
     js_or (Option.bind (map_of profile_tips (country_str c)) (\<lambda>m. map_of m f)) []"

text \<open>
  The editor inside the builder: each keystroke runs the handler, the parent stores the
  reported object, and the re-render passes it back as \<open>data\<close>, which runs the effect.
\<close>

definition profile_round :: "profile_field \<Rightarrow> jstr \<Rightarrow> profile_form \<Rightarrow> profile_form \<times> profile" where
  "profile_round f v st =
     (let (st', out) = profile_handleChange f v st;
          p = the out
      in (profile_sync (Some p) st', p))"

inductive profile_sys_reach :: "profile_form \<Rightarrow> profile \<Rightarrow> bool" where
  mount: "profile_sys_reach (profile_sync (Some d) (profile_form_of (Some d))) d"
| step: "profile_sys_reach st p \<Longrightarrow> profile_sys_reach (fst (profile_round f v st)) (snd (profile_round f v st))"

section \<open>Predicates and sample states used by the lemmas\<close>

text \<open>Every stored skill is non-empty and has no white space at either end.\<close>

definition skills_clean :: "skills_form \<Rightarrow> bool" where
  "skills_clean st = list_all (\<lambda>s. s \<noteq> [] \<and> js_trim s = s)
     (technicalSkills st @ softSkills st @ sf_languages st)"

text \<open>The skills editor as the builder mounts it, with empty lists.\<close>

definition skills_session_start :: skills_form where
  "skills_session_start = skills_init (Some \<lparr>technical = [], soft = [], sk_languages = []\<rparr>)"

section \<open>Lemmas\<close>

lemma ids_ok_mono: "ids_ok ident t xs \<Longrightarrow> t \<le> t' \<Longrightarrow> ids_ok ident t' xs"
  by (auto simp: ids_ok_def stamp_ok_def list_all_iff)

lemma stamp_ok_fresh: "stamp_ok ident t e \<Longrightarrow> t < now \<Longrightarrow> ident e \<noteq> js_num_str now"
  unfolding stamp_ok_def by (metis js_num_str_val not_le order_refl)

lemma ids_ok_snoc_fresh:
  assumes "ids_ok ident t xs" and "t < now" and "ident x = js_num_str now"
  shows "ids_ok ident now (xs @ [x])"
proof -
  have "ident x \<notin> set (map ident xs)"
  proof
    assume "ident x \<in> set (map ident xs)"
    then obtain e where e: "e \<in> set xs" "ident e = ident x" by auto
    with assms(1) have "stamp_ok ident t e" by (simp add: ids_ok_def list_all_iff)
    from stamp_ok_fresh [OF this assms(2)] e(2) assms(3) show False by simp
  qed
  moreover have "stamp_ok ident now x" using assms(3) by (simp add: stamp_ok_def js_num_str_val)
  ultimately show ?thesis
    using assms(1,2) ids_ok_mono [OF assms(1), of now] by (simp add: ids_ok_def)
qed

lemma ids_ok_filter: "ids_ok ident t xs \<Longrightarrow> ids_ok ident t (filter P xs)"
  by (auto simp: ids_ok_def list_all_iff distinct_map_filter)

lemma ids_ok_map_keep:
  assumes "\<And>e. ident (f e) = ident e"
  shows "ids_ok ident t (map (\<lambda>e. if ident e = i then f e else e) xs) = ids_ok ident t xs"
proof -
  have h: "map ident (map (\<lambda>e. if ident e = i then f e else e) xs) = map ident xs"
    by (induction xs) (simp_all add: assms)
  moreover have "list_all (stamp_ok ident t) (map (\<lambda>e. if ident e = i then f e else e) xs)
                 = list_all (stamp_ok ident t) xs"
    by (induction xs) (simp_all add: assms stamp_ok_def)
  with h show ?thesis unfolding ids_ok_def by (simp only:)
qed

lemma filter_unique_id:
  assumes "distinct (map ident xs)" and "i \<in> set (map ident xs)"
  shows "\<exists>e. ident e = i \<and> mset xs = mset (filter (\<lambda>e. ident e \<noteq> i) xs) + {#e#}"
proof -
  obtain e where e: "e \<in> set xs" "ident e = i" using assms(2) by auto
  then obtain as bs where xs: "xs = as @ e # bs" by (meson split_list)
  with assms(1) e(2) have "i \<notin> ident ` set as" "i \<notin> ident ` set bs" by auto
  then have "filter (\<lambda>e. ident e \<noteq> i) as = as" "filter (\<lambda>e. ident e \<noteq> i) bs = bs"
    by (auto simp: filter_id_conv)
  with xs e(2) show ?thesis by auto
qed

lemma follow_Some [simp]: "follow (Some q) p = q" and follow_None [simp]: "follow None p = p"
  by (simp_all add: follow_def)

lemma exp_ident_set [simp]: "exp_id (set_exp_field u e) = exp_id e"
  by (induction u e rule: set_exp_field.induct) simp_all

lemma edu_ident_set [simp]: "edu_id (set_edu_field f v e) = edu_id e"
  by (cases f) simp_all

lemma exp_dispatch_ids:
  assumes "ids_ok exp_id t xs" and "t < now" and "exp_dispatch now ev xs = (xs', out)"
  shows "ids_ok exp_id now xs'"
proof -
  have m: "ids_ok exp_id now xs" using ids_ok_mono [OF assms(1)] assms(2) by simp
  show ?thesis
  proof (cases ev)
    case AddExpClick
    with assms show ?thesis
      by (auto simp: exp_dispatch_def addExperience_def blank_experience_def intro: ids_ok_snoc_fresh)
  next
    case (RemoveExpClick i)
    with assms(3) m show ?thesis by (auto simp: exp_dispatch_def removeExperience_def intro: ids_ok_filter)
  next
    case (ExpEdit i u)
    with assms(3) m show ?thesis by (auto simp: exp_dispatch_def exp_handleChange_def Let_def ids_ok_map_keep)
  qed
qed

lemma exp_sys_reach_ids: "exp_sys_reach t xs p \<Longrightarrow> ids_ok exp_id t xs"
  by (induction rule: exp_sys_reach.induct) (auto intro: exp_dispatch_ids)

lemma edu_dispatch_ids:
  assumes "ids_ok edu_id t xs" and "t < now" and "edu_dispatch now ev xs = (xs', out)"
  shows "ids_ok edu_id now xs'"
proof -
  have m: "ids_ok edu_id now xs" using ids_ok_mono [OF assms(1)] assms(2) by simp
  show ?thesis
  proof (cases ev)
    case AddEduClick
    with assms show ?thesis
      by (auto simp: edu_dispatch_def addEducation_def blank_education_def Let_def intro: ids_ok_snoc_fresh)
  next
    case (RemoveEduClick i)
    with assms(3) m show ?thesis
      by (auto simp: edu_dispatch_def removeEducation_def Let_def split: if_splits intro: ids_ok_filter)
  next
    case (EduEdit i f v)
    with assms(3) m show ?thesis by (auto simp: edu_dispatch_def edu_handleChange_def Let_def ids_ok_map_keep)
  qed
qed

lemma edu_dispatch_notifies: "edu_dispatch now ev xs = (xs', out) \<Longrightarrow> follow out xs = xs'"
  by (cases ev) (auto simp: edu_dispatch_def addEducation_def removeEducation_def edu_handleChange_def
      Let_def split: if_splits)

lemma exp_builder_mount:
  "exp_sys_reach 0 (exp_init (Some (fd_experience initial_form_data))) []"
proof -
  have "ids_ok exp_id 0 (exp_init (Some []))" by (simp add: ids_ok_def exp_init_def)
  then show ?thesis using exp_sys_reach.mount [of 0 "[]"] by (simp add: initial_form_data_def)
qed

lemma skills_dispatch_out:
  "skills_dispatch ev st = (st', out) \<Longrightarrow> follow out (skills_of_form st) = skills_of_form st'"
  by (cases ev)
     (auto simp: skills_dispatch_def handleAddSkill_def handleRemoveSkill_def skills_of_form_def
        Let_def split: if_splits)

lemma skills_init_of_form [simp]: "skills_of_form (skills_init (Some d)) = d"
  by (simp add: skills_of_form_def skills_init_def)

lemma skills_clean_add:
  assumes "skills_clean st"
  shows "skills_clean (fst (handleAddSkill st))"
proof (cases "js_trim (newSkill st) = []")
  case True
  with assms show ?thesis by (simp add: handleAddSkill_def)
next
  case False
  then have v: "js_trim (newSkill st) \<noteq> [] \<and> js_trim (js_trim (newSkill st)) = js_trim (newSkill st)"
    by (simp add: js_trim_idem)
  with assms show ?thesis
    unfolding handleAddSkill_def Let_def skills_clean_def by (simp add: list_all_iff)
qed

lemma list_all_filter: "list_all P xs \<Longrightarrow> list_all P (filter Q xs)"
  by (simp add: list_all_iff)

lemma skills_clean_remove:
  assumes "skills_clean st"
  shows "skills_clean (fst (handleRemoveSkill s ty st))"
proof -
  from assms have t: "list_all (\<lambda>s. s \<noteq> [] \<and> js_trim s = s) (technicalSkills st)"
    and o: "list_all (\<lambda>s. s \<noteq> [] \<and> js_trim s = s) (softSkills st)"
    and l: "list_all (\<lambda>s. s \<noteq> [] \<and> js_trim s = s) (sf_languages st)"
    by (simp_all add: skills_clean_def)
  show ?thesis
    unfolding handleRemoveSkill_def Let_def skills_clean_def
    by (simp add: assms [unfolded skills_clean_def] t o l list_all_filter)
qed

lemma profile_form_roundtrip: "profile_form_of (Some (profile_of_form st)) = st"
  by (simp add: profile_form_of_def profile_of_form_def)

lemma edu_tip_defined: "edu_getCountryTip c \<noteq> []"
  by (cases c) (simp_all add: edu_getCountryTip_def edu_tips_def)

lemma skills_tip_defined: "list_all (\<lambda>ty. skills_getCountryTip c ty \<noteq> []) skill_types"
  by (cases c) (simp_all add: skills_getCountryTip_def skills_tips_def skill_types_def)

lemma profile_tip_defined:
  "list_all (\<lambda>f. profile_getCountryTip c f \<noteq> []) [''title'', ''summary'', ''location'']"
  by (cases c) (simp_all add: profile_getCountryTip_def profile_tips_def)

lemma exp_two_reach:
  "exp_sys_reach 2 [blank_experience (js_num_str 1), blank_experience (js_num_str 2)] []"
proof -
  have r0: "exp_sys_reach 0 [] []" using exp_builder_mount by (simp add: exp_init_def initial_form_data_def)
  have r1: "exp_sys_reach 1 [blank_experience (js_num_str 1)] []"
    using exp_sys_reach.step [OF r0, of 1 AddExpClick]
    by (simp add: exp_enabled_def exp_dispatch_def addExperience_def)
  show ?thesis
    using exp_sys_reach.step [OF r1, of 2 AddExpClick]
    by (simp add: exp_enabled_def exp_dispatch_def addExperience_def)
qed

lemma edu_one_reach:
  "edu_sys_reach 1 [blank_education (js_num_str 1)] [blank_education (js_num_str 1)]"
proof -
  have r0: "edu_sys_reach 0 [] []"
    using edu_sys_reach.mount [of 0 "[]"] by (simp add: edu_init_def ids_ok_def)
  show ?thesis
    using edu_sys_reach.step [OF r0, of 1 AddEduClick]
    by (simp add: edu_enabled_def edu_dispatch_def addEducation_def Let_def)
qed

lemma skills_typed_reach:
  "skills_sys_reach (skills_session_start\<lparr>newSkill := '' Go ''\<rparr>) \<lparr>technical = [], soft = [], sk_languages = []\<rparr>"
  using skills_sys_reach.step [OF skills_sys_reach.mount, of _ "SkillInput '' Go ''"]
  by (simp add: skills_enabled_def skills_dispatch_def skills_session_start_def)

section \<open>Properties\<close>

text \<open>
  C21. Entry ids of the experience editor are unique: in every state of an editor session
  mounted with stamped ids, the ids are distinct (the clock is strictly increasing).
\<close>

theorem exp_sys_distinct_ids:
  assumes "exp_sys_reach t xs p"
  shows "distinct (map exp_id xs)"
  using exp_sys_reach_ids [OF assms] by (simp add: ids_ok_def)

text \<open>Witness of C21: two entries added at times 1 and 2.\<close>

theorem exp_sys_distinct_ids_witness:
  "exp_sys_reach 2 [blank_experience (js_num_str 1), blank_experience (js_num_str 2)] []
   \<and> distinct (map exp_id [blank_experience (js_num_str 1), blank_experience (js_num_str 2)])"
  using exp_sys_distinct_ids [OF exp_two_reach] exp_two_reach by simp

text \<open>
  C22. Removing an experience entry through its trash button removes exactly that entry and
  never empties the list.
\<close>

theorem exp_remove_exactly_one:
  assumes "exp_sys_reach t xs p" and "exp_enabled xs (RemoveExpClick i)"
  shows "\<exists>e. exp_id e = i \<and> mset xs = mset (removeExperience i xs) + {#e#}
             \<and> removeExperience i xs \<noteq> []"
proof -
  have d: "distinct (map exp_id xs)" using exp_sys_reach_ids [OF assms(1)] by (simp add: ids_ok_def)
  from assms(2) have l: "1 < length xs" and i: "i \<in> set (map exp_id xs)" by (simp_all add: exp_enabled_def)
  obtain e where e: "exp_id e = i" and m: "mset xs = mset (filter (\<lambda>e. exp_id e \<noteq> i) xs) + {#e#}"
    using filter_unique_id [OF d i] by blast
  from arg_cong [OF m, of size] have "length xs = length (filter (\<lambda>e. exp_id e \<noteq> i) xs) + 1"
    by (simp only: size_mset size_union size_single)
  with l e m show ?thesis by (auto simp: removeExperience_def)
qed

text \<open>Witness of C22: removing the first of two entries.\<close>

theorem exp_remove_exactly_one_witness:
  "exp_sys_reach 2 [blank_experience (js_num_str 1), blank_experience (js_num_str 2)] []
   \<and> exp_enabled [blank_experience (js_num_str 1), blank_experience (js_num_str 2)]
       (RemoveExpClick (js_num_str 1))
   \<and> removeExperience (js_num_str 1) [blank_experience (js_num_str 1), blank_experience (js_num_str 2)]
       = [blank_experience (js_num_str 2)]"
proof -
  have en: "exp_enabled [blank_experience (js_num_str 1), blank_experience (js_num_str 2)]
       (RemoveExpClick (js_num_str 1))" by (simp add: exp_enabled_def blank_experience_def)
  from exp_remove_exactly_one [OF exp_two_reach en] exp_two_reach en show ?thesis
    by (simp add: removeExperience_def blank_experience_def js_num_str_inj)
qed

text \<open>
  C23. Adding an experience entry is not reported to the builder: from any state of a session
  the editor shows the new blank entry while the builder's copy is unchanged.
\<close>

theorem exp_add_not_reported:
  assumes "exp_sys_reach t xs p" and "t < now"
  shows "exp_sys_reach now (xs @ [blank_experience (js_num_str now)]) p"
  using exp_sys_reach.step [OF assms, of AddExpClick]
  by (simp add: exp_enabled_def exp_dispatch_def addExperience_def)

text \<open>Witness of C23: the builder mounts the editor with its empty list; after one add the editor has one entry and the builder none.\<close>

theorem exp_add_not_reported_witness:
  "exp_sys_reach 1 [blank_experience (js_num_str 1)] (fd_experience initial_form_data)"
  using exp_add_not_reported [OF exp_builder_mount, of 1]
  by (simp add: exp_init_def initial_form_data_def)

text \<open>
  C24. The education editor keeps the builder's copy equal to its own list in every state of a
  session: add, remove and every field edit call \<open>onChange\<close> with the new list.
\<close>

theorem edu_sys_in_sync:
  assumes "edu_sys_reach t xs p"
  shows "p = xs"
  using assms
proof (induction rule: edu_sys_reach.induct)
  case (mount t d)
  show ?case by (simp add: edu_init_def)
next
  case (step t xs p now ev xs' out)
  from step.IH edu_dispatch_notifies [OF step.hyps(4)] show ?case by simp
qed

text \<open>Witness of C24.\<close>

theorem edu_sys_in_sync_witness:
  "edu_sys_reach 1 [blank_education (js_num_str 1)] [blank_education (js_num_str 1)]
   \<and> [blank_education (js_num_str 1)] = [blank_education (js_num_str 1)]"
  using edu_sys_in_sync [OF edu_one_reach] edu_one_reach by simp

text \<open>
  C25. No event of the education editor sets \<open>isPresent\<close>: the form has no checkbox for it,
  so entries without the flag keep it false.
\<close>

theorem edu_present_never_set:
  assumes "list_all (\<lambda>e. \<not> edu_isPresent e) xs"
  shows "list_all (\<lambda>e. \<not> edu_isPresent e) (fst (edu_dispatch now ev xs))"
proof -
  have "\<not> edu_isPresent (set_edu_field f v e) = (\<not> edu_isPresent e)" for f v e
    by (cases f) simp_all
  with assms show ?thesis
    by (cases ev) (auto simp: edu_dispatch_def addEducation_def removeEducation_def
        edu_handleChange_def blank_education_def Let_def list_all_iff)
qed

text \<open>Witness of C25.\<close>

theorem edu_present_never_set_witness:
  "list_all (\<lambda>e. \<not> edu_isPresent e) [blank_education ''1'']
   \<and> list_all (\<lambda>e. \<not> edu_isPresent e) (fst (edu_dispatch 2 AddEduClick [blank_education ''1'']))"
  using edu_present_never_set [of "[blank_education ''1'']" 2 AddEduClick]
  by (simp add: blank_education_def)

text \<open>
  C26. The skills editor keeps the builder's copy equal to its three lists in every state of a
  session.
\<close>

theorem skills_sys_in_sync:
  assumes "skills_sys_reach st p"
  shows "p = skills_of_form st"
  using assms
proof (induction rule: skills_sys_reach.induct)
  case (mount d)
  show ?case by simp
next
  case (step st p ev st' out)
  from step.IH skills_dispatch_out [OF step.hyps(3)] show ?case by simp
qed

text \<open>Witness of C26: a session in which a skill has been typed but not added.\<close>

theorem skills_sys_in_sync_witness:
  "skills_sys_reach (skills_session_start\<lparr>newSkill := '' Go ''\<rparr>) \<lparr>technical = [], soft = [], sk_languages = []\<rparr>
   \<and> \<lparr>technical = [], soft = [], sk_languages = []\<rparr> = skills_of_form (skills_session_start\<lparr>newSkill := '' Go ''\<rparr>)"
  using skills_sys_in_sync [OF skills_typed_reach] skills_typed_reach by simp

text \<open>
  C27. Every event of the skills editor keeps every stored skill non-empty and trimmed.
\<close>

theorem skills_clean_preserved:
  assumes "skills_clean st"
  shows "skills_clean (fst (skills_dispatch ev st))"
  using assms skills_clean_add skills_clean_remove
  by (cases ev) (simp_all add: skills_dispatch_def skills_clean_def)

text \<open>Witness of C27: adding the input \<open>" Go "\<close> stores \<open>"Go"\<close>.\<close>

theorem skills_clean_preserved_witness:
  "skills_clean (skills_session_start\<lparr>newSkill := '' Go ''\<rparr>)
   \<and> technicalSkills (fst (skills_dispatch AddSkillClick (skills_session_start\<lparr>newSkill := '' Go ''\<rparr>))) = [''Go'']
   \<and> skills_clean (fst (skills_dispatch AddSkillClick (skills_session_start\<lparr>newSkill := '' Go ''\<rparr>)))"
proof -
  have c: "skills_clean (skills_session_start\<lparr>newSkill := '' Go ''\<rparr>)"
    by (simp add: skills_clean_def skills_session_start_def skills_init_def)
  from skills_clean_preserved [OF c, of AddSkillClick] c show ?thesis
    by (simp add: skills_dispatch_def handleAddSkill_def skills_session_start_def skills_init_def
        js_trim_def js_is_space_def Let_def)
qed

text \<open>
  C28. Removing a skill removes every copy of it from the list of that type (the list keeps
  all other skills with their multiplicities) and reports the new lists.
\<close>

theorem handleRemoveSkill_all_copies:
  assumes "ty \<in> set skill_types"
  shows "mset (skills_list_of ty (fst (handleRemoveSkill s ty st)))
           = filter_mset (\<lambda>x. x \<noteq> s) (mset (skills_list_of ty st))
         \<and> snd (handleRemoveSkill s ty st) = Some (skills_of_form (fst (handleRemoveSkill s ty st)))"
  using assms
  by (auto simp: skill_types_def handleRemoveSkill_def skills_list_of_def Let_def)

text \<open>Witness of C28: one click on a \<open>Go\<close> badge removes both copies.\<close>

theorem handleRemoveSkill_all_copies_witness:
  "''technical'' \<in> set skill_types
   \<and> technicalSkills (fst (handleRemoveSkill ''Go'' ''technical''
        (skills_session_start\<lparr>technicalSkills := [''Go'', ''Rust'', ''Go'']\<rparr>))) = [''Rust'']"
  using handleRemoveSkill_all_copies [of "''technical''" "''Go''"
      "skills_session_start\<lparr>technicalSkills := [''Go'', ''Rust'', ''Go'']\<rparr>"]
  by (simp add: skill_types_def handleRemoveSkill_def Let_def)

text \<open>
  Adding a blank skill changes nothing, not even the input, and reports nothing.
\<close>

lemma handleAddSkill_blank_rejected:
  assumes "js_trim (newSkill st) = []"
  shows "handleAddSkill st = (st, None)"
  using assms by (simp add: handleAddSkill_def)

text \<open>
  C29. Adding a non-blank skill appends its trimmed text to the list of the active tab, clears the
  input and reports the new lists.
\<close>

theorem handleAddSkill_appends:
  assumes "js_trim (newSkill st) \<noteq> []" and "activeTab st \<in> set skill_types"
  shows "skills_list_of (activeTab st) (fst (handleAddSkill st))
           = skills_list_of (activeTab st) st @ [js_trim (newSkill st)]
         \<and> newSkill (fst (handleAddSkill st)) = []
         \<and> snd (handleAddSkill st) = Some (skills_of_form (fst (handleAddSkill st)))"
  using assms
  by (auto simp: skill_types_def handleAddSkill_def skills_list_of_def skills_of_form_def Let_def)

text \<open>Witness of C29.\<close>

theorem handleAddSkill_appends_witness:
  "js_trim (newSkill (skills_session_start\<lparr>newSkill := '' Go ''\<rparr>)) \<noteq> []
   \<and> activeTab (skills_session_start\<lparr>newSkill := '' Go ''\<rparr>) \<in> set skill_types
   \<and> skills_list_of ''technical'' (fst (handleAddSkill (skills_session_start\<lparr>newSkill := '' Go ''\<rparr>)))
       = [''Go'']"
proof -
  have n: "js_trim (newSkill (skills_session_start\<lparr>newSkill := '' Go ''\<rparr>)) \<noteq> []"
    by (simp add: js_trim_def js_is_space_def)
  have a: "activeTab (skills_session_start\<lparr>newSkill := '' Go ''\<rparr>) \<in> set skill_types"
    by (simp add: skills_session_start_def skills_init_def skill_types_def)
  from handleAddSkill_appends [OF n a] n a show ?thesis
    by (simp add: skills_session_start_def skills_init_def skills_list_of_def js_trim_def js_is_space_def)
qed

text \<open>
  A keystroke in the profile editor survives the round trip through the builder: after the
  handler, the builder's re-render and the \<open>[data]\<close> effect, the editor holds exactly the edited
  state and the builder the object it reported.
\<close>

lemma profile_round_keeps_input:
  "profile_round f v st = (set_profile_field f v st, profile_of_form (set_profile_field f v st))"
  by (simp add: profile_round_def profile_handleChange_def profile_sync_def profile_form_roundtrip Let_def)

text \<open>
  Every editor has a tip for every country: the \<open>|| ""\<close> fallbacks of the education,
  skills and profile tips and the \<open>|| tips.usa\<close> fallback of the experience tips are
  never taken.
\<close>

lemma country_tips_defined:
  "edu_getCountryTip c \<noteq> []
   \<and> list_all (\<lambda>ty. skills_getCountryTip c ty \<noteq> []) skill_types
   \<and> list_all (\<lambda>f. profile_getCountryTip c f \<noteq> []) [''title'', ''summary'', ''location'']"
  using edu_tip_defined skills_tip_defined profile_tip_defined by blast

lemma exp_tip_own_country: "map_of exp_tips (country_str c) \<noteq> None"
  by (cases c) (simp_all add: exp_tips_def)

end
