(* ===== verification/Gallery.thy ===== *)
theory Gallery
  imports Prelude Country Builder
begin

text \<open>
  The templates gallery (\<open>pages/Templates.tsx\<close>) with its thumbnails
  (\<open>components/templates/TemplatePreview.tsx\<close>). The gallery has its own catalogue,
  five country tabs, and a \<open>Use This Template\<close> link into the builder that carries
  the card's template id and country as query parameters. \<open>query_params\<close> reads such a
  query string the way \<open>URLSearchParams\<close> does for these values, which contain no
  \<open>%\<close>, \<open>+\<close>, \<open>&\<close> or \<open>=\<close>.
\<close>

section \<open>Catalogue and tabs\<close>

record gallery_template =
  gt_id :: jstr
  gt_name :: jstr
  gt_description :: jstr
  gt_isPremium :: bool
  features :: "jstr list"

definition mk_gallery :: "jstr \<Rightarrow> jstr \<Rightarrow> jstr \<Rightarrow> bool \<Rightarrow> jstr list \<Rightarrow> gallery_template" where
  "mk_gallery i n d p f = \<lparr>gt_id = i, gt_name = n, gt_description = d, gt_isPremium = p, features = f\<rparr>"

primrec gallery_templates :: "country \<Rightarrow> gallery_template list" where
  "gallery_templates Canada =
     [mk_gallery ''canada-modern'' ''Canadian Professional''
        ''Clean, modern design optimized for Canadian recruiters'' False
        [''Single page format'', ''Keyword optimization'', ''ATS-friendly''],
      mk_gallery ''canada-executive'' ''Executive Canadian'' ''Premium format for senior positions'' True
        [''Professional header'', ''Skills highlighting'', ''Achievement focus''],
      mk_gallery ''canada-tech'' ''Tech Professional'' ''Specialized for IT and tech roles in Canada'' True
        [''Skills matrix'', ''Project showcase'', ''Certification section'']]"
| "gallery_templates USA =
     [mk_gallery ''usa-classic'' ''Classic American'' ''Traditional format favored by US employers'' False
        [''Clean layout'', ''Action verb focus'', ''Quantified achievements''],
      mk_gallery ''usa-modern'' ''Modern American'' ''Contemporary design with subtle styling'' True
        [''Modern typography'', ''Color accents'', ''Professional sections'']]"
| "gallery_templates Germany =
     [mk_gallery ''germany-standard'' ''Standard Lebenslauf'' ''Traditional German CV format'' False
        [''Chronological order'', ''Personal details'', ''Formal structure''],
      mk_gallery ''germany-academic'' ''Academic Lebenslauf'' ''For research and academic positions'' True
        [''Publication list'', ''Research focus'', ''Academic achievements'']]"
| "gallery_templates Australia =
     [mk_gallery ''australia-standard'' ''Australian Professional'' ''STAR method optimized format'' False
        [''STAR formatting'', ''Achievement focus'', ''Skills summary''],
      mk_gallery ''australia-graduate'' ''Graduate Australian'' ''Perfect for new graduates'' True
        [''Education highlight'', ''Internship focus'', ''Skills development'']]"
| "gallery_templates Portugal =
     [mk_gallery ''portugal-europass'' ''Europass Format'' ''Official EU standard format'' False
        [''EU compliance'', ''Language skills'', ''Mobility section''],
      mk_gallery ''portugal-modern'' ''Modern Portuguese'' ''Contemporary design for Portuguese market'' True
        [''Clean design'', ''Professional layout'', ''Skills emphasis'']]"
| "gallery_templates EU =
     [mk_gallery ''eu-standard'' ''European Standard'' ''Multi-country European format'' False
        [''Multi-language'', ''EU compliance'', ''Professional structure'']]"

text \<open>The tabs: five countries, without \<open>eu\<close>; the first tab is \<open>canada\<close>.\<close>

definition gallery_country_infos :: "country_info list" where
  "gallery_country_infos =
     [\<lparr>ci_code = Canada, ci_name = ''Canada'', ci_description = ''1-page recruiter-style format''\<rparr>,
      \<lparr>ci_code = USA, ci_name = ''USA'', ci_description = ''Modern ATS-friendly format''\<rparr>,
      \<lparr>ci_code = Germany, ci_name = ''Germany'', ci_description = ''Lebenslauf format with precision''\<rparr>,
      \<lparr>ci_code = Australia, ci_name = ''Australia'', ci_description = ''STAR-based experience formatting''\<rparr>,
      \<lparr>ci_code = Portugal, ci_name = ''Portugal/EU'', ci_description = ''Europass layout compliance''\<rparr>]"

definition gallery_countries :: "country list" where
  "gallery_countries = map ci_code gallery_country_infos"

definition gallery_init :: country where
  "gallery_init = Canada"

text \<open>The cards the page shows: those of the tabs' countries.\<close>

definition gallery_cards :: "(country \<times> gallery_template) list" where
  "gallery_cards = concat (map (\<lambda>c. map (\<lambda>t. (c, t)) (gallery_templates c)) gallery_countries)"

section \<open>Deep links\<close>

text \<open>The query string of \<open>/builder?template=${template.id}&country=${country.code}\<close>.\<close>

definition use_template_query :: "country \<Rightarrow> gallery_template \<Rightarrow> jstr" where
  "use_template_query c t = ''template='' @ gt_id t @ ''&country='' @ country_str c"

fun split_on :: "char \<Rightarrow> jstr \<Rightarrow> jstr list" where
  "split_on d [] = [[]]"
| "split_on d (x # xs) = (if x = d then [] # split_on d xs
                          else (case split_on d xs of w # ws \<Rightarrow> (x # w) # ws | [] \<Rightarrow> [[x]]))"

definition query_params :: "jstr \<Rightarrow> (jstr \<times> jstr) list" where
  "query_params q = map (\<lambda>kv. (takeWhile (\<lambda>c. c \<noteq> CHR ''='') kv,
                                 drop 1 (dropWhile (\<lambda>c. c \<noteq> CHR ''='') kv)))
                        (split_on (CHR ''&'') q)"

text \<open>\<open>searchParams.get(k)\<close>: the first value of the key.\<close>

definition query_get :: "jstr \<Rightarrow> jstr \<Rightarrow> jstr option" where
  "query_get q k = map_of (query_params q) k"

text \<open>The builder page opened by a card's link, after its mount and URL effects.\<close>

definition open_builder :: "country \<Rightarrow> gallery_template \<Rightarrow> stored_resume option \<Rightarrow> builder_state" where
  "open_builder c t old =
     (let q = use_template_query c t
      in syncUrl (initFromUrl (query_get q ''country'') (query_get q ''template'') (builder_init old)))"

section \<open>Thumbnails (TemplatePreview.tsx)\<close>

record template_style =
  st_bg :: jstr
  st_accent :: jstr
  st_layout :: jstr

definition mk_style :: "jstr \<Rightarrow> jstr \<Rightarrow> jstr \<Rightarrow> template_style" where
  "mk_style b a l = \<lparr>st_bg = b, st_accent = a, st_layout = l\<rparr>"

definition template_styles :: "(jstr \<times> template_style) list" where
  "template_styles =
     [(''canada-modern'', mk_style ''bg-white'' ''bg-blue-600'' ''modern''),
      (''canada-executive'', mk_style ''bg-gray-50'' ''bg-green-600'' ''executive''),
      (''canada-tech'', mk_style ''bg-white'' ''bg-purple-600'' ''tech''),
      (''usa-classic'', mk_style ''bg-white'' ''bg-red-600'' ''classic''),
      (''usa-modern'', mk_style ''bg-gray-50'' ''bg-blue-500'' ''modern''),
      (''germany-standard'', mk_style ''bg-white'' ''bg-gray-700'' ''formal''),
      (''germany-academic'', mk_style ''bg-gray-50'' ''bg-indigo-600'' ''academic''),
      (''australia-standard'', mk_style ''bg-white'' ''bg-orange-500'' ''standard''),
      (''australia-graduate'', mk_style ''bg-blue-50'' ''bg-blue-600'' ''graduate''),
      (''portugal-europass'', mk_style ''bg-white'' ''bg-green-500'' ''europass''),
      (''portugal-modern'', mk_style ''bg-gray-50'' ''bg-teal-600'' ''modern''),
      (''eu-standard'', mk_style ''bg-white'' ''bg-purple-500'' ''standard'')]"

text \<open>\<open>styles[id] || {...}\<close>: the fallback style for an unknown id.\<close>

definition getTemplateStyle :: "jstr \<Rightarrow> template_style" where
  "getTemplateStyle i = (case map_of template_styles i of
      Some s \<Rightarrow> s
    | None \<Rightarrow> mk_style ''bg-white'' ''bg-gray-600'' ''standard'')"


text \<open>
  The thumbnail's markup: nested \<open>div\<close>s, each with its class string (the template
  literals filled in). The style's layout adds a circle for \<open>modern\<close> and a rule for
  \<open>executive\<close>.
\<close>

datatype cdiv = CDiv jstr "cdiv list"

definition bar :: "jstr \<Rightarrow> cdiv" where
  "bar c = CDiv c []"

definition TemplatePreview :: "jstr \<Rightarrow> cdiv" where
  "TemplatePreview tid =
     (let style = getTemplateStyle tid in
      CDiv (''w-full h-full '' @ st_bg style @ '' border border-border rounded-md overflow-hidden'')
       ([CDiv (st_accent style @ '' h-16 p-3 text-white'')
           [bar ''h-3 bg-white/90 rounded mb-1 w-3/4'', bar ''h-2 bg-white/70 rounded w-1/2''],
         CDiv ''p-4 space-y-4''
           [CDiv ''space-y-1'' [bar ''h-2 bg-gray-300 rounded w-2/3'', bar ''h-2 bg-gray-300 rounded w-1/2''],
            CDiv ''space-y-3''
              [bar (''h-3 '' @ st_accent style @ '' rounded w-1/3''),
               CDiv ''space-y-1'' [bar ''h-2 bg-gray-200 rounded w-full'', bar ''h-2 bg-gray-200 rounded w-5/6'',
                                   bar ''h-2 bg-gray-200 rounded w-4/5'']],
            CDiv ''space-y-3''
              [bar (''h-3 '' @ st_accent style @ '' rounded w-2/5''),
               CDiv ''space-y-1'' [bar ''h-2 bg-gray-200 rounded w-full'', bar ''h-2 bg-gray-200 rounded w-3/4'']],
            CDiv ''space-y-3''
              [bar (''h-3 '' @ st_accent style @ '' rounded w-1/4''),
               CDiv ''grid grid-cols-2 gap-2'' (replicate 4 (bar ''h-2 bg-gray-200 rounded''))]]]
        @ (if st_layout style = ''modern'' then [bar ''absolute top-20 right-4 w-8 h-8 bg-gray-200 rounded-full''] else [])
        @ (if st_layout style = ''executive''
           then [bar ''absolute bottom-4 left-4 right-4 h-1 bg-gradient-to-r from-transparent via-gray-300 to-transparent'']
           else [])))"

primrec cdiv_children :: "cdiv \<Rightarrow> cdiv list" where
  "cdiv_children (CDiv c cs) = cs"

section \<open>Lemmas\<close>

lemma split_on_no_delim: "d \<notin> set w \<Longrightarrow> split_on d w = [w]"
  by (induction w) auto

lemma split_on_append: "d \<notin> set u \<Longrightarrow> split_on d (u @ d # v) = u # split_on d v"
  by (induction u) auto

lemma parse_country_str [simp]: "parse_country (Some (country_str c)) = Some c"
  by (cases c) (simp_all add: parse_country_def valid_countries_def js_truthy_def)

lemma takeWhile_eq_prefix:
  "CHR ''='' \<notin> set p \<Longrightarrow> takeWhile (\<lambda>c. c \<noteq> CHR ''='') (p @ CHR ''='' # r) = p"
  by (induction p) auto

lemma dropWhile_eq_prefix:
  "CHR ''='' \<notin> set p \<Longrightarrow> dropWhile (\<lambda>c. c \<noteq> CHR ''='') (p @ CHR ''='' # r) = CHR ''='' # r"
  by (induction p) auto

lemma query_params_link:
  assumes "CHR ''&'' \<notin> set i"
  shows "query_params (''template='' @ i @ ''&country='' @ k) =
           (''template'', i) # query_params (''country='' @ k)"
proof -
  have "split_on (CHR ''&'') ((''template='' @ i) @ CHR ''&'' # ''country='' @ k)
          = (''template='' @ i) # split_on (CHR ''&'') (''country='' @ k)"
    by (rule split_on_append) (use assms in simp)
  then show ?thesis
    by (simp add: query_params_def takeWhile_eq_prefix [of "''template''", simplified]
        dropWhile_eq_prefix [of "''template''", simplified])
qed

lemma country_str_plain: "CHR ''&'' \<notin> set (country_str c) \<and> CHR ''='' \<notin> set (country_str c)"
  by (cases c) simp_all

lemma query_params_country: "query_params (''country='' @ country_str c) = [(''country'', country_str c)]"
proof -
  have "split_on (CHR ''&'') (''country='' @ country_str c) = [''country='' @ country_str c]"
    using country_str_plain [of c] by (simp add: split_on_no_delim)
  then show ?thesis by (simp add: query_params_def)
qed

lemma open_builder_params:
  assumes "CHR ''&'' \<notin> set (gt_id t)" and "gt_id t \<noteq> []"
  shows "b_country (open_builder c t old) = c \<and> templateId (open_builder c t old) = gt_id t"
proof -
  have q: "query_params (use_template_query c t) = [(''template'', gt_id t), (''country'', country_str c)]"
    using query_params_link [OF assms(1), of "country_str c"] query_params_country [of c]
    by (simp add: use_template_query_def)
  show ?thesis
    using assms(2) by (simp add: open_builder_def query_get_def q initFromUrl_def js_truthy_def syncUrl_def)
qed

lemma gallery_styles_defined:
  "list_all (\<lambda>(c, t). map_of template_styles (gt_id t) \<noteq> None) gallery_cards"
  by (simp add: gallery_cards_def gallery_countries_def gallery_country_infos_def mk_gallery_def template_styles_def)


text \<open>The gallery's cards whose thumbnail has a layout-specific element: the three
  \<open>modern\<close> templates and the Canadian executive one.\<close>

lemma gallery_layout_marks:
  "map (gt_id \<circ> snd) (filter (\<lambda>(c, t). 2 < length (cdiv_children (TemplatePreview (gt_id t)))) gallery_cards)
     = [''canada-modern'', ''canada-executive'', ''usa-modern'', ''portugal-modern'']"
  by (simp add: gallery_cards_def gallery_countries_def gallery_country_infos_def mk_gallery_def TemplatePreview_def getTemplateStyle_def
      template_styles_def mk_style_def)

section \<open>Properties\<close>

text \<open>
  C30. Every \<open>Use This Template\<close> link of the gallery opens the builder with the card's
  country and template id, but only five of the eleven ids are templates of the builder's
  catalogue (a card of the selection panel is highlighted only for those).
\<close>

theorem gallery_links_open_builder:
  "list_all (\<lambda>(c, t). b_country (open_builder c t old) = c \<and> templateId (open_builder c t old) = gt_id t
       \<and> (selected_card c (gt_id t) \<noteq> []
          \<longleftrightarrow> gt_id t \<in> set [''canada-modern'', ''canada-executive'', ''usa-modern'',
                             ''portugal-europass'', ''portugal-modern'']))
     gallery_cards"
  by (simp add: gallery_cards_def gallery_countries_def gallery_country_infos_def mk_gallery_def open_builder_params
      selected_card_def template_simps)


end
