(* ===== verification/Theme.thy ===== *)
theory Theme
  imports Prelude
begin

text \<open>
  The colour theme of \<open>components/layout/Layout.tsx\<close>: the React state
  \<open>isDarkMode\<close>, the \<open>dark\<close> class of the document element and the \<open>theme\<close> slot
  of \<open>localStorage\<close>. The mount effect reads the slot, or the system preference when
  the slot is empty; the header's button calls \<open>toggleTheme\<close>.
\<close>

record theme_state =
  isDarkMode :: bool
  html_dark :: bool
  stored_theme :: "jstr option"

text \<open>Before the effect: \<open>useState(false)\<close>, a fresh document, whatever is stored.\<close>

definition theme_init :: "jstr option \<Rightarrow> theme_state" where
  "theme_init saved = \<lparr>isDarkMode = False, html_dark = False, stored_theme = saved\<rparr>"

definition theme_mount :: "bool \<Rightarrow> theme_state \<Rightarrow> theme_state" where
  "theme_mount prefersDark st =
     (let savedTheme = stored_theme st
      in if js_truthy savedTheme
         then st\<lparr>isDarkMode := (the savedTheme = ''dark''), html_dark := (the savedTheme = ''dark'')\<rparr>
         else st\<lparr>isDarkMode := prefersDark, html_dark := prefersDark\<rparr>)"

definition toggleTheme :: "theme_state \<Rightarrow> theme_state" where
  "toggleTheme st =
     (let newMode = \<not> isDarkMode st
      in st\<lparr>isDarkMode := newMode, html_dark := newMode,
            stored_theme := Some (if newMode then ''dark'' else ''light'')\<rparr>)"

text \<open>A page load: the mount with the system preference, then any number of toggles.\<close>

inductive theme_reach :: "theme_state \<Rightarrow> bool" where
  mount: "theme_reach (theme_mount prefersDark (theme_init saved))"
| toggle: "theme_reach st \<Longrightarrow> theme_reach (toggleTheme st)"

text \<open>A reload: a fresh page reading what the previous one stored.\<close>

definition theme_reload :: "bool \<Rightarrow> theme_state \<Rightarrow> theme_state" where
  "theme_reload prefersDark st = theme_mount prefersDark (theme_init (stored_theme st))"

section \<open>Lemmas\<close>

lemma theme_toggle_fields [simp]:
  "isDarkMode (toggleTheme st) = (\<not> isDarkMode st)" "html_dark (toggleTheme st) = (\<not> isDarkMode st)"
  "stored_theme (toggleTheme st) = Some (if isDarkMode st then ''light'' else ''dark'')"
  by (simp_all add: toggleTheme_def Let_def)

lemma theme_reload_mode:
  "js_truthy (stored_theme st) \<Longrightarrow> isDarkMode (theme_reload p st) = (the (stored_theme st) = ''dark'')"
  by (simp add: theme_reload_def theme_mount_def theme_init_def Let_def)

text \<open>In every state of a page load the document's class follows \<open>isDarkMode\<close>.\<close>

lemma theme_reach_class: "theme_reach st \<Longrightarrow> html_dark st = isDarkMode st"
  by (induction rule: theme_reach.induct) (simp_all add: theme_mount_def theme_init_def Let_def)

text \<open>
  C31. The theme is consistent and persistent: in every state of a page load the
  \<open>dark\<close> class matches \<open>isDarkMode\<close>, and once a theme is stored, a reload shows the
  same mode whatever the system preference.
\<close>

theorem theme_reach_persistent:
  assumes "theme_reach st"
  shows "html_dark st = isDarkMode st
         \<and> (js_truthy (stored_theme st) \<longrightarrow> isDarkMode (theme_reload p st) = isDarkMode st)"
  using assms
proof (induction rule: theme_reach.induct)
  case (mount prefersDark saved)
  show ?case
    by (auto simp: theme_mount_def theme_init_def theme_reload_def Let_def)
next
  case (toggle st)
  show ?case by (simp add: theme_reload_mode js_truthy_def)
qed

text \<open>C31, at a load with \<open>light\<close> stored, followed by a toggle.\<close>

theorem theme_reach_persistent_witness:
  "theme_reach (toggleTheme (theme_mount False (theme_init (Some ''light''))))
   \<and> isDarkMode (theme_reload False (toggleTheme (theme_mount False (theme_init (Some ''light'')))))"
proof -
  have r: "theme_reach (toggleTheme (theme_mount False (theme_init (Some ''light''))))"
    by (rule theme_reach.toggle [OF theme_reach.mount])
  from theme_reach_persistent [OF r, of False] r show ?thesis
    by (simp add: theme_mount_def theme_init_def js_truthy_def Let_def)
qed

end
