(* ===== verification/Contact.thy ===== *)
theory Contact
  imports Prelude Preview
begin

text \<open>
  The contact form of \<open>pages/Contact.tsx\<close>. \<open>handleSubmit\<close> is asynchronous: it
  validates, then waits for a two-second timer before the success toast and the reset.
  The model splits it into the submit event and the timer event; \<open>pending\<close> records that
  the timer is running. The promise never rejects, so the \<open>catch\<close> branch is
  unreachable. The browser's \<open>required\<close> check runs before \<open>onSubmit\<close>; its
  \<open>type="email"\<close> format check is not modelled, so the guard admits more submissions
  than the browser does. The page's markup (\<open>Contact_page\<close>) is a tree of
  \<open>Preview\<close>'s nodes.
\<close>

record contact_form =
  cf_name :: jstr
  cf_email :: jstr
  cf_subject :: jstr
  cf_category :: jstr
  cf_message :: jstr

definition empty_contact :: contact_form where
  "empty_contact = \<lparr>cf_name = [], cf_email = [], cf_subject = [], cf_category = [], cf_message = []\<rparr>"

record contact_state =
  ct_form :: contact_form
  isSubmitting :: bool
  pending :: bool

definition contact_init :: contact_state where
  "contact_init = \<lparr>ct_form = empty_contact, isSubmitting = False, pending = False\<rparr>"

datatype contact_field = CName | CEmail | CSubject | CCategory | CMessage

fun set_contact_field :: "contact_field \<Rightarrow> jstr \<Rightarrow> contact_form \<Rightarrow> contact_form" where
  "set_contact_field CName v f = f\<lparr>cf_name := v\<rparr>"
| "set_contact_field CEmail v f = f\<lparr>cf_email := v\<rparr>"
| "set_contact_field CSubject v f = f\<lparr>cf_subject := v\<rparr>"
| "set_contact_field CCategory v f = f\<lparr>cf_category := v\<rparr>"
| "set_contact_field CMessage v f = f\<lparr>cf_message := v\<rparr>"

definition handleInputChange :: "contact_field \<Rightarrow> jstr \<Rightarrow> contact_state \<Rightarrow> contact_state" where
  "handleInputChange f v st = st\<lparr>ct_form := set_contact_field f v (ct_form st)\<rparr>"

datatype contact_toast = ValidationError | MessageSent

text \<open>The part of \<open>handleSubmit\<close> before the \<open>await\<close>.\<close>

definition handleSubmit :: "contact_state \<Rightarrow> contact_state \<times> contact_toast option" where
  "handleSubmit st =
     (let st1 = st\<lparr>isSubmitting := True\<rparr>; f = ct_form st
      in if cf_name f = [] \<or> cf_email f = [] \<or> cf_message f = []
         then (st1\<lparr>isSubmitting := False\<rparr>, Some ValidationError)
         else (st1\<lparr>pending := True\<rparr>, None))"

text \<open>The part after the \<open>await\<close>: the toast, the reset and the \<open>finally\<close>.\<close>

definition submit_resolved :: "contact_state \<Rightarrow> contact_state \<times> contact_toast option" where
  "submit_resolved st =
     (st\<lparr>ct_form := empty_contact, isSubmitting := False, pending := False\<rparr>, Some MessageSent)"

datatype contact_event = ContactInput contact_field jstr | SubmitClick | TimerFires

text \<open>The items of the category select, value and label, and their values.\<close>

definition category_items :: "(jstr \<times> jstr) list" where
  "category_items =
     [(''general'', ''General Inquiry''), (''technical'', ''Technical Support''), (''billing'', ''Billing Question''),
      (''feature'', ''Feature Request''), (''bug'', ''Bug Report''), (''partnership'', ''Partnership'')]"

definition contact_categories :: "jstr list" where
  "contact_categories = map fst category_items"

text \<open>The submit button's label.\<close>

definition submit_label :: "contact_state \<Rightarrow> jstr" where
  "submit_label st = (if isSubmitting st then ''Sending...'' else ''Send Message'')"

text \<open>
  The guards: the submit button is disabled while submitting and the browser blocks a
  submission with an empty required field; the timer fires only while pending; the
  category comes from the select's items.
\<close>

definition contact_enabled :: "contact_state \<Rightarrow> contact_event \<Rightarrow> bool" where
  "contact_enabled st e = (case e of
      ContactInput f v \<Rightarrow> (f = CCategory \<longrightarrow> v \<in> set contact_categories)
    | SubmitClick \<Rightarrow> \<not> isSubmitting st \<and> cf_name (ct_form st) \<noteq> [] \<and> cf_email (ct_form st) \<noteq> []
                     \<and> cf_message (ct_form st) \<noteq> []
    | TimerFires \<Rightarrow> pending st)"

definition contact_step :: "contact_event \<Rightarrow> contact_state \<Rightarrow> contact_state \<times> contact_toast option" where
  "contact_step e st = (case e of
      ContactInput f v \<Rightarrow> (handleInputChange f v st, None)
    | SubmitClick \<Rightarrow> handleSubmit st
    | TimerFires \<Rightarrow> submit_resolved st)"

inductive contact_reach :: "contact_state \<Rightarrow> bool" where
  start: "contact_reach contact_init"
| step: "contact_reach st \<Longrightarrow> contact_enabled st e \<Longrightarrow> contact_reach (fst (contact_step e st))"


section \<open>The page\<close>

text \<open>
  The page's JSX as a tree of \<open>Preview\<close>'s nodes (class names dropped): the heading, the
  four contact cards, the form and the FAQ. An input shows its value, or its placeholder
  while the value is empty; the select shows the label of the chosen item, or its
  placeholder while none is chosen.
\<close>

definition contact_card :: "jstr \<Rightarrow> jstr \<Rightarrow> jstr \<Rightarrow> jstr \<Rightarrow> jstr \<Rightarrow> node" where
  "contact_card icon title description primary secondary =
     el ''Card'' [el ''CardHeader'' [el ''CardTitle'' [el icon [], Txt title], el ''CardDescription'' [Txt description]],
                  el ''CardContent'' [el ''p'' [Txt primary], el ''p'' [Txt secondary]]]"

definition form_input :: "jstr \<Rightarrow> jstr \<Rightarrow> jstr \<Rightarrow> jstr \<Rightarrow> jstr \<Rightarrow> node" where
  "form_input label tag i value placeholder =
     el ''div'' [el ''Label'' [Txt label], El tag (Some i) [Txt (if value = [] then placeholder else value)]]"

definition select_label :: "jstr \<Rightarrow> jstr" where
  "select_label v = (case map_of category_items v of Some l \<Rightarrow> l | None \<Rightarrow> ''Select a category'')"

definition contact_faqs :: "(jstr \<times> jstr) list" where
  "contact_faqs =
     [(''How do I download my resume?'',
       ''After completing your resume, click the '' @ [CHR 0x22] @ ''Export PDF'' @ [CHR 0x22]
        @ '' button in the preview panel to download your ATS-optimized resume.''),
      (''Can I edit my resume after creating it?'',
       ''Yes! Your resume data is automatically saved. You can return anytime to make changes and download updated versions.''),
      (''Are the templates really ATS-friendly?'',
       ''Absolutely. All our templates are designed to be machine-readable and pass through Applicant Tracking Systems.''),
      (''Can I switch between country formats?'',
       ''Yes! You can change the country and template at any time during the resume building process.'')]"

definition contact_form_view :: "contact_state \<Rightarrow> node" where
  "contact_form_view st =
     (let f = ct_form st in
      el ''form''
       [el ''div'' [form_input ''Full Name *'' ''input'' ''name'' (cf_name f) ''Your full name'',
                    form_input ''Email Address *'' ''input'' ''email'' (cf_email f) ''your.email@example.com''],
        el ''div'' [el ''div'' [el ''Label'' [Txt ''Category''], el ''Select'' [Txt (select_label (cf_category f))]],
                    form_input ''Subject'' ''input'' ''subject'' (cf_subject f) ''Brief subject line''],
        form_input ''Message *'' ''textarea'' ''message'' (cf_message f) ''Please describe your question or issue in detail...'',
        el ''button'' [Txt (submit_label st)]])"

definition Contact_page :: "contact_state \<Rightarrow> node" where
  "Contact_page st =
     el ''div'' [el ''div''
       [el ''div'' [el ''h1'' [Txt ''Get in Touch''],
                    el ''p'' [Txt ''Have questions about our resume builder? Need help with your international job search? We're here to help.'']],
        el ''div''
          [el ''div''
             [contact_card ''MailIcon'' ''Email Support'' ''Get help with technical issues or general questions''
                ''goutam.roy.421917@gmail.com'' ''Response within 24 hours'',
              contact_card ''MessageSquareIcon'' ''Live Chat'' ''Chat with our team for immediate assistance''
                ''Available Mon-Fri'' ''9:00 AM - 6:00 PM EST'',
              contact_card ''PhoneIcon'' ''Phone Support'' ''Speak directly with our support team''
                ''+880 174 759 3452'' ''Premium users only'',
              contact_card ''MapPinIcon'' ''Office Location'' ''Visit Gazipur-Bangladesh at our headquarters''
                ''Dhaka, Bangladesh'' ''By appointment only''],
           el ''div'' [el ''Card''
             [el ''CardHeader'' [el ''CardTitle'' [Txt ''Send us a Message''],
                 el ''CardDescription'' [Txt ''Fill out the form below and we'll get back to you as soon as possible.'']],
              el ''CardContent'' [contact_form_view st]]]],
        el ''div'' [el ''Card''
          [el ''CardHeader'' [el ''CardTitle'' [Txt ''Frequently Asked Questions''],
              el ''CardDescription'' [Txt ''Quick answers to common questions about our resume builder'']],
           el ''CardContent'' [el ''div'' (map (\<lambda>(q, a). el ''div'' [el ''h3'' [Txt q], el ''p'' [Txt a]]) contact_faqs)]]]]]"

section \<open>Lemmas\<close>

text \<open>While the timer runs the button is disabled, and it is disabled only then.\<close>

lemma contact_reach_submitting: "contact_reach st \<Longrightarrow> isSubmitting st = pending st"
proof (induction rule: contact_reach.induct)
  case start
  show ?case by (simp add: contact_init_def)
next
  case (step st e)
  then show ?case
    by (cases e) (auto simp: contact_step_def handleInputChange_def handleSubmit_def submit_resolved_def
        contact_enabled_def Let_def)
qed

lemma cf_category_set [simp]:
  "cf_category (set_contact_field f v c) = (if f = CCategory then v else cf_category c)"
  by (cases f) simp_all

text \<open>The category is always empty or one of the select's values.\<close>

lemma contact_reach_category:
  "contact_reach st \<Longrightarrow> cf_category (ct_form st) = [] \<or> cf_category (ct_form st) \<in> set contact_categories"
proof (induction rule: contact_reach.induct)
  case start
  show ?case by (simp add: contact_init_def empty_contact_def)
next
  case (step st e)
  then show ?case
    by (cases e) (auto simp: contact_step_def handleInputChange_def handleSubmit_def submit_resolved_def
        contact_enabled_def empty_contact_def Let_def)
qed

text \<open>
  C33. A submission in flight always completes: in every state of the page in which the
  button reads \<open>Sending...\<close>, the timer can fire, and it brings the page back to its
  initial state (empty form, button enabled) with the success toast.
\<close>

theorem contact_submit_completes:
  assumes "contact_reach st" and "isSubmitting st"
  shows "contact_enabled st TimerFires \<and> contact_step TimerFires st = (contact_init, Some MessageSent)"
  using contact_reach_submitting [OF assms(1)] assms(2)
  by (simp add: contact_enabled_def contact_step_def submit_resolved_def contact_init_def)

text \<open>C33, after the three required fields are filled in and the form is submitted.\<close>

theorem contact_submit_completes_witness:
  "contact_reach \<lparr>ct_form = \<lparr>cf_name = ''n'', cf_email = ''e'', cf_subject = [], cf_category = [], cf_message = ''m''\<rparr>,
                  isSubmitting = True, pending = True\<rparr>
   \<and> contact_step TimerFires
       \<lparr>ct_form = \<lparr>cf_name = ''n'', cf_email = ''e'', cf_subject = [], cf_category = [], cf_message = ''m''\<rparr>,
        isSubmitting = True, pending = True\<rparr> = (contact_init, Some MessageSent)"
proof -
  have r1: "contact_reach (fst (contact_step (ContactInput CName ''n'') contact_init))"
    by (rule contact_reach.step [OF contact_reach.start]) (simp add: contact_enabled_def)
  have r2: "contact_reach (fst (contact_step (ContactInput CEmail ''e'') (fst (contact_step (ContactInput CName ''n'') contact_init))))"
    by (rule contact_reach.step [OF r1]) (simp add: contact_enabled_def)
  have r3: "contact_reach (fst (contact_step (ContactInput CMessage ''m'')
      (fst (contact_step (ContactInput CEmail ''e'') (fst (contact_step (ContactInput CName ''n'') contact_init))))))"
    by (rule contact_reach.step [OF r2]) (simp add: contact_enabled_def)
  have r4: "contact_reach (fst (contact_step SubmitClick (fst (contact_step (ContactInput CMessage ''m'')
      (fst (contact_step (ContactInput CEmail ''e'') (fst (contact_step (ContactInput CName ''n'') contact_init))))))))"
    by (rule contact_reach.step [OF r3])
       (simp add: contact_enabled_def contact_step_def handleInputChange_def contact_init_def empty_contact_def)
  have e: "fst (contact_step SubmitClick (fst (contact_step (ContactInput CMessage ''m'')
      (fst (contact_step (ContactInput CEmail ''e'') (fst (contact_step (ContactInput CName ''n'') contact_init)))))))
    = \<lparr>ct_form = \<lparr>cf_name = ''n'', cf_email = ''e'', cf_subject = [], cf_category = [], cf_message = ''m''\<rparr>,
       isSubmitting = True, pending = True\<rparr>"
    by (simp add: contact_step_def handleInputChange_def handleSubmit_def contact_init_def empty_contact_def Let_def)
  from r4 e have r: "contact_reach \<lparr>ct_form = \<lparr>cf_name = ''n'', cf_email = ''e'', cf_subject = [], cf_category = [],
      cf_message = ''m''\<rparr>, isSubmitting = True, pending = True\<rparr>" by simp
  from contact_submit_completes [OF r] r show ?thesis by simp
qed

text \<open>The validation toast of \<open>handleSubmit\<close> is unreachable from the page.\<close>

lemma contact_no_validation_error:
  "contact_enabled st SubmitClick \<Longrightarrow> snd (contact_step SubmitClick st) = None"
  by (simp add: contact_enabled_def contact_step_def handleSubmit_def Let_def)


text \<open>In every state of the page the select shows its placeholder or the label of one of
  its items, never a raw value.\<close>

lemma contact_reach_select_label:
  "contact_reach st \<Longrightarrow> select_label (cf_category (ct_form st)) \<in> insert ''Select a category'' (set (map snd category_items))"
  using contact_reach_category [of st]
  by (auto simp: select_label_def contact_categories_def category_items_def)

text \<open>After a message is sent the form shows its placeholders again and the button reads
  \<open>Send Message\<close>.\<close>

lemma contact_sent_view:
  "contact_step TimerFires st = (st', Some MessageSent) \<Longrightarrow> contact_form_view st' = contact_form_view contact_init"
  by (auto simp: contact_step_def submit_resolved_def contact_init_def contact_form_view_def submit_label_def
      split: if_splits)

end
