(* ===== verification/Pricing.thy ===== *)
theory Pricing
  imports Prelude Preview
begin

text \<open>
  The pricing page \<open>pages/Pricing.tsx\<close>: three plans with a monthly and an annual price,
  a monthly/annual switch, and one card per plan. JavaScript holds the prices as
  doubles (\<open>9.99\<close>, \<open>7.99\<close>, ...). The model holds them as whole cents, which
  \<open>Number.prototype.toString\<close> prints as the shortest decimal: integer part, then the
  fractional digits without trailing zeros. The page multiplies \<open>annual * 12\<close> in
  doubles; for the three annual prices the double products print as
  \<open>0\<close>, \<open>95.88\<close> and \<open>191.88\<close>, which are the exact products in cents.
  The whole page, with its FAQ and call to action, is \<open>Pricing_page\<close>.
\<close>

section \<open>Plans\<close>

record price =
  price_monthly :: nat
  price_annual :: nat

record plan_feature =
  feature_name :: jstr
  included :: bool

datatype button_variant = VariantOutline | VariantDefault

record plan =
  plan_name :: jstr
  plan_description :: jstr
  plan_price :: price
  plan_badge :: "jstr option"
  plan_features :: "plan_feature list"
  buttonText :: jstr
  buttonVariant :: button_variant
  popular :: bool

definition feat :: "jstr \<Rightarrow> bool \<Rightarrow> plan_feature" where
  "feat n b = \<lparr>feature_name = n, included = b\<rparr>"

definition plans :: "plan list" where
  "plans =
     [\<lparr>plan_name = ''Free'', plan_description = ''Perfect for getting started'',
       plan_price = \<lparr>price_monthly = 0, price_annual = 0\<rparr>, plan_badge = None,
       plan_features = [feat ''1 resume template'' True, feat ''Basic country formats'' True,
         feat ''PDF download'' True, feat ''ATS optimization'' True, feat ''Real-time preview'' True,
         feat ''Multiple templates'' False, feat ''Premium support'' False,
         feat ''Cover letter builder'' False, feat ''Advanced customization'' False,
         feat ''Priority processing'' False],
       buttonText = ''Get Started Free'', buttonVariant = VariantOutline, popular = False\<rparr>,
      \<lparr>plan_name = ''Professional'', plan_description = ''For serious job seekers'',
       plan_price = \<lparr>price_monthly = 999, price_annual = 799\<rparr>, plan_badge = Some ''Most Popular'',
       plan_features = [feat ''All free features'' True, feat ''10+ premium templates'' True,
         feat ''All country formats'' True, feat ''Cover letter builder'' True,
         feat ''Advanced customization'' True, feat ''Email support'' True,
         feat ''Multiple resume versions'' True, feat ''LinkedIn optimization'' True,
         feat ''Keyword suggestions'' False, feat ''Priority processing'' False],
       buttonText = ''Start Professional'', buttonVariant = VariantDefault, popular = True\<rparr>,
      \<lparr>plan_name = ''Premium'', plan_description = ''For career professionals'',
       plan_price = \<lparr>price_monthly = 1999, price_annual = 1599\<rparr>, plan_badge = Some ''Best Value'',
       plan_features = [feat ''All Professional features'' True, feat ''20+ premium templates'' True,
         feat ''AI-powered suggestions'' True, feat ''Keyword optimization'' True,
         feat ''Priority support'' True, feat ''Resume review service'' True,
         feat ''Career coaching calls'' True, feat ''LinkedIn profile optimization'' True,
         feat ''Job match recommendations'' True, feat ''Priority processing'' True],
       buttonText = ''Go Premium'', buttonVariant = VariantDefault, popular = False\<rparr>]"

section \<open>Rendering\<close>

text \<open>\<open>String(n / 100)\<close> for a whole number \<open>n\<close> of cents.\<close>

definition js_cents_str :: "nat \<Rightarrow> jstr" where
  "js_cents_str n =
     (let d = n mod 100
      in js_num_str (n div 100) @
         (if d = 0 then []
          else if d mod 10 = 0 then [CHR ''.'', char_of (48 + d div 10)]
          else [CHR ''.'', char_of (48 + d div 10), char_of (48 + d mod 10)]))"

text \<open>The price block of a card: the price, \<open>/month\<close>, and the annual billing line.\<close>

definition price_block :: "bool \<Rightarrow> price \<Rightarrow> node list" where
  "price_block isAnnual p =
     [el ''span'' [Txt (''$'' @ js_cents_str (if isAnnual then price_annual p else price_monthly p))]]
     @ (if 0 < price_monthly p then [el ''span'' [Txt (''/'' @ (if isAnnual then ''month'' else ''month''))]] else [])
     @ (if isAnnual \<and> 0 < price_monthly p
        then [el ''div'' [Txt (''Billed annually ($'' @ js_cents_str (price_annual p * 12) @ ''/year)'')]]
        else [])"

definition plan_card :: "bool \<Rightarrow> plan \<Rightarrow> node" where
  "plan_card isAnnual p =
     el ''div''
       ((case plan_badge p of None \<Rightarrow> [] | Some b \<Rightarrow> [el ''span'' [Txt b]])
        @ [el ''h3'' [Txt (plan_name p)],
           el ''p'' [Txt (plan_description p)],
           el ''div'' (price_block isAnnual (plan_price p)),
           el ''button'' [Txt (buttonText p)],
           el ''ul'' (map (\<lambda>f. el ''li'' [el (if included f then ''CheckIcon'' else ''XIcon'') [],
                                          Txt (feature_name f)]) (plan_features p))])"

text \<open>The page's state is the switch; \<open>onCheckedChange={setIsAnnual}\<close> stores its value.\<close>

definition pricing_cards :: "bool \<Rightarrow> node list" where
  "pricing_cards isAnnual = map (plan_card isAnnual) plans"


text \<open>The FAQ: four cards of a question and its answer.\<close>

definition faqs :: "(jstr \<times> jstr) list" where
  "faqs =
     [(''Can I cancel anytime?'',
       ''Yes! You can cancel your subscription at any time. You'll continue to have access to premium features until the end of your billing period.''),
      (''Do you offer refunds?'',
       ''We offer a 30-day money-back guarantee. If you're not satisfied with our service, contact us for a full refund.''),
      (''Can I change plans later?'',
       ''Absolutely! You can upgrade or downgrade your plan at any time. Changes will be reflected in your next billing cycle.''),
      (''What payment methods do you accept?'',
       ''We accept all major credit cards (Visa, Mastercard, American Express) and PayPal for your convenience.'')]"

definition faq_card :: "jstr \<times> jstr \<Rightarrow> node" where
  "faq_card qa = (case qa of (q, a) \<Rightarrow>
     el ''div'' [el ''div'' [el ''h3'' [Txt q]], el ''div'' [el ''p'' [Txt a]]])"

text \<open>
  The whole page for a position of the switch: the heading with the switch and the
  \<open>Save 20%\<close> badge, the cards, the FAQ and the call to action. Its two buttons, like the
  plan buttons, have no \<open>onClick\<close>.
\<close>

definition Pricing_page :: "bool \<Rightarrow> node" where
  "Pricing_page isAnnual =
     el ''div'' [el ''div''
       [el ''div''
          [el ''h1'' [Txt ''Choose Your Plan''],
           el ''p'' [Txt ''Start free and upgrade when you're ready to unlock the full power of professional resume building''],
           el ''div'' [el ''span'' [Txt ''Monthly''], el ''Switch'' [], el ''span'' [Txt ''Annual''],
                       el ''span'' [Txt ''Save 20%'']]],
        el ''div'' (pricing_cards isAnnual),
        el ''div'' [el ''h2'' [Txt ''Frequently Asked Questions''], el ''div'' (map faq_card faqs)],
        el ''div'' [el ''div''
          [el ''div'' [el ''div'' [el ''StarIcon'' []], el ''h3'' [Txt ''Ready to Build Your Professional Resume?''],
                       el ''p'' [Txt ''Join thousands of professionals who have successfully landed their dream jobs with our resume builder'']],
           el ''div'' [el ''button'' [Txt ''Start Building Now''], el ''button'' [Txt ''View All Templates'']]]]]]"

definition is_el :: "jstr \<Rightarrow> node \<Rightarrow> bool" where
  "is_el t n = (case n of El t' a cs \<Rightarrow> t' = t | _ \<Rightarrow> False)"

section \<open>Lemmas\<close>

lemma js_cents_str_examples:
  "js_cents_str 799 = ''7.99''" "js_cents_str 9588 = ''95.88''" "js_cents_str 0 = ''0''"
  "js_cents_str 19188 = ''191.88''"
  by (simp_all add: js_cents_str_def js_num_str.simps)

lemma professional_annual_block:
  "price_block True (plan_price (plans ! 1))
     = [el ''span'' [Txt ''$7.99''], el ''span'' [Txt ''/month''],
        el ''div'' [Txt ''Billed annually ($95.88/year)'']]"
  by (simp add: price_block_def plans_def js_cents_str_def js_num_str.simps)


text \<open>The page's buttons, in document order, whichever the switch: the three plan buttons
  and the two of the call to action.\<close>

lemma pricing_buttons:
  "map node_texts (filter (is_el ''button'') (preorder (Pricing_page isAnnual)))
     = [[''Get Started Free''], [''Start Professional''], [''Go Premium''], [''Start Building Now''],
        [''View All Templates'']]"
  by (simp add: Pricing_page_def pricing_cards_def plans_def plan_card_def price_block_def faqs_def faq_card_def
      is_el_def feat_def)

section \<open>Properties\<close>

text \<open>
  The \<open>Save 20%\<close> badge is right within a tenth of a percent: for every paid plan the
  annual price per month is at most 80% of the monthly price and at least 79% of it.
\<close>

lemma plans_save_20:
  "list_all (\<lambda>p. 5 * price_annual (plan_price p) \<le> 4 * price_monthly (plan_price p)
                 \<and> 79 * price_monthly (plan_price p) \<le> 100 * price_annual (plan_price p))
     (filter (\<lambda>p. 0 < price_monthly (plan_price p)) plans)"
  by (simp add: plans_def)

end
