(* ===== verification/Header.thy ===== *)
theory Header
  imports Prelude Theme
begin

text \<open>
  The site header (\<open>components/layout/Header.tsx\<close>) inside the layout
  (\<open>Layout.tsx\<close>). Its state is the mobile menu flag and the scroll flag. The header
  shows the desktop navigation or, on a mobile viewport, a menu button with a drop-down.
  The theme button calls the layout's \<open>toggleTheme\<close>. \<open>useIsMobile\<close> comes from
  \<open>@/hooks/use-mobile\<close>, which is not part of the repository; the viewport is therefore
  an input of every event. A link returns the path it navigates to.
\<close>

record header_state =
  isMenuOpen :: bool
  isScrolled :: bool

definition header_init :: header_state where
  "header_init = \<lparr>isMenuOpen = False, isScrolled = False\<rparr>"

definition menuItems :: "(jstr \<times> jstr) list" where
  "menuItems = [(''Home'', ''/''), (''Templates'', ''/templates''), (''Builder'', ''/builder''),
                (''Pricing'', ''/pricing''), (''Contact'', ''/contact'')]"

text \<open>\<open>handleScroll\<close>: \<open>window.scrollY > 10\<close>, with the scroll offset in whole pixels.\<close>

definition handleScroll :: "nat \<Rightarrow> header_state \<Rightarrow> header_state" where
  "handleScroll y st = st\<lparr>isScrolled := 10 < y\<rparr>"

text \<open>
  The events: a scroll, the theme button, the menu button, a link of the desktop bar
  (\<open>None\<close> is its \<open>Create Resume\<close> button), a link of the mobile menu (likewise),
  and the logo, a link to \<open>/\<close> in both viewports.
\<close>

datatype header_event =
    ScrollTo nat | ThemeClick | MenuButton | DesktopLink "nat option" | MobileLink "nat option"
  | LogoLink

definition link_path :: "nat option \<Rightarrow> jstr" where
  "link_path l = (case l of None \<Rightarrow> ''/builder'' | Some i \<Rightarrow> snd (menuItems ! i))"

definition header_enabled :: "bool \<Rightarrow> header_state \<Rightarrow> header_event \<Rightarrow> bool" where
  "header_enabled isMobile st e = (case e of
      MenuButton \<Rightarrow> isMobile
    | DesktopLink l \<Rightarrow> \<not> isMobile \<and> (case l of None \<Rightarrow> True | Some i \<Rightarrow> i < length menuItems)
    | MobileLink l \<Rightarrow> isMobile \<and> isMenuOpen st \<and> (case l of None \<Rightarrow> True | Some i \<Rightarrow> i < length menuItems)
    | _ \<Rightarrow> True)"

text \<open>The layout's state: the header and the theme; one event, with the viewport.\<close>

definition layout_step ::
  "header_event \<Rightarrow> header_state \<times> theme_state \<Rightarrow> (header_state \<times> theme_state) \<times> jstr option" where
  "layout_step e s = (let (h, th) = s in (case e of
      ScrollTo y \<Rightarrow> ((handleScroll y h, th), None)
    | ThemeClick \<Rightarrow> ((h, toggleTheme th), None)
    | MenuButton \<Rightarrow> ((h\<lparr>isMenuOpen := \<not> isMenuOpen h\<rparr>, th), None)
    | DesktopLink l \<Rightarrow> ((h, th), Some (link_path l))
    | MobileLink l \<Rightarrow> ((h\<lparr>isMenuOpen := False\<rparr>, th), Some (link_path l))
    | LogoLink \<Rightarrow> ((h, th), Some ''/'')))"

inductive layout_reach :: "header_state \<times> theme_state \<Rightarrow> bool" where
  mount: "layout_reach (header_init, theme_mount prefersDark (theme_init saved))"
| step: "layout_reach s \<Longrightarrow> header_enabled isMobile (fst s) e \<Longrightarrow> layout_reach (fst (layout_step e s))"

section \<open>Lemmas\<close>

text \<open>Every page of the menu is reachable from both the desktop bar and the mobile menu.\<close>

lemma menu_paths:
  "map (\<lambda>i. link_path (Some i)) [0..<length menuItems] = [''/'', ''/templates'', ''/builder'', ''/pricing'', ''/contact'']"
  by (simp add: link_path_def menuItems_def upt_rec)

text \<open>The header's events leave the theme alone, except the theme button, which toggles it.\<close>

lemma layout_step_theme:
  "snd (fst (layout_step e s)) = (if e = ThemeClick then toggleTheme (snd s) else snd s)"
  by (cases s; cases e) (simp_all add: layout_step_def)

lemma layout_reach_theme: "layout_reach s \<Longrightarrow> theme_reach (snd s)"
proof (induction rule: layout_reach.induct)
  case (mount prefersDark saved)
  show ?case by (simp add: theme_reach.mount)
next
  case (step s isMobile e)
  then show ?case by (simp add: layout_step_theme theme_reach.toggle)
qed

end
