(* ===== verification/Home.thy ===== *)
theory Home
  imports Prelude Preview
begin

text \<open>
  The home page \<open>pages/Index.tsx\<close> with its lazily loaded sections and the skeleton
  placeholder \<open>components/ui/loading-state.tsx\<close>. The sections' own markup is static.
  Each section is an element named after its component. Each \<open>Suspense\<close> boundary
  shows its fallback until its lazy chunk has loaded. The two chunks load independently,
  in either order.
\<close>

datatype skeleton_variant = SkCard | SkButton | SkText | SkImage | SkForm

text \<open>\<open>renderSkeleton\<close>: the skeleton blocks of each variant (class names dropped).\<close>

definition sk :: node where
  "sk = el ''Skeleton'' []"

definition renderSkeleton :: "skeleton_variant \<Rightarrow> node" where
  "renderSkeleton v = (case v of
      SkCard \<Rightarrow> el ''div'' [sk, sk, sk, el ''div'' [sk, sk]]
    | SkButton \<Rightarrow> sk
    | SkImage \<Rightarrow> sk
    | SkForm \<Rightarrow> el ''div'' [el ''div'' [sk, sk], el ''div'' [sk, sk], el ''div'' [sk, sk]]
    | SkText \<Rightarrow> sk)"

text \<open>
  \<open>LoadingState\<close> with its defaults (\<open>variant = "text"\<close>, \<open>count = 1\<close>):
  \<open>Array.from({ length: count })\<close> renders the skeleton \<open>count\<close> times.
\<close>

definition LoadingState :: "skeleton_variant option \<Rightarrow> nat option \<Rightarrow> node list" where
  "LoadingState variant cnt =
     replicate (case cnt of None \<Rightarrow> 1 | Some n \<Rightarrow> n)
       (el ''div'' [renderSkeleton (case variant of None \<Rightarrow> SkText | Some v \<Rightarrow> v)])"

text \<open>Which lazy chunks have loaded.\<close>

record index_state =
  testimonialsLoaded :: bool
  ctaLoaded :: bool

definition index_init :: index_state where
  "index_init = \<lparr>testimonialsLoaded = False, ctaLoaded = False\<rparr>"

definition suspense :: "bool \<Rightarrow> node list \<Rightarrow> node \<Rightarrow> node list" where
  "suspense loaded fallback child = (if loaded then [child] else fallback)"

definition Index :: "index_state \<Rightarrow> node" where
  "Index st =
     el ''div''
       ([el ''HeroSection'' [], el ''FeaturesSection'' []]
        @ suspense (testimonialsLoaded st) (LoadingState (Some SkCard) (Some 3)) (el ''TestimonialsSection'' [])
        @ suspense (ctaLoaded st) (LoadingState (Some SkText) (Some 2)) (el ''CallToActionSection'' []))"

datatype chunk = TestimonialsChunk | CtaChunk

definition chunk_loaded :: "chunk \<Rightarrow> index_state \<Rightarrow> index_state" where
  "chunk_loaded c st = (case c of
      TestimonialsChunk \<Rightarrow> st\<lparr>testimonialsLoaded := True\<rparr>
    | CtaChunk \<Rightarrow> st\<lparr>ctaLoaded := True\<rparr>)"

section \<open>Lemmas\<close>

text \<open>Before any chunk arrives the page shows three card skeletons and two text skeletons.\<close>

lemma Index_initial:
  "Index index_init = el ''div'' ([el ''HeroSection'' [], el ''FeaturesSection'' []]
     @ replicate 3 (el ''div'' [renderSkeleton SkCard]) @ replicate 2 (el ''div'' [renderSkeleton SkText]))"
  by (simp add: Index_def index_init_def suspense_def LoadingState_def)

text \<open>The two chunks may arrive in either order; the final page is the same, with no skeleton.\<close>

lemma Index_chunks_commute:
  "chunk_loaded a (chunk_loaded b st) = chunk_loaded b (chunk_loaded a st)"
  by (cases a; cases b) (simp_all add: chunk_loaded_def)

lemma Index_loaded:
  "Index (chunk_loaded CtaChunk (chunk_loaded TestimonialsChunk st))
     = el ''div'' [el ''HeroSection'' [], el ''FeaturesSection'' [], el ''TestimonialsSection'' [],
                   el ''CallToActionSection'' []]"
  by (simp add: Index_def chunk_loaded_def suspense_def)

end
