(* ===== verification/Site.thy ===== *)
theory Site
  imports Prelude Country Header Home Gallery
begin

text \<open>
  The site's navigation markup: the header bar (\<open>components/layout/Header.tsx\<close>), the
  footer (\<open>components/layout/Footer.tsx\<close>), the layout that frames every page with them
  (\<open>components/layout/Layout.tsx\<close>), the four sections of the home page
  (\<open>components/home/\<close>) and the templates page (\<open>pages/Templates.tsx\<close>). A rendered tree is an \<open>'e snode\<close>: texts, glyphs outside
  Latin-1, elements, images (by their \<open>alt\<close> text), icons, links with their
  \<open>to\<close> path and buttons with their \<open>aria-label\<close>. A link or a button carries the
  event of the header's model (\<open>Header\<close>) that a click on it is, or \<open>None\<close> where the
  click only navigates or has no handler. Class names, styles and image sources are dropped.
  \<open>Button asChild\<close> renders its child, so such a button is the link it wraps.
\<close>

section \<open>Markup with links and handlers\<close>

datatype 'e snode =
    SText jstr
  | SGlyph nat
  | SEl jstr "'e snode list"
  | SImg jstr
  | SIcon jstr
  | SCountryIcon country
  | SLink jstr "'e option" "'e snode list"
  | SButton jstr "'e option" "'e snode list"
  | SThumb jstr

text \<open>The link targets of a tree in document order, and the events of its controls.\<close>

primrec links :: "'e snode \<Rightarrow> jstr list" where
  "links (SText s) = []"
| "links (SGlyph n) = []"
| "links (SEl t cs) = concat (map links cs)"
| "links (SImg a) = []"
| "links (SIcon i) = []"
| "links (SCountryIcon c) = []"
| "links (SLink p e cs) = p # concat (map links cs)"
| "links (SThumb i) = []"
| "links (SButton a e cs) = concat (map links cs)"

primrec targets :: "'e snode \<Rightarrow> (jstr \<times> 'e) list" where
  "targets (SText s) = []"
| "targets (SGlyph n) = []"
| "targets (SEl t cs) = concat (map targets cs)"
| "targets (SImg a) = []"
| "targets (SIcon i) = []"
| "targets (SCountryIcon c) = []"
| "targets (SLink p e cs) = (case e of None \<Rightarrow> [] | Some x \<Rightarrow> [(p, x)]) @ concat (map targets cs)"
| "targets (SThumb i) = []"
| "targets (SButton a e cs) = concat (map targets cs)"

primrec handlers :: "'e snode \<Rightarrow> 'e list" where
  "handlers (SText s) = []"
| "handlers (SGlyph n) = []"
| "handlers (SEl t cs) = concat (map handlers cs)"
| "handlers (SImg a) = []"
| "handlers (SIcon i) = []"
| "handlers (SCountryIcon c) = []"
| "handlers (SLink p e cs) = (case e of None \<Rightarrow> [] | Some x \<Rightarrow> [x]) @ concat (map handlers cs)"
| "handlers (SThumb i) = []"
| "handlers (SButton a e cs) = (case e of None \<Rightarrow> [] | Some x \<Rightarrow> [x]) @ concat (map handlers cs)"

text \<open>The buttons of a tree with their \<open>aria-label\<close> and event, in document order.\<close>

primrec buttons :: "'e snode \<Rightarrow> (jstr \<times> 'e option) list" where
  "buttons (SText s) = []"
| "buttons (SGlyph n) = []"
| "buttons (SEl t cs) = concat (map buttons cs)"
| "buttons (SImg a) = []"
| "buttons (SIcon i) = []"
| "buttons (SCountryIcon c) = []"
| "buttons (SLink p e cs) = concat (map buttons cs)"
| "buttons (SThumb i) = []"
| "buttons (SButton a e cs) = (a, e) # concat (map buttons cs)"

text \<open>\<open>textContent\<close>: the texts of a tree in document order (glyphs are not Latin-1 text).\<close>

primrec textContent :: "'e snode \<Rightarrow> jstr" where
  "textContent (SText s) = s"
| "textContent (SGlyph n) = []"
| "textContent (SEl t cs) = concat (map textContent cs)"
| "textContent (SImg a) = []"
| "textContent (SIcon i) = []"
| "textContent (SCountryIcon c) = []"
| "textContent (SLink p e cs) = concat (map textContent cs)"
| "textContent (SThumb i) = []"
| "textContent (SButton a e cs) = concat (map textContent cs)"

primrec icons :: "'e snode \<Rightarrow> jstr list" where
  "icons (SText s) = []"
| "icons (SGlyph n) = []"
| "icons (SEl t cs) = concat (map icons cs)"
| "icons (SImg a) = []"
| "icons (SIcon i) = [i]"
| "icons (SCountryIcon c) = []"
| "icons (SLink p e cs) = concat (map icons cs)"
| "icons (SThumb i) = []"
| "icons (SButton a e cs) = concat (map icons cs)"

section \<open>The header bar\<close>

text \<open>
  The header's JSX for a viewport, the layout's \<open>isDarkMode\<close> and the header state.
  The desktop navigation and its \<open>Create Resume\<close> button exist on a desktop viewport,
  the menu button on a mobile one, the drop-down menu on a mobile one while it is open.
\<close>

definition menu_link :: "(nat option \<Rightarrow> header_event) \<Rightarrow> nat \<times> jstr \<times> jstr \<Rightarrow> header_event snode" where
  "menu_link ev item = (case item of (i, label, path) \<Rightarrow> SLink path (Some (ev (Some i))) [SText label])"

definition Header_view :: "bool \<Rightarrow> bool \<Rightarrow> header_state \<Rightarrow> header_event snode" where
  "Header_view isMobile isDark st =
     SEl ''header''
      ([SEl ''div''
         ([SLink ''/'' (Some LogoLink) [SImg ''GlobeCraft Resume'', SEl ''span'' [SText ''Global Craft'']]]
          @ (if \<not> isMobile then [SEl ''nav'' (map (menu_link DesktopLink) (enumerate 0 menuItems))] else [])
          @ [SEl ''div''
              ([SButton (if isDark then ''Switch to light mode'' else ''Switch to dark mode'') (Some ThemeClick)
                  [SIcon (if isDark then ''SunIcon'' else ''MoonIcon'')]]
               @ (if \<not> isMobile then [SLink ''/builder'' (Some (DesktopLink None)) [SText ''Create Resume'']] else [])
               @ (if isMobile then [SButton (if isMenuOpen st then ''Close menu'' else ''Open menu'') (Some MenuButton)
                                      [SIcon (if isMenuOpen st then ''XIcon'' else ''MenuIcon'')]] else []))])]
       @ (if isMobile \<and> isMenuOpen st
          then [SEl ''div'' [SEl ''nav'' (map (menu_link MobileLink) (enumerate 0 menuItems)
                  @ [SEl ''div'' [SLink ''/builder'' (Some (MobileLink None)) [SText ''Create Resume'']]])]]
          else []))"


section \<open>The footer\<close>

record footer_link =
  fl_label :: jstr
  fl_path :: jstr

record footer_section =
  fs_title :: jstr
  fs_links :: "footer_link list"

definition mk_links :: "(jstr \<times> jstr) list \<Rightarrow> footer_link list" where
  "mk_links ls = map (\<lambda>(l, p). \<lparr>fl_label = l, fl_path = p\<rparr>) ls"

definition footerLinks :: "footer_section list" where
  "footerLinks =
     [\<lparr>fs_title = ''Product'', fs_links = mk_links
        [(''Templates'', ''/templates''), (''Resume Builder'', ''/builder''), (''Pricing'', ''/pricing''),
         (''Features'', ''/features'')]\<rparr>,
      \<lparr>fs_title = ''Resources'', fs_links = mk_links
        [(''Resume Tips'', ''/tips''), (''Country Guides'', ''/guides''), (''FAQ'', ''/faq''), (''Blog'', ''/blog'')]\<rparr>,
      \<lparr>fs_title = ''Company'', fs_links = mk_links
        [(''About Us'', ''/about''), (''Contact'', ''/contact''), (''Privacy Policy'', ''/privacy''),
         (''Terms of Service'', ''/terms'')]\<rparr>]"

definition footer_column :: "footer_section \<Rightarrow> 'e snode" where
  "footer_column sec =
     SEl ''div'' [SEl ''h3'' [SText (fs_title sec)],
                  SEl ''ul'' (map (\<lambda>l. SEl ''li'' [SLink (fl_path l) None [SText (fl_label l)]]) (fs_links sec))]"

text \<open>
  The copyright line as the file has it: its first two characters are the bytes of the
  UTF-8 encoding of the copyright sign read as Latin-1 text, U+00C2 U+00A9.
\<close>

definition copyright_line :: "nat \<Rightarrow> 'e snode list" where
  "copyright_line currentYear =
     [SText [CHR 0xC2, CHR 0xA9, CHR '' ''], SText (js_num_str currentYear),
      SText '' GlobeCraft Resume. All rights reserved.'']"

text \<open>\<open>Footer\<close>, with \<open>new Date().getFullYear()\<close> as its argument. The social buttons
  have no \<open>onClick\<close>.\<close>

definition Footer :: "nat \<Rightarrow> 'e snode" where
  "Footer currentYear =
     SEl ''footer'' [SEl ''div''
       [SEl ''div''
         (SEl ''div''
            [SLink ''/'' None [SImg ''GlobeCraft Resume'', SEl ''span'' [SText ''GlobeCraft'']],
             SEl ''p'' [SText ''Build your international career with country-specific, ATS-friendly resumes.''],
             SEl ''div'' [SButton ''Twitter'' None [SIcon ''TwitterIcon''], SButton ''LinkedIn'' None [SIcon ''LinkedinIcon''],
                          SButton ''GitHub'' None [SIcon ''GithubIcon'']]]
          # map footer_column footerLinks),
        SEl ''div'' [SEl ''div'' (copyright_line currentYear),
                     SEl ''div'' [SIcon ''GlobeIcon'', SEl ''span'' [SText ''Supporting job seekers worldwide'']]]]]"


section \<open>The home page's sections\<close>

text \<open>\<open>HeroSection\<close>: five country pills into \<open>/templates/<country>\<close>, the two main
  buttons, the three badges and the picture card.\<close>

definition hero_pill :: "country \<times> jstr \<Rightarrow> 'e snode" where
  "hero_pill p = (case p of (c, label) \<Rightarrow> SLink (''/templates/'' @ country_str c) None [SCountryIcon c, SText label])"

definition dot_badge :: "jstr \<Rightarrow> 'e snode" where
  "dot_badge s = SEl ''div'' [SEl ''div'' [], SEl ''span'' [SText s]]"

definition HeroSection :: "'e snode" where
  "HeroSection =
     SEl ''section''
      [SEl ''div'' [SEl ''div''
        [SEl ''div''
          [SEl ''div''
             [SEl ''h1'' [SEl ''span'' [SText ''Build Your''], SEl ''span'' [SText ''Global Career'']],
              SEl ''p'' [SText ''Create country-specific, ATS-optimized resumes for international job applications with our professional resume builder.'']],
           SEl ''div'' (map hero_pill [(Canada, ''Canada''), (Germany, ''Germany''), (Australia, ''Australia''),
                                     (Portugal, ''Portugal/EU''), (USA, ''USA'')]),
           SEl ''div'' [SLink ''/builder'' None [SText ''Start Building Your Resume''],
                        SLink ''/templates'' None [SText ''Browse Templates'']],
           SEl ''div'' (map dot_badge [''Free to start'', ''ATS-optimized'', ''Global standards''])],
         SEl ''div'' [SEl ''div''
           [SEl ''div'' [],
            SEl ''div''
              [SImg ''Professional Resume Templates for International Job Applications'',
               SEl ''div'' [SEl ''div''
                 [SEl ''div'' [SEl ''p'' [SText ''ATS-Optimized Templates''],
                              SEl ''p'' [SText ''Trusted by professionals worldwide'']],
                  SEl ''div'' [SEl ''div'' [], SEl ''div'' [], SEl ''div'' []]]]]]]]],
       SEl ''div'' [SEl ''div'' [], SEl ''div'' [], SEl ''div'' []]]"

text \<open>\<open>FeaturesSection\<close>: the six feature cards (\<open>features\<close> in the source) and its
  call to action.\<close>

record feature =
  feature_icon :: jstr
  feature_title :: jstr
  feature_description :: jstr

definition features_home :: "feature list" where
  "features_home =
     [\<lparr>feature_icon = ''GlobeIcon'', feature_title = ''Country-Specific Templates'',
       feature_description = ''Tailored resume formats for Canada, Germany, Australia, Portugal/EU, and USA.''\<rparr>,
      \<lparr>feature_icon = ''FileTextIcon'', feature_title = ''ATS-Optimized'',
       feature_description = ''Machine-readable formats that pass through Applicant Tracking Systems.''\<rparr>,
      \<lparr>feature_icon = ''ZapIcon'', feature_title = ''Real-Time Preview'',
       feature_description = ''See changes instantly as you build and customize your resume.''\<rparr>,
      \<lparr>feature_icon = ''SearchIcon'', feature_title = ''Keyword Optimization'',
       feature_description = ''Match your skills and experience to job descriptions.''\<rparr>,
      \<lparr>feature_icon = ''DownloadIcon'', feature_title = ''PDF Export'',
       feature_description = ''Download high-quality, print-ready PDF files in A4 and Letter sizes.''\<rparr>,
      \<lparr>feature_icon = ''LanguagesIcon'', feature_title = ''Multi-language Support'',
       feature_description = ''Create resumes in multiple languages for international applications.''\<rparr>]"

definition feature_card :: "feature \<Rightarrow> 'e snode" where
  "feature_card f =
     SEl ''div'' [SEl ''div'' [],
                  SEl ''div'' [SEl ''div'' [SIcon (feature_icon f)], SEl ''h3'' [SText (feature_title f)],
                               SEl ''p'' [SText (feature_description f)]]]"

definition FeaturesSection :: "'e snode" where
  "FeaturesSection =
     SEl ''section'' [SEl ''div''
       [SEl ''div'' [SEl ''h2'' [SText ''Powerful Resume Building Features''],
                    SEl ''p'' [SText ''Everything you need to create professional, country-specific resumes that get you noticed by international employers.'']],
        SEl ''div'' (map feature_card features_home),
        SEl ''div'' [SEl ''div''
          [SEl ''h3'' [SText ''Ready to Start Your International Career Journey?''],
           SEl ''p'' [SText ''Join thousands of professionals who have successfully landed their dream jobs worldwide.''],
           SEl ''div'' [SLink ''/builder'' None [SText ''Create Your Resume Now''],
                        SLink ''/templates'' None [SText ''Explore Templates'']]]]]]"


text \<open>\<open>TestimonialsSection\<close>. A flag is two regional-indicator code points.
  \<open>Array.from({ length: testimonial.rating })\<close> renders \<open>rating\<close> stars.\<close>

record testimonial =
  t_name :: jstr
  t_role :: jstr
  t_company :: jstr
  t_country :: "nat list"
  t_image :: jstr
  t_content :: jstr
  t_rating :: nat

definition testimonials :: "testimonial list" where
  "testimonials =
     [\<lparr>t_name = ''Sarah Chen'', t_role = ''Software Engineer'', t_company = ''Microsoft Canada'',
       t_country = [0x1F1E8, 0x1F1E6],
       t_image = ''https://images.unsplash.com/photo-1566753323558-f4e0952af115?q=80&w=1021&auto=format&fit=crop&ixlib=rb-4.1.0&ixid=M3wxMjA3fDB8MHxwaG90by1wYWdlfHx8fGVufDB8fHx8fA%3D%3D'',
       t_content = ''GlobeCraft helped me land my dream job at Microsoft! The Canadian template was exactly what I needed, and the ATS optimization worked perfectly.'',
       t_rating = 5\<rparr>,
      \<lparr>t_name = ''Marcus Weber'', t_role = ''Data Scientist'', t_company = ''SAP Germany'',
       t_country = [0x1F1E9, 0x1F1EA],
       t_image = ''https://images.unsplash.com/photo-1615109398623-88346a601842?q=80&w=687&auto=format&fit=crop&ixlib=rb-4.1.0&ixid=M3wxMjA3fDB8MHxwaG90by1wYWdlfHx8fGVufDB8fHx8fA%3D%3D'',
       t_content = ''The German Lebenslauf format was spot-on. I received 3 job offers within 2 weeks of applying with my new resume.'',
       t_rating = 5\<rparr>,
      \<lparr>t_name = ''Emily Rodriguez'', t_role = ''Marketing Manager'', t_company = ''Atlassian Australia'',
       t_country = [0x1F1E6, 0x1F1FA],
       t_image = ''https://media.istockphoto.com/id/936335126/photo/smiling-businessman.jpg?s=612x612&w=0&k=20&c=yUElz9EgDsIWs18J_tfA6ac2_zgmoQJPTD5hp03kzrg='',
       t_content = ''The STAR method formatting helped me showcase my achievements perfectly. Highly recommend for anyone applying to Australian companies!'',
       t_rating = 5\<rparr>]"

definition quote_mark :: jstr where
  "quote_mark = [CHR 0x22]"

definition testimonial_card :: "testimonial \<Rightarrow> 'e snode" where
  "testimonial_card t =
     SEl ''Card''
      [SEl ''div'' [],
       SEl ''CardContent''
        [SEl ''div'' [SIcon ''QuoteIcon''],
         SEl ''blockquote'' [SText quote_mark, SText (t_content t), SText quote_mark],
         SEl ''div'' [SEl ''div''
           [SImg (t_name t),
            SEl ''div'' [SEl ''div'' [SEl ''h4'' [SText (t_name t)], SEl ''span'' (map SGlyph (t_country t))],
                         SEl ''p'' [SText (t_role t)], SEl ''p'' [SText (t_company t)]]]],
         SEl ''div'' (replicate (t_rating t) (SIcon ''StarIcon''))]]"

definition TestimonialsSection :: "'e snode" where
  "TestimonialsSection =
     SEl ''section'' [SEl ''div''
       [SEl ''div'' [SEl ''h2'' [SText ''Trusted by Professionals Worldwide''],
                    SEl ''p'' [SText ''See how our international resume templates have helped thousands of professionals land their dream jobs.'']],
        SEl ''div'' (map testimonial_card testimonials),
        SEl ''div'' [SEl ''div''
          [SEl ''div'' [SEl ''div'' (replicate 5 (SIcon ''StarIcon'')), SEl ''span'' [SText ''4.9/5'']],
           SEl ''h3'' [SText ''Join 50,000+ Professionals''],
           SEl ''p'' [SText ''Who have successfully created their international resumes with GlobeCraft''],
           SEl ''div'' (map dot_badge [''95% Success Rate'', ''60+ Countries Supported'', ''24/7 Support''])]]]]"

text \<open>\<open>CallToActionSection\<close>: two links and three figures.\<close>

definition cta_stat :: "jstr \<times> jstr \<Rightarrow> 'e snode" where
  "cta_stat p = (case p of (v, l) \<Rightarrow> SEl ''div'' [SEl ''div'' [SText v], SEl ''div'' [SText l]])"

definition CallToActionSection :: "'e snode" where
  "CallToActionSection =
     SEl ''section''
      [SEl ''div'' [],
       SEl ''div'' [SEl ''div''
         [SEl ''div'' [SIcon ''SparklesIcon''],
          SEl ''h2'' [SText ''Your Global Career'', SEl ''br'' [], SEl ''span'' [SText ''Starts Here'']],
          SEl ''p'' [SText ''Create your professional resume in minutes and open doors to international opportunities worldwide.''],
          SEl ''div'' [SLink ''/builder'' None [SText ''Start Building Now'', SIcon ''ArrowRightIcon''],
                       SLink ''/templates'' None [SText ''Browse Templates'']],
          SEl ''div'' (map cta_stat [(''50,000+'', ''Resumes Created''), (''95%'', ''Success Rate''),
                                    (''60+'', ''Countries Supported'')])]],
       SEl ''div'' [], SEl ''div'' []]"

section \<open>The layout and the home page\<close>

text \<open>
  \<open>mount\<close> renders the home page of \<open>Home\<close> (\<open>Index\<close>, where each section is an element
  named after its component) with each section's markup in place of its element.
\<close>

primrec mount :: "node \<Rightarrow> 'e snode" where
  "mount (Txt s) = SText s"
| "mount (Glyph n) = SGlyph n"
| "mount (El t a cs) =
     (if t = ''HeroSection'' then HeroSection
      else if t = ''FeaturesSection'' then FeaturesSection
      else if t = ''TestimonialsSection'' then TestimonialsSection
      else if t = ''CallToActionSection'' then CallToActionSection
      else SEl t (map mount cs))"

text \<open>\<open>Layout\<close>: the header, the routed page in \<open>main\<close> (the \<open>Outlet\<close>), the footer.\<close>

definition Layout_view ::
  "bool \<Rightarrow> header_state \<times> theme_state \<Rightarrow> header_event snode \<Rightarrow> nat \<Rightarrow> header_event snode" where
  "Layout_view isMobile s page currentYear =
     SEl ''div'' [Header_view isMobile (isDarkMode (snd s)) (fst s), SEl ''main'' [page], Footer currentYear]"



section \<open>The templates page\<close>

text \<open>
  \<open>pages/Templates.tsx\<close>: the tabs, the selected tab's cards and the closing card. A tab
  trigger's event is the country it selects (\<open>setSelectedCountry\<close>); Radix renders only
  the selected tab's content. \<open>SThumb\<close> is a \<open>TemplatePreview\<close> thumbnail, whose
  markup is \<open>Gallery.TemplatePreview\<close>.
\<close>

definition gallery_card :: "country \<Rightarrow> gallery_template \<Rightarrow> country snode" where
  "gallery_card c t =
     SEl ''Card''
      [SEl ''div'' (SThumb (gt_id t) # (if gt_isPremium t then [SEl ''Badge'' [SText ''Premium'']] else [])),
       SEl ''CardHeader''
         [SEl ''CardTitle'' (SText (gt_name t) # (if gt_isPremium t then [SEl ''Badge'' [SText ''Pro'']] else [])),
          SEl ''CardDescription'' [SText (gt_description t)]],
       SEl ''CardContent''
         [SEl ''ul'' (map (\<lambda>f. SEl ''li'' [SEl ''div'' [], SText f]) (features t)),
          SLink (''/builder?'' @ use_template_query c t) None [SText ''Use This Template'']]]"

definition Templates_page :: "country \<Rightarrow> country snode" where
  "Templates_page selectedCountry =
     SEl ''div'' [SEl ''div''
       [SEl ''div'' [SEl ''h1'' [SText ''Professional Resume Templates''],
                    SEl ''p'' [SText ''Choose from our collection of country-specific, ATS-optimized resume templates'']],
        SEl ''Tabs''
          (SEl ''TabsList''
             (map (\<lambda>ci. SButton (ci_name ci) (Some (ci_code ci)) [SCountryIcon (ci_code ci), SEl ''span'' [SText (ci_name ci)]])
                gallery_country_infos)
           # map (\<lambda>ci. SEl ''TabsContent''
                      [SEl ''div'' [SEl ''h2'' [SText (ci_name ci @ '' Templates'')], SEl ''p'' [SText (ci_description ci)]],
                       SEl ''div'' (map (gallery_card (ci_code ci)) (gallery_templates (ci_code ci)))])
               (filter (\<lambda>ci. ci_code ci = selectedCountry) gallery_country_infos)),
        SEl ''div'' [SEl ''Card''
          [SEl ''CardHeader'' [SEl ''CardTitle'' [SText ''Not sure which template to choose?''],
              SEl ''CardDescription'' [SText ''Our resume builder lets you switch between templates anytime during the creation process'']],
           SEl ''CardContent'' [SLink ''/builder'' None [SText ''Start with Blank Resume'']]]]]]"

section \<open>Lemmas\<close>

lemma menu_link_simps [simp]:
  "handlers (menu_link ev (i, l, p)) = [ev (Some i)]"
  "targets (menu_link ev (i, l, p)) = [(p, ev (Some i))]"
  "links (menu_link ev (i, l, p)) = [p]"
  by (simp_all add: menu_link_def)

lemma enumerate_menuItems:
  "enumerate 0 menuItems = [(0, ''Home'', ''/''), (1, ''Templates'', ''/templates''), (2, ''Builder'', ''/builder''),
                            (3, ''Pricing'', ''/pricing''), (4, ''Contact'', ''/contact'')]"
  by (simp add: menuItems_def enumerate_simps)

lemmas section_markup_defs = HeroSection_def hero_pill_def dot_badge_def FeaturesSection_def feature_card_def
  features_home_def TestimonialsSection_def testimonial_card_def testimonials_def CallToActionSection_def cta_stat_def

text \<open>The header bar's controls are exactly the enabled click events of the header's model.\<close>

lemma header_view_handlers:
  "set (handlers (Header_view isMobile isDark st))
     = {e. header_enabled isMobile st e \<and> (case e of ScrollTo y \<Rightarrow> False | _ \<Rightarrow> True)}"
proof (intro set_eqI iffI)
  fix e assume "e \<in> set (handlers (Header_view isMobile isDark st))"
  then show "e \<in> {e. header_enabled isMobile st e \<and> (case e of ScrollTo y \<Rightarrow> False | _ \<Rightarrow> True)}"
    by (auto simp: Header_view_def enumerate_menuItems header_enabled_def menuItems_def split: if_splits)
next
  fix e assume "e \<in> {e. header_enabled isMobile st e \<and> (case e of ScrollTo y \<Rightarrow> False | _ \<Rightarrow> True)}"
  then show "e \<in> set (handlers (Header_view isMobile isDark st))"
    by (cases e) (auto simp: Header_view_def enumerate_menuItems header_enabled_def menuItems_def
                     less_Suc_eq numeral_eq_Suc split: option.splits)
qed

text \<open>Every link of the header bar points where its event navigates in the model.\<close>

lemma header_view_targets:
  "(p, e) \<in> set (targets (Header_view isMobile isDark h)) \<Longrightarrow> snd (layout_step e (h, th)) = Some p"
  by (auto simp: Header_view_def enumerate_menuItems layout_step_def link_path_def menuItems_def split: if_splits)

text \<open>The footer and the home page's sections have no control of the header's model.\<close>

lemma footer_no_events [simp]: "handlers (Footer y) = []" "targets (Footer y) = []"
  by (simp_all add: Footer_def footerLinks_def footer_column_def mk_links_def copyright_line_def)

lemma mount_no_events [simp]: "handlers (mount n) = []" "targets (mount n) = []"
  by (induction n) (simp_all add: section_markup_defs)

text \<open>With both chunks loaded the home page is the four sections in order.\<close>

lemma home_loaded:
  "mount (Index (chunk_loaded CtaChunk (chunk_loaded TestimonialsChunk st)))
     = SEl ''div'' [HeroSection, FeaturesSection, TestimonialsSection, CallToActionSection]"
  by (simp add: Index_loaded)

text \<open>
  The footer's and the home page's link targets that are not among the five pages the
  header's menu names (the pages of \<open>src/pages/\<close>).
\<close>

lemma footer_dead_links:
  "filter (\<lambda>p. p \<notin> set (map snd menuItems)) (links (Footer y))
     = [''/features'', ''/tips'', ''/guides'', ''/faq'', ''/blog'', ''/about'', ''/privacy'', ''/terms'']"
  by (simp add: Footer_def footerLinks_def footer_column_def mk_links_def menuItems_def copyright_line_def)

lemma home_dead_links:
  "filter (\<lambda>p. p \<notin> set (map snd menuItems))
          (links (mount (Index (chunk_loaded CtaChunk (chunk_loaded TestimonialsChunk st)))))
     = [''/templates/canada'', ''/templates/germany'', ''/templates/australia'', ''/templates/portugal'',
        ''/templates/usa'']"
  by (simp add: home_loaded section_markup_defs menuItems_def)

text \<open>A testimonial card shows as many stars as its rating.\<close>

lemma testimonial_stars:
  "length (filter (\<lambda>i. i = ''StarIcon'') (icons (testimonial_card t))) = t_rating t"
  by (simp add: testimonial_card_def)

text \<open>The copyright line starts with U+00C2 U+00A9, not with the copyright sign U+00A9.\<close>

lemma footer_copyright:
  "textContent (SEl ''div'' (copyright_line y))
     = [CHR 0xC2, CHR 0xA9, CHR '' ''] @ js_num_str y @ '' GlobeCraft Resume. All rights reserved.''"
  by (simp add: copyright_line_def)



text \<open>The templates page's tabs select the five countries of the gallery, and every link
  of the page goes to the builder: the cards of the selected tab, then the blank one.\<close>

lemma gallery_card_simps [simp]:
  "handlers (gallery_card c t) = []"
  "links (gallery_card c t) = [''/builder?'' @ use_template_query c t]"
  by (simp_all add: gallery_card_def comp_def)

lemma templates_page_controls:
  "handlers (Templates_page c) = gallery_countries"
  by (simp add: Templates_page_def gallery_countries_def gallery_country_infos_def)

lemma templates_page_links:
  "c \<in> set gallery_countries \<Longrightarrow>
   links (Templates_page c) = map (\<lambda>t. ''/builder?'' @ use_template_query c t) (gallery_templates c) @ [''/builder'']"
  by (cases c) (simp_all add: Templates_page_def gallery_countries_def gallery_country_infos_def comp_def)


lemma templates_page_links_builder:
  assumes "c \<in> set gallery_countries" and "p \<in> set (links (Templates_page c))"
  shows "takeWhile (\<lambda>x. x \<noteq> CHR ''?'') p = ''/builder''"
  using assms(2) by (auto simp: templates_page_links [OF assms(1)])


lemma mount_no_buttons [simp]: "buttons (mount n) = []"
  by (induction n) (simp_all add: section_markup_defs)


section \<open>Properties\<close>

text \<open>On the home page inside the layout, the clickable controls are exactly the click
  events the header's model enables in the current viewport and menu state (the footer and
  the sections add none), and every such link points to the path its event navigates to.\<close>

lemma layout_home_controls:
  "set (handlers (Layout_view isMobile s (mount (Index ist)) y))
     = {e. header_enabled isMobile (fst s) e \<and> (case e of ScrollTo n \<Rightarrow> False | _ \<Rightarrow> True)}
   \<and> set (targets (Layout_view isMobile s (mount (Index ist)) y)) \<subseteq> {(p, e). snd (layout_step e s) = Some p}"
proof -
  obtain h th where s: "s = (h, th)" by (cases s)
  have "set (targets (Header_view isMobile (isDarkMode th) h)) \<subseteq> {(p, e). snd (layout_step e (h, th)) = Some p}"
    using header_view_targets by blast
  then show ?thesis by (simp add: Layout_view_def s header_view_handlers)
qed

text \<open>
  C32. In every state of the layout the theme button tells the truth: on the home page its
  label offers the light mode exactly when the document element has the \<open>dark\<close> class.
  The label comes from the header's JSX and the layout's \<open>isDarkMode\<close>, the class from
  the layout's mount effect and \<open>toggleTheme\<close>.
\<close>

theorem layout_theme_button_label:
  assumes "layout_reach s" and "(a, Some ThemeClick) \<in> set (buttons (Layout_view isMobile s (mount (Index ist)) y))"
  shows "a = (if html_dark (snd s) then ''Switch to light mode'' else ''Switch to dark mode'')"
proof -
  have "html_dark (snd s) = isDarkMode (snd s)"
    using theme_reach_class [OF layout_reach_theme [OF assms(1)]] .
  with assms(2) show ?thesis
    by (auto simp: Layout_view_def Header_view_def Footer_def footerLinks_def footer_column_def mk_links_def
        copyright_line_def enumerate_menuItems menu_link_def split: if_splits)
qed

text \<open>C32, on a desktop after a load with \<open>dark\<close> stored.\<close>

theorem layout_theme_button_label_witness:
  "layout_reach (header_init, theme_mount False (theme_init (Some ''dark'')))
   \<and> (''Switch to light mode'', Some ThemeClick)
       \<in> set (buttons (Layout_view False (header_init, theme_mount False (theme_init (Some ''dark'')))
                        (mount (Index index_init)) 2025))
   \<and> html_dark (theme_mount False (theme_init (Some ''dark'')))"
proof -
  have r: "layout_reach (header_init, theme_mount False (theme_init (Some ''dark'')))"
    by (rule layout_reach.mount)
  have m: "(''Switch to light mode'', Some ThemeClick)
       \<in> set (buttons (Layout_view False (header_init, theme_mount False (theme_init (Some ''dark'')))
                        (mount (Index index_init)) 2025))"
    by (simp add: Layout_view_def Header_view_def theme_mount_def theme_init_def js_truthy_def Let_def)
  from layout_theme_button_label [OF r m] r m show ?thesis by (simp split: if_splits)
qed

end
