(* ===== verification/Spec2Isabelle.thy ===== *)
theory Spec2Isabelle
  imports Prelude Country Sections PdfExport FormData Preview Builder Editors Gallery Theme Contact
    Pricing Header Home Site
begin

text \<open>
  \<^bold>\<open>Resume builder: a verification development.\<close>

  The program (\<open>src/src/\<close>) is a React single-page application. The builder page
  \<open>pages/ResumeBuilder.tsx\<close> owns the resume state: the country, the template id, the
  form data and the section list. It passes slices of the form data to four section
  editors (\<open>components/builder/sections/\<close>), which report changes through
  \<open>onChange\<close>. It also receives the section list from the registry
  \<open>components/builder/SectionReorder.tsx\<close> through \<open>onSectionsChange\<close>, and the
  country and template choices from \<open>components/builder/TemplateSelection.tsx\<close>. It
  renders \<open>components/builder/ResumePreview.tsx\<close> and exports that rendered element with
  \<open>utils/pdfExport.ts\<close>. The model is a shallow embedding:
  \<^item> React state is a record;
  \<^item> a handler is a function returning the new state and the payload of the callback it
    calls;
  \<^item> the JSX's rendering guards (which buttons exist, which inputs are enabled) are
    bool-valued \<open>*_enabled\<close> functions;
  \<^item> a session of a component is an inductive reachability relation over enabled events.

  \<^bold>\<open>Theories.\<close>
  \<^item> \<^bold>\<open>Prelude\<close>: The JavaScript primitives the code relies on, with their lemmas:
    \<open>||\<close> on optional strings, \<open>trim\<close> and its idempotence, \<open>toLowerCase\<close>,
    \<open>includes\<close> (equal to \<open>sublist\<close>), \<open>replace\<close> of the first occurrence,
    \<open>splice\<close>, and the decimal rendering \<open>js_num_str\<close> of \<open>Date.now().toString()\<close>
    with its inverse and injectivity. It also models the ECMAScript loop of a global
    regular-expression \<open>replace\<close> (\<open>regex_collect\<close>, a \<open>partial_function\<close>)
    and proves it returns.
  \<^item> \<^bold>\<open>Country\<close>: The \<open>CountryType\<close> union, the deep-link whitelist
    (\<open>parse_country\<close>) and \<open>getRecommendedPageSize\<close> (C11). It also holds the template
    catalogue, the country tabs and the callbacks of \<open>TemplateSelection.tsx\<close>.
  \<^item> \<^bold>\<open>Sections\<close>: \<open>SectionReorder.tsx\<close>: the record \<open>reorder_state\<close> for
    \<open>sections\<close>, \<open>customSectionTitle\<close> and \<open>isAddingCustom\<close>, and each handler.
    \<open>handleDragEnd\<close> has splice semantics; an out-of-range source is the error value
    \<open>Inl UndefinedSection\<close>. The other handlers are \<open>toggleSectionVisibility\<close>,
    \<open>removeSection\<close>, \<open>addCustomSection\<close> and \<open>applyCountryRecommendations\<close>. Events
    are dispatched by \<open>reorder_dispatch\<close> under the guards \<open>reorder_enabled\<close>, and
    sessions are \<open>reorder_reach\<close>. The invariant \<open>sections_inv\<close> says the ids are
    distinct, the built-in sections are the eight defaults up to order and visibility,
    and every custom id carries a past timestamp. \<open>section_typed\<close> is the typing of
    \<open>ResumeSection\<close> (C9). \<open>reorder_run\<close> executes a list of user events, and is
    used for the liveness property C10 (every section can be shown again). The
    properties are C1--C10, and C5 is a refinement of the string-keyed recommendation
    table by \<open>recommended_types\<close>.
  \<^item> \<^bold>\<open>PdfExport\<close>: \<open>exportResumeToPDF\<close>, with its option defaults, the thrown
    not-found error (\<open>Inl\<close>), the caught html2pdf failure, and the date-stamped file name
    with the JavaScript \<open>includes\<close>/\<open>replace\<close> semantics. It also models
    \<open>generateATSFilename\<close> with its regular-expression replacements. The DOM lookup,
    the ISO date and html2pdf are parameters. Properties C12--C15. The lemma
    \<open>ats_replacements_return\<close> shows that the two global regular-expression
    replacements of \<open>generateATSFilename\<close>, run by the modelled ECMAScript loop, return
    the strings \<open>clean_name\<close> and \<open>clean_position\<close> compute.
  \<^item> \<^bold>\<open>FormData\<close>: The profile, experience, education and skills records and the
    builder's initial \<open>formData\<close>.
  \<^item> \<^bold>\<open>Preview\<close>: Each template of \<open>ResumePreview.tsx\<close> as a tree of elements and
    texts, with class names dropped. It covers \<open>generatePreview\<close>, the card with the
    \<open>resume-preview-content\<close> element, and \<open>find_id\<close> for \<open>getElementById\<close>.
    The DOM's specification of \<open>getElementById\<close>, the first match in tree order
    (\<open>preorder\<close>), is the reference \<open>find_id\<close> is proved equal to. The lemmas
    record that the templates ignore the list sections and the template id, against the
    comments of \<open>ResumePreview.tsx\<close> (findings).
  \<^item> \<^bold>\<open>Builder\<close>: \<open>ResumeBuilder.tsx\<close>: the record \<open>builder_state\<close>, which includes
    the URL query string and the \<open>localStorage\<close> slot. It covers the mount and URL
    effects and every handler (country, template, form data, sections, save, and export
    with its toasts). Sessions are \<open>builder_reach\<close>. \<open>builder_sys_reach\<close> composes
    the builder with the section registry through \<open>onSectionsChange\<close>. The registry
    is mounted only while its tab is open and restarts at its defaults at each opening;
    \<open>builder_sys_remount_disagree\<close> shows the resulting disagreement is reachable.
    Properties C16--C20.
    The lemmas \<open>builder_step_resumeData\<close> and \<open>builder_mount_ignores_storage\<close> show
    that only Save writes the \<open>localStorage\<close> slot and that no session reads it.
  \<^item> \<^bold>\<open>Editors\<close>: The four section editors, each with its handlers, rendering guards,
    tips, and a session paired with the parent's copy of its slice
    (\<open>*_sys_reach\<close>). The id lemmas (\<open>ids_ok\<close>) are stated once over the id field and
    used by both list editors. Properties C21--C29; the tips' empty fallbacks are shown
    unreachable (\<open>country_tips_defined\<close>).
  \<^item> \<^bold>\<open>Pricing\<close>: \<open>pages/Pricing.tsx\<close>, with the plans, the monthly/annual switch and
    the cards. Prices are whole cents, and \<open>js_cents_str\<close> is their
    \<open>toString\<close>. \<open>Pricing_page\<close> is the whole page with the FAQ and the call to
    action; \<open>pricing_buttons\<close> lists its five buttons, none of which has a handler.
    The lemma \<open>plans_save_20\<close> checks the \<open>Save 20%\<close> badge against the prices.
  \<^item> \<^bold>\<open>Header\<close>: \<open>components/layout/Header.tsx\<close> within the layout. It covers the
    menu and scroll flags, the navigation links, the logo and the theme button. Its events are
    composed with \<open>Theme\<close> (\<open>layout_step\<close>), and \<open>layout_reach_theme\<close> shows every
    layout state carries a theme state of a page load.
  \<^item> \<^bold>\<open>Home\<close>: \<open>pages/Index.tsx\<close>, where two \<open>Suspense\<close> boundaries show
    \<open>LoadingState\<close> skeletons until their lazy chunks arrive, in either order.
    \<open>CountryIcon\<close>'s classes are in \<open>Country\<close>.
  \<^item> \<^bold>\<open>Site\<close>: The navigation markup of every page. It holds the header bar's JSX
    (\<open>Header_view\<close>), the footer (\<open>Footer\<close>, \<open>footerLinks\<close>), the four sections
    of \<open>components/home/\<close> with their data (\<open>features\<close>, \<open>testimonials\<close>), and
    \<open>Layout_view\<close>, which frames a page with the header and the footer. \<open>mount\<close>
    puts the sections' markup into the home page of \<open>Home\<close>. A tree (\<open>snode\<close>) keeps
    the links' paths and tags each control with its event of the \<open>Header\<close> model, so
    the rendered controls can be compared with the events the model enables
    (\<open>layout_home_controls\<close>). The lemmas list the footer's and the home page's links to
    paths that no page of the repository serves. \<open>Templates_page\<close> is the gallery
    page (\<open>pages/Templates.tsx\<close>): its tab triggers select the gallery's countries and
    all its links go to the builder. Property C32 (\<open>layout_theme_button_label\<close>)
    combines the header's markup with the theme invariant: in every layout state the theme
    button offers the light mode exactly when the document has the dark class.
  \<^item> \<^bold>\<open>Gallery\<close>: \<open>pages/Templates.tsx\<close> and \<open>TemplatePreview.tsx\<close>. It holds the
    gallery's own catalogue and tabs, and the \<open>Use This Template\<close> deep link, read
    back by the builder's mount effect (\<open>open_builder\<close>). It also covers the
    thumbnail style lookup and the thumbnail's markup (\<open>TemplatePreview\<close>, nested
    \<open>div\<close>s with their class strings). Property C30.
  \<^item> \<^bold>\<open>Theme\<close>: \<open>components/layout/Layout.tsx\<close>, with the dark-mode state, the
    document class and the \<open>theme\<close> slot of \<open>localStorage\<close>; page loads are
    \<open>theme_reach\<close> and reloads are \<open>theme_reload\<close>. Property C31.
  \<^item> \<^bold>\<open>Contact\<close>: \<open>pages/Contact.tsx\<close>. The asynchronous submit is split into the
    submit and timer events. The lemmas show that the button is disabled exactly while
    the timer runs, that a submission in flight always completes (C33), that the category is
    one of the select's values, and that the validation toast is unreachable behind the
    browser's \<open>required\<close> check. \<open>Contact_page\<close> is the page's markup: the contact
    cards, the form (each input shows its value or its placeholder, the select its item's
    label) and the FAQ.

  \<^bold>\<open>Clock, bounds and termination.\<close> \<open>Date.now()\<close> is a natural number. The session
  relations require it to increase strictly from event to event (\<open>t < now\<close>). Timestamp
  ids are distinct under that assumption and not otherwise; this is recorded as a finding.
  Every operation is a structural \<open>fun\<close>, a \<open>primrec\<close> or a non-recursive
  definition, except the global-replace loop of \<open>Prelude\<close>. That loop is a
  \<open>partial_function (option)\<close> whose return is proved (\<open>js_replace_global_returns\<close>), so no fuel is needed.
  It is the program's only unbounded loop, the one inside \<open>String.prototype.replace\<close>
  with a global regular expression. The other recursive functions of the model
  (\<open>js_num_str\<close>, \<open>split_on\<close>, \<open>find_id\<close>, \<open>reorder_run\<close>, the tree walks
  of \<open>Site\<close>) are total by their \<open>fun\<close> or \<open>primrec\<close> definitions.
  The properties about sessions hold at every reachable state, by rule induction.

  \<^bold>\<open>Not modelled.\<close>
  \<^item> Rendering details: class names (except in the thumbnails), styles and tooltips;
    icons appear by name only.
  \<^item> The Save buttons of the editors, which have no handler.
  \<^item> The button styling primitive (\<open>components/ui/button.tsx\<close>): a table of class
    names whose conflicts the tailwind-merge library resolves. It has no state and no
    handler.
  \<^item> The router: the route table is not part of the repository. The pages a path reaches
    are taken to be the five of \<open>src/pages/\<close>, the ones the header's menu names.
  \<^item> The third-party libraries (html2pdf.js, react-beautiful-dnd, Radix tabs, the
    router). Their observable results are parameters or events of the model.
\<close>

end
